theory Spec2Isabelle
  imports Complex_Main "HOL-Library.AList"
begin

section \<open>Python values\<close>

text \<open>
  The agents exchange dictionaries with string keys and values of any type
  (\<^verbatim>\<open>Dict[str, Any]\<close>). A dictionary is an association list in insertion order with
  pairwise distinct keys, as Python iterates it. Floats are idealised as reals, and strings
  are lists of ASCII characters. A local variable of the source whose name is also the name
  of a record field here is written with the prefix \<open>v_\<close>.
\<close>

datatype pyval =
    PNone
  | PBool bool
  | PNum real
  | PStr string
  | PList "pyval list"
  | PDict "(string \<times> pyval) list"
  | PEnum string string

type_synonym pydict = "(string \<times> pyval) list"

datatype exn =
    ValueError string
  | RuntimeError string
  | TypeError string
  | AttributeError string
  | KeyError string
  | Exception string

text \<open>\<^verbatim>\<open>str(e)\<close> of an exception is its message. The messages of the exceptions that the
  interpreter itself raises are abridged.\<close>

fun str_exn :: "exn \<Rightarrow> string" where
  "str_exn (ValueError m) = m"
| "str_exn (RuntimeError m) = m"
| "str_exn (TypeError m) = m"
| "str_exn (AttributeError m) = m"
| "str_exn (KeyError m) = m"
| "str_exn (Exception m) = m"

definition bind_exn :: "exn + 'a \<Rightarrow> ('a \<Rightarrow> exn + 'b) \<Rightarrow> exn + 'b" where
  "bind_exn x f = (case x of Inl e \<Rightarrow> Inl e | Inr v \<Rightarrow> f v)"

text \<open>\<^verbatim>\<open>d.get(k, default)\<close>, \<^verbatim>\<open>k in d\<close> and \<^verbatim>\<open>d[k] = v\<close>.\<close>

definition dict_get :: "pydict \<Rightarrow> string \<Rightarrow> pyval \<Rightarrow> pyval" where
  "dict_get d k dflt = (case map_of d k of None \<Rightarrow> dflt | Some v \<Rightarrow> v)"

definition has_key :: "string \<Rightarrow> (string \<times> 'v) list \<Rightarrow> bool" where
  "has_key k d = (map_of d k \<noteq> None)"

definition dict_set :: "string \<Rightarrow> 'v \<Rightarrow> (string \<times> 'v) list \<Rightarrow> (string \<times> 'v) list" where
  "dict_set k v d = AList.update k v d"

text \<open>Truth value of an object in a condition.\<close>

fun truthy :: "pyval \<Rightarrow> bool" where
  "truthy PNone = False"
| "truthy (PBool b) = b"
| "truthy (PNum x) = (x \<noteq> 0)"
| "truthy (PStr s) = (s \<noteq> [])"
| "truthy (PList xs) = (xs \<noteq> [])"
| "truthy (PDict d) = (d \<noteq> [])"
| "truthy (PEnum c n) = True"

text \<open>\<^verbatim>\<open>len(x)\<close> raises TypeError on an object without a length.\<close>

fun py_len :: "pyval \<Rightarrow> exn + nat" where
  "py_len (PStr s) = Inr (length s)"
| "py_len (PList xs) = Inr (length xs)"
| "py_len (PDict d) = Inr (length d)"
| "py_len v = Inl (TypeError ''object has no len()'')"

text \<open>Iterating: a list gives its elements, a string its characters, a dictionary its keys.\<close>

fun py_iter :: "pyval \<Rightarrow> exn + pyval list" where
  "py_iter (PList xs) = Inr xs"
| "py_iter (PStr s) = Inr (map (\<lambda>c. PStr [c]) s)"
| "py_iter (PDict d) = Inr (map (\<lambda>kv. PStr (fst kv)) d)"
| "py_iter v = Inl (TypeError ''object is not iterable'')"

text \<open>A number in a comparison or a float format; \<^verbatim>\<open>bool\<close> is a subclass of \<^verbatim>\<open>int\<close>.\<close>

fun as_number :: "pyval \<Rightarrow> exn + real" where
  "as_number (PNum x) = Inr x"
| "as_number (PBool b) = Inr (if b then 1 else 0)"
| "as_number v = Inl (TypeError ''not a number'')"

text \<open>\<^verbatim>\<open>any(p(x) for x in xs)\<close> stops at the first true element; an element that raises
  before that raises.\<close>

fun py_any :: "('a \<Rightarrow> exn + bool) \<Rightarrow> 'a list \<Rightarrow> exn + bool" where
  "py_any p [] = Inr False"
| "py_any p (x # xs) =
     (case p x of Inl e \<Rightarrow> Inl e | Inr b \<Rightarrow> if b then Inr True else py_any p xs)"

text \<open>A list comprehension with a condition that may raise.\<close>

fun py_filter :: "('a \<Rightarrow> exn + bool) \<Rightarrow> 'a list \<Rightarrow> exn + 'a list" where
  "py_filter p [] = Inr []"
| "py_filter p (x # xs) =
     (case p x of
        Inl e \<Rightarrow> Inl e
      | Inr b \<Rightarrow>
          (case py_filter p xs of
             Inl e \<Rightarrow> Inl e
           | Inr ys \<Rightarrow> Inr (if b then x # ys else ys)))"

text \<open>\<^verbatim>\<open>d.values()\<close> and \<^verbatim>\<open>d.get(k, default)\<close> exist on dictionaries only.\<close>

fun py_values :: "pyval \<Rightarrow> exn + pyval list" where
  "py_values (PDict d) = Inr (map snd d)"
| "py_values v = Inl (AttributeError ''object has no attribute values'')"

fun py_get :: "pyval \<Rightarrow> string \<Rightarrow> pyval \<Rightarrow> exn + pyval" where
  "py_get (PDict d) k dflt = Inr (dict_get d k dflt)"
| "py_get v k dflt = Inl (AttributeError ''object has no attribute get'')"

text \<open>\<^verbatim>\<open>v[k]\<close> with a string key: a dictionary looks the key up, a string or a list wants
  an integer index, anything else is not subscriptable.\<close>

fun py_getitem :: "pyval \<Rightarrow> string \<Rightarrow> exn + pyval" where
  "py_getitem (PDict d) k =
     (case map_of d k of None \<Rightarrow> Inl (KeyError k) | Some v \<Rightarrow> Inr v)"
| "py_getitem (PStr s) k = Inl (TypeError ''string indices must be integers'')"
| "py_getitem (PList xs) k = Inl (TypeError ''list indices must be integers or slices'')"
| "py_getitem v k = Inl (TypeError ''object is not subscriptable'')"

text \<open>\<^verbatim>\<open>xs.extend(v)\<close> appends what iterating \<open>v\<close> gives.\<close>

definition py_extend :: "pyval list \<Rightarrow> pyval \<Rightarrow> exn + pyval list" where
  "py_extend xs v = bind_exn (py_iter v) (\<lambda>items. Inr (xs @ items))"

text \<open>\<^verbatim>\<open>len(set(xs))\<close>: lists and dictionaries are unhashable, and \<^verbatim>\<open>True\<close> and
  \<^verbatim>\<open>False\<close> are equal to 1 and 0.\<close>

fun hashable :: "pyval \<Rightarrow> bool" where
  "hashable (PList xs) = False"
| "hashable (PDict d) = False"
| "hashable v = True"

fun hash_key :: "pyval \<Rightarrow> pyval" where
  "hash_key (PBool b) = PNum (if b then 1 else 0)"
| "hash_key v = v"

definition py_set_size :: "pyval list \<Rightarrow> exn + nat" where
  "py_set_size xs =
     (if list_all hashable xs then Inr (length (remdups (map hash_key xs)))
      else Inl (TypeError ''unhashable type''))"

subsection \<open>Strings\<close>

definition lower_char :: "char \<Rightarrow> char" where
  "lower_char c =
     (case map_of (zip ''ABCDEFGHIJKLMNOPQRSTUVWXYZ'' ''abcdefghijklmnopqrstuvwxyz'') c of
        None \<Rightarrow> c | Some l \<Rightarrow> l)"

definition upper_char :: "char \<Rightarrow> char" where
  "upper_char c =
     (case map_of (zip ''abcdefghijklmnopqrstuvwxyz'' ''ABCDEFGHIJKLMNOPQRSTUVWXYZ'') c of
        None \<Rightarrow> c | Some u \<Rightarrow> u)"

definition lower :: "string \<Rightarrow> string" where
  "lower s = map lower_char s"

definition upper :: "string \<Rightarrow> string" where
  "upper s = map upper_char s"

text \<open>\<^verbatim>\<open>s.replace(" ", "_")\<close>.\<close>

definition replace_space :: "string \<Rightarrow> string" where
  "replace_space s = map (\<lambda>c. if c = CHR '' '' then CHR ''_'' else c) s"

fun startswith :: "string \<Rightarrow> string \<Rightarrow> bool" where
  "startswith s [] = True"
| "startswith [] (k # ks) = False"
| "startswith (c # cs) (k # ks) = (c = k \<and> startswith cs ks)"

text \<open>\<^verbatim>\<open>k in s\<close> on strings: \<open>k\<close> occurs in \<open>s\<close> as a contiguous substring.\<close>

fun str_in :: "string \<Rightarrow> string \<Rightarrow> bool" where
  "str_in k [] = (k = [])"
| "str_in k (c # cs) = (startswith (c # cs) k \<or> str_in k cs)"

text \<open>\<^verbatim>\<open>any(keyword in s for keyword in keywords)\<close>.\<close>

definition any_in :: "string list \<Rightarrow> string \<Rightarrow> bool" where
  "any_in keywords s = list_ex (\<lambda>keyword. str_in keyword s) keywords"

text \<open>\<^verbatim>\<open>sum(1 for keyword in keywords if keyword in s)\<close>.\<close>

definition count_in :: "string list \<Rightarrow> string \<Rightarrow> nat" where
  "count_in keywords s = length (filter (\<lambda>keyword. str_in keyword s) keywords)"

text \<open>\<^verbatim>\<open>k in v\<close> for a string \<open>k\<close>: a key of a dictionary, an element of a list, a
  substring of a string.\<close>

fun py_contains :: "string \<Rightarrow> pyval \<Rightarrow> exn + bool" where
  "py_contains k (PDict d) = Inr (has_key k d)"
| "py_contains k (PList xs) = Inr (PStr k \<in> set xs)"
| "py_contains k (PStr s) = Inr (str_in k s)"
| "py_contains k v = Inl (TypeError ''argument is not iterable'')"

text \<open>\<^verbatim>\<open>v.lower()\<close> exists on strings only.\<close>

fun py_lower :: "pyval \<Rightarrow> exn + string" where
  "py_lower (PStr s) = Inr (lower s)"
| "py_lower v = Inl (AttributeError ''object has no attribute lower'')"

text \<open>\<^verbatim>\<open>str(n)\<close> of a natural number and \<^verbatim>\<open>sep.join(xs)\<close>.\<close>

fun str_nat :: "nat \<Rightarrow> string" where
  "str_nat n =
     (if n < 10 then [''0123456789'' ! n] else str_nat (n div 10) @ [''0123456789'' ! (n mod 10)])"

declare str_nat.simps [simp del]

fun join :: "string \<Rightarrow> string list \<Rightarrow> string" where
  "join sep [] = []"
| "join sep [x] = x"
| "join sep (x # y # ys) = x @ sep @ join sep (y # ys)"

section \<open>Quality metric model\<close>

datatype QualityScore = EXCELLENT | GOOD | SATISFACTORY | NEEDS_IMPROVEMENT | POOR

fun QualityScore_value :: "QualityScore \<Rightarrow> string" where
  "QualityScore_value EXCELLENT = ''excellent''"
| "QualityScore_value GOOD = ''good''"
| "QualityScore_value SATISFACTORY = ''satisfactory''"
| "QualityScore_value NEEDS_IMPROVEMENT = ''needs_improvement''"
| "QualityScore_value POOR = ''poor''"

fun QualityScore_name :: "QualityScore \<Rightarrow> string" where
  "QualityScore_name EXCELLENT = ''EXCELLENT''"
| "QualityScore_name GOOD = ''GOOD''"
| "QualityScore_name SATISFACTORY = ''SATISFACTORY''"
| "QualityScore_name NEEDS_IMPROVEMENT = ''NEEDS_IMPROVEMENT''"
| "QualityScore_name POOR = ''POOR''"

datatype QualityDimension =
  ACCURACY | COMPLETENESS | RELEVANCE | TIMELINESS | CONSISTENCY | CLARITY | ACTIONABILITY

fun QualityDimension_name :: "QualityDimension \<Rightarrow> string" where
  "QualityDimension_name ACCURACY = ''ACCURACY''"
| "QualityDimension_name COMPLETENESS = ''COMPLETENESS''"
| "QualityDimension_name RELEVANCE = ''RELEVANCE''"
| "QualityDimension_name TIMELINESS = ''TIMELINESS''"
| "QualityDimension_name CONSISTENCY = ''CONSISTENCY''"
| "QualityDimension_name CLARITY = ''CLARITY''"
| "QualityDimension_name ACTIONABILITY = ''ACTIONABILITY''"

record QualityMetric =
  dimension :: QualityDimension
  score :: real
  weight :: real
  description :: string
  issues :: "string list"
  recommendations :: "string list"

text \<open>The constructor call \<^verbatim>\<open>QualityMetric(dimension, score, weight, description, issues,
  recommendations)\<close>; \<^verbatim>\<open>__post_init__\<close> turns absent lists into empty ones.\<close>

definition mk_metric ::
  "QualityDimension \<Rightarrow> real \<Rightarrow> real \<Rightarrow> string \<Rightarrow> string list \<Rightarrow> string list \<Rightarrow> QualityMetric" where
  "mk_metric d s w descr iss recs =
     \<lparr>dimension = d, score = s, weight = w, description = descr, issues = iss,
      recommendations = recs\<rparr>"

record QualityReport =
  agent_name :: string
  request_id :: string
  overall_score :: real
  quality_level :: "QualityScore + string"
  metrics :: "QualityMetric list"
  summary :: string
  timestamp :: pyval
  passed_threshold :: bool
  approved_for_publication :: bool
  total_issues :: nat
  total_recommendations :: nat

text \<open>\<^verbatim>\<open>QualityReport.get_weighted_score\<close>.\<close>

definition get_weighted_score :: "QualityReport \<Rightarrow> real" where
  "get_weighted_score r =
     (if metrics r = [] then 0
      else let total_weight = sum_list (map weight (metrics r)) in
        if total_weight = 0 then 0
        else let weighted_sum = sum_list (map (\<lambda>m. score m * weight m) (metrics r)) in
          weighted_sum / total_weight)"

section \<open>Weighted overall score\<close>

text \<open>\<^verbatim>\<open>BaseAgent._calculate_overall_score\<close>.\<close>

definition calculate_overall_score :: "QualityMetric list \<Rightarrow> real" where
  "calculate_overall_score ms =
     (if ms = [] then 0
      else let total_weight = sum_list (map weight ms) in
        if total_weight = 0 then 0
        else let weighted_sum = sum_list (map (\<lambda>m. score m * weight m) ms) in
          weighted_sum / total_weight)"

section \<open>Requests and the runtime\<close>

text \<open>
  A request is the dictionary made from the API's \<^verbatim>\<open>RequestModel\<close>: its fields are strings
  (the metadata an open map); a field is \<open>None\<close> when the key is absent, where the code's
  \<^verbatim>\<open>.get(key, default)\<close> takes the default.
\<close>

record request =
  rq_request_id :: "string option"
  rq_user_id :: "string option"
  rq_request_type :: "string option"
  rq_description :: "string option"
  rq_priority :: "string option"
  rq_metadata :: "pyval option"

definition get_or :: "'a \<Rightarrow> 'a option \<Rightarrow> 'a" where
  "get_or dflt v = (case v of None \<Rightarrow> dflt | Some x \<Rightarrow> x)"

text \<open>
  What the code reads from outside the repository: Python's built-in \<^verbatim>\<open>str\<close> of a value,
  the float format \<^verbatim>\<open>:.2f\<close>, the clock (\<^verbatim>\<open>datetime.utcnow()\<close>, \<^verbatim>\<open>time.time()\<close>, and the
  time an agent measures between the start and the end of its \<^verbatim>\<open>process\<close>), and whether a
  write to the output file succeeds.
\<close>

record runtime =
  repr_of :: "pyval \<Rightarrow> string"
  format_2f :: "real \<Rightarrow> string"
  utcnow :: pyval
  time_time :: real
  elapsed :: "string \<Rightarrow> real"
  disk_write_ok :: "pydict \<Rightarrow> bool"

section \<open>Quality check interface\<close>

text \<open>
  An agent object: the fields of \<^verbatim>\<open>BaseAgent\<close> the processing reads, and the methods of
  \<^verbatim>\<open>QualityCheckInterface\<close> that subclasses override, one field per method. The AutoGen
  handle, the system message and the configuration list play no part in processing.
\<close>

record agent =
  name :: string
  is_initialized :: bool
  get_quality_threshold :: real
  get_quality_metrics :: "QualityMetric list"
  assess_accuracy :: "runtime \<Rightarrow> pydict \<Rightarrow> request \<Rightarrow> exn + QualityMetric"
  assess_completeness :: "runtime \<Rightarrow> pydict \<Rightarrow> request \<Rightarrow> exn + QualityMetric"
  assess_relevance :: "runtime \<Rightarrow> pydict \<Rightarrow> request \<Rightarrow> exn + QualityMetric"
  assess_timeliness :: "runtime \<Rightarrow> pydict \<Rightarrow> request \<Rightarrow> exn + QualityMetric"
  assess_consistency :: "runtime \<Rightarrow> pydict \<Rightarrow> request \<Rightarrow> exn + QualityMetric"
  assess_clarity :: "runtime \<Rightarrow> pydict \<Rightarrow> request \<Rightarrow> exn + QualityMetric"
  assess_actionability :: "runtime \<Rightarrow> pydict \<Rightarrow> request \<Rightarrow> exn + QualityMetric"
  determine_quality_level :: "real \<Rightarrow> QualityScore + string"
  generate_summary :: "runtime \<Rightarrow> QualityMetric list \<Rightarrow> real \<Rightarrow> exn + string"

subsection \<open>Default rules of the interface\<close>

definition default_assess_accuracy :: "runtime \<Rightarrow> pydict \<Rightarrow> request \<Rightarrow> exn + QualityMetric" where
  "default_assess_accuracy rt agent_result original_request =
     Inr (mk_metric ACCURACY 0.5 0.3 ''Accuracy assessment not implemented for this agent''
            [''Accuracy assessment not customized''] [''Implement custom accuracy assessment''])"

definition default_assess_completeness :: "runtime \<Rightarrow> pydict \<Rightarrow> request \<Rightarrow> exn + QualityMetric" where
  "default_assess_completeness rt agent_result original_request =
     Inr (mk_metric COMPLETENESS 0.5 0.2 ''Completeness assessment not implemented for this agent''
            [''Completeness assessment not customized'']
            [''Implement custom completeness assessment''])"

definition default_assess_relevance :: "runtime \<Rightarrow> pydict \<Rightarrow> request \<Rightarrow> exn + QualityMetric" where
  "default_assess_relevance rt agent_result original_request =
     Inr (mk_metric RELEVANCE 0.5 0.2 ''Relevance assessment not implemented for this agent''
            [''Relevance assessment not customized''] [''Implement custom relevance assessment''])"

text \<open>The timeliness rule, which no agent of the repository overrides.\<close>

definition default_assess_timeliness :: "runtime \<Rightarrow> pydict \<Rightarrow> request \<Rightarrow> exn + QualityMetric" where
  "default_assess_timeliness rt agent_result original_request =
     bind_exn (as_number (dict_get agent_result ''processing_time'' (PNum 0))) (\<lambda>processing_time.
       let excellent_threshold = 5;
           good_threshold = 15;
           satisfactory_threshold = 30;
           needs_improvement_threshold = 60;
           t = format_2f rt processing_time;
           (v_score, v_description) =
             (if processing_time \<le> excellent_threshold then
                (1, ''Excellent response time: '' @ t @ ''s'')
              else if processing_time \<le> good_threshold then
                (0.8, ''Good response time: '' @ t @ ''s'')
              else if processing_time \<le> satisfactory_threshold then
                (0.6, ''Satisfactory response time: '' @ t @ ''s'')
              else if processing_time \<le> needs_improvement_threshold then
                (0.4, ''Response time needs improvement: '' @ t @ ''s'')
              else (0.2, ''Poor response time: '' @ t @ ''s''));
           (v_issues, v_recommendations) =
             (if processing_time > good_threshold then
                ([''Response time ('' @ t @ ''s) exceeds optimal threshold''],
                 [''Consider optimizing agent processing logic''])
              else ([], []))
       in Inr (mk_metric TIMELINESS v_score 0.1 v_description v_issues v_recommendations))"

definition default_assess_consistency :: "runtime \<Rightarrow> pydict \<Rightarrow> request \<Rightarrow> exn + QualityMetric" where
  "default_assess_consistency rt agent_result original_request =
     Inr (mk_metric CONSISTENCY 0.5 0.1 ''Consistency assessment not implemented for this agent''
            [''Consistency assessment not customized'']
            [''Implement custom consistency assessment''])"

definition default_assess_clarity :: "runtime \<Rightarrow> pydict \<Rightarrow> request \<Rightarrow> exn + QualityMetric" where
  "default_assess_clarity rt agent_result original_request =
     Inr (mk_metric CLARITY 0.5 0.05 ''Clarity assessment not implemented for this agent''
            [''Clarity assessment not customized''] [''Implement custom clarity assessment''])"

definition default_assess_actionability :: "runtime \<Rightarrow> pydict \<Rightarrow> request \<Rightarrow> exn + QualityMetric" where
  "default_assess_actionability rt agent_result original_request =
     Inr (mk_metric ACTIONABILITY 0.5 0.05
            ''Actionability assessment not implemented for this agent''
            [''Actionability assessment not customized'']
            [''Implement custom actionability assessment''])"

definition default_determine_quality_level :: "real \<Rightarrow> QualityScore + string" where
  "default_determine_quality_level v_score =
     (if v_score \<ge> 0.9 then Inl EXCELLENT
      else if v_score \<ge> 0.8 then Inl GOOD
      else if v_score \<ge> 0.7 then Inl SATISFACTORY
      else if v_score \<ge> 0.6 then Inl NEEDS_IMPROVEMENT
      else Inl POOR)"

text \<open>
  The default summary calls the agent's own \<^verbatim>\<open>determine_quality_level\<close> and reads
  \<^verbatim>\<open>.value\<close> of the result, which a plain string does not have.
\<close>

definition default_generate_summary ::
  "(real \<Rightarrow> QualityScore + string) \<Rightarrow> runtime \<Rightarrow> QualityMetric list \<Rightarrow> real \<Rightarrow> exn + string" where
  "default_generate_summary self_determine_quality_level rt v_metrics v_overall_score =
     (let v_quality_level = self_determine_quality_level v_overall_score;
          v_total_issues = sum_list (map (\<lambda>metric. length (issues metric)) v_metrics);
          v_total_recommendations =
            sum_list (map (\<lambda>metric. length (recommendations metric)) v_metrics)
      in case v_quality_level of
           Inr s \<Rightarrow> Inl (AttributeError ''str object has no attribute value'')
         | Inl q \<Rightarrow>
             Inr (''Quality Assessment: '' @ upper (QualityScore_value q) @ '' (Score: ''
                    @ format_2f rt v_overall_score @ '')'' @ [CHR 0x0A]
                  @ ''Total Issues Found: '' @ str_nat v_total_issues @ [CHR 0x0A]
                  @ ''Total Recommendations: '' @ str_nat v_total_recommendations @ [CHR 0x0A]
                  @ (if v_total_issues = 0 then
                       ''No quality issues detected. Results are ready for publication.''
                     else ''Quality issues detected. Review recommended before publication.'')))"

section \<open>Base agent: quality evaluation\<close>

text \<open>\<^verbatim>\<open>BaseAgent.get_quality_threshold\<close> and \<^verbatim>\<open>BaseAgent.get_quality_metrics\<close>.\<close>

definition BaseAgent_get_quality_threshold :: real where
  "BaseAgent_get_quality_threshold = 0.6"

definition BaseAgent_get_quality_metrics :: "QualityMetric list" where
  "BaseAgent_get_quality_metrics =
     [mk_metric ACCURACY 0 0.3 ''Accuracy assessment'' [] [],
      mk_metric COMPLETENESS 0 0.2 ''Completeness assessment'' [] [],
      mk_metric RELEVANCE 0 0.2 ''Relevance assessment'' [] [],
      mk_metric TIMELINESS 0 0.1 ''Timeliness assessment'' [] [],
      mk_metric CONSISTENCY 0 0.1 ''Consistency assessment'' [] [],
      mk_metric CLARITY 0 0.05 ''Clarity assessment'' [] [],
      mk_metric ACTIONABILITY 0 0.05 ''Actionability assessment'' [] []]"

text \<open>An agent that overrides nothing: the defaults of \<^verbatim>\<open>BaseAgent\<close> and of the interface.\<close>

definition BaseAgent :: "string \<Rightarrow> agent" where
  "BaseAgent n =
     \<lparr>name = n, is_initialized = False,
      get_quality_threshold = BaseAgent_get_quality_threshold,
      get_quality_metrics = BaseAgent_get_quality_metrics,
      assess_accuracy = default_assess_accuracy,
      assess_completeness = default_assess_completeness,
      assess_relevance = default_assess_relevance,
      assess_timeliness = default_assess_timeliness,
      assess_consistency = default_assess_consistency,
      assess_clarity = default_assess_clarity,
      assess_actionability = default_assess_actionability,
      determine_quality_level = default_determine_quality_level,
      generate_summary = default_generate_summary default_determine_quality_level\<rparr>"

text \<open>The chain of \<^verbatim>\<open>if\<close>/\<^verbatim>\<open>elif\<close> on the dimension of a configured metric.\<close>

fun assess_dimension ::
  "'a agent_scheme \<Rightarrow> QualityDimension \<Rightarrow> runtime \<Rightarrow> pydict \<Rightarrow> request \<Rightarrow> exn + QualityMetric" where
  "assess_dimension a ACCURACY = assess_accuracy a"
| "assess_dimension a COMPLETENESS = assess_completeness a"
| "assess_dimension a RELEVANCE = assess_relevance a"
| "assess_dimension a TIMELINESS = assess_timeliness a"
| "assess_dimension a CONSISTENCY = assess_consistency a"
| "assess_dimension a CLARITY = assess_clarity a"
| "assess_dimension a ACTIONABILITY = assess_actionability a"

text \<open>The loop over the configured metrics; the first assessment that raises ends it.\<close>

fun assess_metrics ::
  "'a agent_scheme \<Rightarrow> runtime \<Rightarrow> pydict \<Rightarrow> request \<Rightarrow> QualityMetric list \<Rightarrow> exn + QualityMetric list" where
  "assess_metrics a rt agent_result original_request [] = Inr []"
| "assess_metrics a rt agent_result original_request (metric # rest) =
     bind_exn (assess_dimension a (dimension metric) rt agent_result original_request) (\<lambda>m.
     bind_exn (assess_metrics a rt agent_result original_request rest) (\<lambda>ms.
       Inr (m # ms)))"

definition evaluate_quality ::
  "runtime \<Rightarrow> 'a agent_scheme \<Rightarrow> pydict \<Rightarrow> request \<Rightarrow> exn + QualityReport" where
  "evaluate_quality rt self agent_result original_request =
     bind_exn (assess_metrics self rt agent_result original_request (get_quality_metrics self))
       (\<lambda>assessed_metrics.
     let v_overall_score = calculate_overall_score assessed_metrics;
         threshold = get_quality_threshold self;
         v_passed_threshold = (v_overall_score \<ge> threshold);
         v_approved_for_publication = (v_passed_threshold \<and> v_overall_score \<ge> 0.7)
     in bind_exn (generate_summary self rt assessed_metrics v_overall_score) (\<lambda>v_summary.
     let v_total_issues = sum_list (map (\<lambda>metric. length (issues metric)) assessed_metrics);
         v_total_recommendations =
           sum_list (map (\<lambda>metric. length (recommendations metric)) assessed_metrics)
     in Inr \<lparr>agent_name = name self,
             request_id = get_or ''unknown'' (rq_request_id original_request),
             overall_score = v_overall_score,
             quality_level = determine_quality_level self v_overall_score,
             metrics = assessed_metrics,
             summary = v_summary,
             timestamp = utcnow rt,
             passed_threshold = v_passed_threshold,
             approved_for_publication = v_approved_for_publication,
             total_issues = v_total_issues,
             total_recommendations = v_total_recommendations\<rparr>))"

text \<open>\<^verbatim>\<open>serialize_quality_report\<close>: \<^verbatim>\<open>dataclasses.asdict\<close>, which keeps enum members and the
  timestamp as objects.\<close>

definition serialize_metric :: "QualityMetric \<Rightarrow> pyval" where
  "serialize_metric m =
     PDict [(''dimension'', PEnum ''QualityDimension'' (QualityDimension_name (dimension m))),
            (''score'', PNum (score m)),
            (''weight'', PNum (weight m)),
            (''description'', PStr (description m)),
            (''issues'', PList (map PStr (issues m))),
            (''recommendations'', PList (map PStr (recommendations m)))]"

definition serialize_quality_report :: "QualityReport \<Rightarrow> pyval" where
  "serialize_quality_report r =
     PDict [(''agent_name'', PStr (agent_name r)),
            (''request_id'', PStr (request_id r)),
            (''overall_score'', PNum (overall_score r)),
            (''quality_level'',
               (case quality_level r of
                  Inl q \<Rightarrow> PEnum ''QualityScore'' (QualityScore_name q)
                | Inr s \<Rightarrow> PStr s)),
            (''metrics'', PList (map serialize_metric (metrics r))),
            (''summary'', PStr (summary r)),
            (''timestamp'', timestamp r),
            (''passed_threshold'', PBool (passed_threshold r)),
            (''approved_for_publication'', PBool (approved_for_publication r)),
            (''total_issues'', PNum (real (total_issues r))),
            (''total_recommendations'', PNum (real (total_recommendations r)))]"

section \<open>Expert agents\<close>

record stats =
  total_requests :: nat
  successful_requests :: nat
  failed_requests :: nat
  average_processing_time :: real
  quality_scores :: "real list"

definition initial_stats :: stats where
  "initial_stats =
     \<lparr>total_requests = 0, successful_requests = 0, failed_requests = 0,
      average_processing_time = 0, quality_scores = []\<rparr>"

text \<open>
  \<^verbatim>\<open>BaseExpertAgent\<close> adds the expertise, the running statistics and the abstract method
  \<^verbatim>\<open>_expert_process\<close>, which a subclass supplies and which may raise.
\<close>

record expert = agent +
  expertise :: string
  processing_stats :: stats
  expert_process :: "request \<Rightarrow> exn + pydict"

text \<open>\<^verbatim>\<open>BaseExpertAgent._can_handle_request\<close>.\<close>

definition can_handle_request :: "expert \<Rightarrow> request \<Rightarrow> bool" where
  "can_handle_request self request_data =
     (let request_type = lower (get_or [] (rq_request_type request_data));
          \<comment> \<open>Allow multi-domain/generic requests\<close>
          multi_domain_keywords =
            [''comprehensive_analysis'', ''multi_domain'', ''all'', ''general'', ''overview'']
      in if any_in multi_domain_keywords request_type then True
         else str_in (replace_space (lower (expertise self))) request_type)"

text \<open>
  \<^verbatim>\<open>BaseExpertAgent.process\<close>. The object is returned with its statistics updated; every
  exception raised inside the \<^verbatim>\<open>try\<close> counts one failed request and is raised again. The
  log line after the evaluation reads \<^verbatim>\<open>quality_level.value\<close>.
\<close>

definition count_failure :: "expert \<Rightarrow> stats \<Rightarrow> exn \<Rightarrow> expert \<times> (exn + pydict)" where
  "count_failure self st e =
     (self\<lparr>processing_stats := st\<lparr>failed_requests := failed_requests st + 1\<rparr>\<rparr>, Inl e)"

definition BaseExpertAgent_process :: "runtime \<Rightarrow> expert \<Rightarrow> request \<Rightarrow> expert \<times> (exn + pydict)" where
  "BaseExpertAgent_process rt self request_data =
     (let st = processing_stats self;
          st = st\<lparr>total_requests := total_requests st + 1\<rparr>
      in if \<not> can_handle_request self request_data then
           count_failure self st
             (ValueError (''Request type ''
                @ (case rq_request_type request_data of None \<Rightarrow> ''None'' | Some t \<Rightarrow> t)
                @ '' not suitable for '' @ expertise self @ '' expert''))
         else
           case expert_process self request_data of
             Inl e \<Rightarrow> count_failure self st e
           | Inr result \<Rightarrow>
               let processing_time = elapsed rt (name self);
                   st = st\<lparr>successful_requests := successful_requests st + 1\<rparr>;
                   st = st\<lparr>average_processing_time :=
                          (average_processing_time st * (real (successful_requests st) - 1)
                             + processing_time) / real (successful_requests st)\<rparr>;
                   result = dict_set ''processing_time'' (PNum processing_time) result;
                   result = dict_set ''expert_agent'' (PStr (name self)) result;
                   result = dict_set ''expertise'' (PStr (expertise self)) result
               in case evaluate_quality rt self result request_data of
                    Inl e \<Rightarrow> count_failure self st e
                  | Inr quality_report \<Rightarrow>
                      let result =
                            dict_set ''quality_report'' (serialize_quality_report quality_report)
                              result;
                          st = st\<lparr>quality_scores :=
                                 quality_scores st @ [overall_score quality_report]\<rparr>
                      in case quality_level quality_report of
                           Inr s \<Rightarrow>
                             count_failure self st
                               (AttributeError ''str object has no attribute value'')
                         | Inl q \<Rightarrow> (self\<lparr>processing_stats := st\<rparr>, Inr result))"

text \<open>
  \<^verbatim>\<open>analysis[k].append(x)\<close> in the generators. Every key they append to is created with a
  list by the dictionary literal that precedes, so only the list case arises.
\<close>

definition list_append :: "string \<Rightarrow> string \<Rightarrow> pydict \<Rightarrow> pydict" where
  "list_append k x d =
     AList.map_entry k (\<lambda>v. case v of PList xs \<Rightarrow> PList (xs @ [PStr x]) | other \<Rightarrow> other) d"

text \<open>A block of such statements, run in order.\<close>

definition append_all :: "(string \<times> string) list \<Rightarrow> pydict \<Rightarrow> pydict" where
  "append_all items d = foldl (\<lambda>acc kx. list_append (fst kx) (snd kx) acc) d items"

text \<open>
  The test \<^verbatim>\<open>"reduction" in benefit.lower() or "%" in benefit\<close> of the consistency rules;
  only a string has \<^verbatim>\<open>lower\<close>.
\<close>

fun mentions_savings :: "pyval \<Rightarrow> exn + bool" where
  "mentions_savings (PStr s) = Inr (str_in ''reduction'' (lower s) \<or> str_in ''%'' s)"
| "mentions_savings v = Inl (AttributeError ''object has no attribute lower'')"

subsection \<open>FinancialHealthExpert\<close>

text \<open>\<^verbatim>\<open>FinancialHealthExpert._generate_financial_analysis\<close>. The metadata is not read.\<close>

definition generate_financial_analysis :: "string \<Rightarrow> pyval option \<Rightarrow> pydict" where
  "generate_financial_analysis v_description v_metadata =
     (let description_lower = lower v_description;
          analysis =
            [(''analysis_type'', PStr ''financial_health''),
             (''financial_health_score'', PStr ''good''),
             (''key_issues'', PList []),
             (''budget_optimization'', PList []),
             (''investment_recommendations'', PList []),
             (''debt_management'', PList []),
             (''risk_assessment'', PList []),
             (''implementation_timeline'', PStr ''3-12 months''),
             (''expected_outcomes'', PList []),
             (''priority_actions'', PList []),
             (''estimated_savings'', PStr ''10-25%''),
             (''risk_level'', PStr ''moderate'')];
          \<comment> \<open>Budget-related analysis\<close>
          analysis =
            (if any_in [''budget'', ''spending'', ''expenses'', ''cost''] description_lower then
               append_all
                 [(''key_issues'', ''Budget optimization needed''),
                  (''budget_optimization'', ''Implement 50/30/20 budgeting rule''),
                  (''budget_optimization'', ''Track all expenses for 30 days''),
                  (''budget_optimization'', ''Identify and reduce discretionary spending''),
                  (''expected_outcomes'', ''15-25% reduction in unnecessary expenses''),
                  (''priority_actions'', ''Set up expense tracking system'')]
                 analysis
             else analysis);
          \<comment> \<open>Investment-related analysis\<close>
          analysis =
            (if any_in [''investment'', ''portfolio'', ''savings'', ''retirement''] description_lower then
               append_all
                 [(''key_issues'', ''Investment strategy optimization needed''),
                  (''investment_recommendations'', ''Diversify investment portfolio''),
                  (''investment_recommendations'', ''Increase retirement contributions''),
                  (''investment_recommendations'', ''Consider index fund investments''),
                  (''expected_outcomes'', ''8-12% annual investment returns''),
                  (''priority_actions'', ''Review and rebalance investment portfolio'')]
                 analysis
             else analysis);
          \<comment> \<open>Debt-related analysis\<close>
          analysis =
            (if any_in [''debt'', ''credit'', ''loan'', ''payment''] description_lower then
               append_all
                 [(''key_issues'', ''Debt management strategy needed''),
                  (''debt_management'', ''Prioritize high-interest debt repayment''),
                  (''debt_management'', ''Consider debt consolidation options''),
                  (''debt_management'', ''Negotiate lower interest rates''),
                  (''expected_outcomes'', ''20-40% reduction in debt payments''),
                  (''priority_actions'', ''Create debt repayment plan'')]
                 analysis
             else analysis);
          \<comment> \<open>General financial health\<close>
          analysis =
            (if str_in ''financial'' description_lower \<or> str_in ''money'' description_lower \<or> str_in ''finance'' description_lower then
               append_all
                 [(''key_issues'', ''Comprehensive financial health improvement needed''),
                  (''budget_optimization'', ''Implement comprehensive financial planning''),
                  (''investment_recommendations'', ''Develop long-term investment strategy''),
                  (''debt_management'', ''Create debt reduction timeline''),
                  (''expected_outcomes'', ''25-35% overall financial improvement''),
                  (''priority_actions'', ''Conduct comprehensive financial audit'')]
                 analysis
             else analysis);
          \<comment> \<open>If no specific areas identified, provide general recommendations\<close>
          analysis =
            (if \<not> truthy (dict_get analysis ''key_issues'' PNone) then
               append_all
                 [(''key_issues'', ''General financial health assessment needed''),
                  (''budget_optimization'', ''Implement basic budgeting system''),
                  (''investment_recommendations'', ''Start emergency fund savings''),
                  (''debt_management'', ''Review all outstanding debts''),
                  (''expected_outcomes'', ''10-20% overall financial improvement''),
                  (''priority_actions'', ''Schedule financial health assessment'')]
                 analysis
             else analysis)
      in analysis)"

text \<open>\<^verbatim>\<open>FinancialHealthExpert._expert_process\<close>: the prompt it builds is not used.\<close>

definition FinancialHealthExpert_expert_process :: "request \<Rightarrow> exn + pydict" where
  "FinancialHealthExpert_expert_process request_data =
     (let v_description = get_or [] (rq_description request_data);
          v_metadata = rq_metadata request_data
      in Inr (generate_financial_analysis v_description v_metadata))"

definition FinancialHealthExpert_assess_accuracy :: "runtime \<Rightarrow> pydict \<Rightarrow> request \<Rightarrow> exn + QualityMetric" where
  "FinancialHealthExpert_assess_accuracy rt agent_result original_request =
     (let analysis = dict_get agent_result ''analysis_type'' (PStr [])
      in if analysis \<noteq> PStr ''financial_health'' then
           Inr (mk_metric ACCURACY 0.3 0.3 ''Analysis type mismatch - not financial health focused''
                  [''Analysis type does not match financial health expertise'']
                  [''Ensure analysis focuses on financial health aspects''])
         else
           let financial_keywords =
                 [''budget'', ''investment'', ''debt'', ''savings'', ''financial'', ''money'',
                  ''expense'', ''income''];
               response_text = lower (repr_of rt (PDict agent_result));
               keyword_matches = count_in financial_keywords response_text
           in if keyword_matches \<ge> 4 then
                Inr (mk_metric ACCURACY 0.9 0.3
                       (''High accuracy: '' @ str_nat keyword_matches @ '' financial concepts identified'') [] [])
              else if keyword_matches \<ge> 2 then
                Inr (mk_metric ACCURACY 0.7 0.3
                       (''Moderate accuracy: '' @ str_nat keyword_matches @ '' financial concepts identified'')
                       [''Limited financial-specific analysis'']
                       [''Include more financial-specific recommendations''])
              else
                Inr (mk_metric ACCURACY 0.4 0.3 ''Low accuracy: No financial-specific analysis detected''
                       [''No financial-specific analysis provided'']
                       [''Focus analysis on financial health aspects'']))"

definition FinancialHealthExpert_assess_completeness :: "runtime \<Rightarrow> pydict \<Rightarrow> request \<Rightarrow> exn + QualityMetric" where
  "FinancialHealthExpert_assess_completeness rt agent_result original_request =
     (let required_sections =
            [''key_issues'', ''budget_optimization'', ''investment_recommendations'',
             ''debt_management'', ''expected_outcomes'', ''priority_actions''];
          present_sections =
            filter (\<lambda>section. has_key section agent_result
                       \<and> truthy (dict_get agent_result section PNone)) required_sections;
          missing_sections =
            filter (\<lambda>section. \<not> (has_key section agent_result
                       \<and> truthy (dict_get agent_result section PNone))) required_sections
      in if length missing_sections = 0 then
           Inr (mk_metric COMPLETENESS 1 0.2
                  ''Complete analysis: All required sections present'' [] [])
         else if length missing_sections \<le> 2 then
           Inr (mk_metric COMPLETENESS 0.8 0.2
                  (''Mostly complete: Missing '' @ str_nat (length missing_sections) @ '' sections'')
                  [''Missing sections: '' @ join '', '' missing_sections]
                  [''Add missing sections: '' @ join '', '' missing_sections])
         else
           Inr (mk_metric COMPLETENESS 0.5 0.2
                  (''Incomplete analysis: Missing '' @ str_nat (length missing_sections)
                     @ '' sections'')
                  [''Multiple missing sections: '' @ join '', '' missing_sections]
                  [''Complete all required analysis sections'']))"

definition FinancialHealthExpert_assess_relevance :: "runtime \<Rightarrow> pydict \<Rightarrow> request \<Rightarrow> exn + QualityMetric" where
  "FinancialHealthExpert_assess_relevance rt agent_result original_request =
     (let v_description = lower (get_or [] (rq_description original_request));
          request_keywords =
            [''financial'', ''money'', ''budget'', ''investment'', ''debt'', ''savings'',
             ''expense'', ''income''];
          request_relevance = count_in request_keywords v_description
      in if request_relevance \<ge> 2 then
           Inr (mk_metric RELEVANCE 0.9 0.2 ''Highly relevant: Request clearly financial-focused'' [] [])
         else if request_relevance \<ge> 1 then
           Inr (mk_metric RELEVANCE 0.7 0.2 ''Moderately relevant: Some financial aspects in request''
                  [''Request could be more financial-specific'']
                  [''Clarify financial-specific requirements''])
         else
           Inr (mk_metric RELEVANCE 0.4 0.2 ''Low relevance: Request not clearly financial-focused''
                  [''Request lacks financial-specific context'']
                  [''Provide more financial-specific context in request'']))"

definition FinancialHealthExpert_assess_consistency :: "runtime \<Rightarrow> pydict \<Rightarrow> request \<Rightarrow> exn + QualityMetric" where
  "FinancialHealthExpert_assess_consistency rt agent_result original_request =
     (let estimated_savings = dict_get agent_result ''estimated_savings'' (PStr []);
          expected_outcomes = dict_get agent_result ''expected_outcomes'' (PList [])
      in bind_exn (py_iter expected_outcomes) (\<lambda>items.
         bind_exn (py_any mentions_savings items) (\<lambda>savings_mentioned.
           if truthy estimated_savings \<and> savings_mentioned then
             Inr (mk_metric CONSISTENCY 0.9 0.1
                    ''Consistent savings estimates across analysis'' [] [])
           else if truthy estimated_savings \<or> savings_mentioned then
             Inr (mk_metric CONSISTENCY 0.7 0.1 ''Partial savings consistency''
                    [''Savings estimates not consistently mentioned'']
                    [''Ensure savings estimates are consistent throughout''])
           else
             Inr (mk_metric CONSISTENCY 0.5 0.1 ''No consistent savings estimates found''
                    [''No savings estimates provided'']
                    [''Include consistent savings estimates'']))))"

definition FinancialHealthExpert_assess_clarity :: "runtime \<Rightarrow> pydict \<Rightarrow> request \<Rightarrow> exn + QualityMetric" where
  "FinancialHealthExpert_assess_clarity rt agent_result original_request =
     (let priority_actions = dict_get agent_result ''priority_actions'' (PList []);
          implementation_timeline = dict_get agent_result ''implementation_timeline'' (PStr [])
      in bind_exn (py_len priority_actions) (\<lambda>n.
           if n \<ge> 2 \<and> truthy implementation_timeline then
             Inr (mk_metric CLARITY 0.9 0.05
                    ''Clear priority actions and timeline provided'' [] [])
           else if n \<ge> 1 then
             Inr (mk_metric CLARITY 0.7 0.05 ''Some priority actions provided''
                    [''Limited implementation guidance'']
                    [''Provide more detailed priority actions and timeline''])
           else
             Inr (mk_metric CLARITY 0.4 0.05 ''No clear priority actions''
                    [''No implementation guidance provided'']
                    [''Include clear priority actions and timeline''])))"

definition FinancialHealthExpert_assess_actionability :: "runtime \<Rightarrow> pydict \<Rightarrow> request \<Rightarrow> exn + QualityMetric" where
  "FinancialHealthExpert_assess_actionability rt agent_result original_request =
     (let budget_optimization = dict_get agent_result ''budget_optimization'' (PList []);
          investment_recommendations = dict_get agent_result ''investment_recommendations'' (PList []);
          debt_management = dict_get agent_result ''debt_management'' (PList [])
      in bind_exn (py_len budget_optimization) (\<lambda>n1.
         bind_exn (py_len investment_recommendations) (\<lambda>n2.
         bind_exn (py_len debt_management) (\<lambda>n3.
         let total_recommendations = n1 + n2 + n3
         in if total_recommendations \<ge> 4 then
              Inr (mk_metric ACTIONABILITY 0.9 0.05
                     (''Highly actionable: '' @ str_nat total_recommendations
                        @ '' specific recommendations'') [] [])
            else if total_recommendations \<ge> 2 then
              Inr (mk_metric ACTIONABILITY 0.7 0.05
                     (''Somewhat actionable: '' @ str_nat total_recommendations
                        @ '' recommendations'')
                     [''Limited actionable recommendations'']
                     [''Provide more specific actionable recommendations''])
            else
              Inr (mk_metric ACTIONABILITY 0.4 0.05
                     ''Not actionable: No specific recommendations''
                     [''No actionable recommendations provided'']
                     [''Include specific actionable recommendations''])))))"

definition FinancialHealthExpert_get_quality_threshold :: real where
  "FinancialHealthExpert_get_quality_threshold = 0.75"

text \<open>The object \<^verbatim>\<open>FinancialHealthExpert()\<close> as constructed.\<close>

definition FinancialHealthExpert :: expert where
  "FinancialHealthExpert =
     \<lparr>name = ''FinancialHealthExpert'', is_initialized = False,
      get_quality_threshold = FinancialHealthExpert_get_quality_threshold,
      get_quality_metrics = BaseAgent_get_quality_metrics,
      assess_accuracy = FinancialHealthExpert_assess_accuracy,
      assess_completeness = FinancialHealthExpert_assess_completeness,
      assess_relevance = FinancialHealthExpert_assess_relevance,
      assess_timeliness = default_assess_timeliness,
      assess_consistency = FinancialHealthExpert_assess_consistency,
      assess_clarity = FinancialHealthExpert_assess_clarity,
      assess_actionability = FinancialHealthExpert_assess_actionability,
      determine_quality_level = default_determine_quality_level,
      generate_summary = default_generate_summary default_determine_quality_level,
      expertise = ''financial_health'',
      processing_stats = initial_stats,
      expert_process = FinancialHealthExpert_expert_process\<rparr>"

subsection \<open>UtilityManagementExpert\<close>

text \<open>\<^verbatim>\<open>UtilityManagementExpert._generate_utility_analysis\<close>. The metadata is not read.\<close>

definition generate_utility_analysis :: "string \<Rightarrow> pyval option \<Rightarrow> pydict" where
  "generate_utility_analysis v_description v_metadata =
     (let description_lower = lower v_description;
          analysis =
            [(''analysis_type'', PStr ''utility_management''),
             (''key_issues'', PList []),
             (''optimization_opportunities'', PList []),
             (''cost_savings_recommendations'', PList []),
             (''implementation_steps'', PList []),
             (''expected_benefits'', PList []),
             (''risk_considerations'', PList []),
             (''technology_recommendations'', PList []),
             (''priority_level'', PStr ''medium''),
             (''estimated_savings'', PStr ''5-15%''),
             (''implementation_timeline'', PStr ''3-6 months'')];
          \<comment> \<open>Energy-related analysis\<close>
          analysis =
            (if any_in [''energy'', ''electricity'', ''power'', ''consumption''] description_lower then
               append_all
                 [(''key_issues'', ''High energy consumption patterns detected''),
                  (''optimization_opportunities'', ''Implement smart energy monitoring systems''),
                  (''cost_savings_recommendations'', ''Switch to energy-efficient appliances''),
                  (''implementation_steps'', ''Conduct energy audit and identify high-consumption areas''),
                  (''expected_benefits'', ''15-25% reduction in energy costs''),
                  (''technology_recommendations'', ''Smart meters and energy monitoring devices'')]
                 analysis
             else analysis);
          \<comment> \<open>Water-related analysis\<close>
          analysis =
            (if any_in [''water'', ''usage'', ''bills'', ''leak''] description_lower then
               append_all
                 [(''key_issues'', ''Water usage optimization needed''),
                  (''optimization_opportunities'', ''Install water-efficient fixtures''),
                  (''cost_savings_recommendations'', ''Implement leak detection systems''),
                  (''implementation_steps'', ''Audit water usage patterns and identify leaks''),
                  (''expected_benefits'', ''10-20% reduction in water costs''),
                  (''technology_recommendations'', ''Smart water meters and leak detectors'')]
                 analysis
             else analysis);
          \<comment> \<open>General utility optimization\<close>
          analysis =
            (if str_in ''optimization'' description_lower \<or> str_in ''efficiency'' description_lower then
               append_all
                 [(''key_issues'', ''Overall utility efficiency improvement needed''),
                  (''optimization_opportunities'', ''Implement comprehensive utility monitoring''),
                  (''cost_savings_recommendations'', ''Bundle utility services for better rates''),
                  (''implementation_steps'', ''Develop utility management strategy and timeline''),
                  (''expected_benefits'', ''20-30% overall utility cost reduction''),
                  (''technology_recommendations'', ''Integrated utility management platform'')]
                 analysis
             else analysis);
          \<comment> \<open>If no specific areas identified, provide general recommendations\<close>
          analysis =
            (if \<not> truthy (dict_get analysis ''key_issues'' PNone) then
               append_all
                 [(''key_issues'', ''General utility management improvement opportunity''),
                  (''optimization_opportunities'', ''Implement comprehensive utility monitoring and optimization''),
                  (''cost_savings_recommendations'', ''Audit all utility services for optimization opportunities''),
                  (''implementation_steps'', ''Conduct comprehensive utility audit and develop optimization plan''),
                  (''expected_benefits'', ''10-25% overall utility cost reduction''),
                  (''technology_recommendations'', ''Smart utility monitoring and management systems'')]
                 analysis
             else analysis)
      in analysis)"

text \<open>\<^verbatim>\<open>UtilityManagementExpert._expert_process\<close>: the prompt it builds is not used.\<close>

definition UtilityManagementExpert_expert_process :: "request \<Rightarrow> exn + pydict" where
  "UtilityManagementExpert_expert_process request_data =
     (let v_description = get_or [] (rq_description request_data);
          v_metadata = rq_metadata request_data
      in Inr (generate_utility_analysis v_description v_metadata))"

definition UtilityManagementExpert_assess_accuracy :: "runtime \<Rightarrow> pydict \<Rightarrow> request \<Rightarrow> exn + QualityMetric" where
  "UtilityManagementExpert_assess_accuracy rt agent_result original_request =
     (let analysis = dict_get agent_result ''analysis_type'' (PStr [])
      in if analysis \<noteq> PStr ''utility_management'' then
           Inr (mk_metric ACCURACY 0.3 0.3 ''Analysis type mismatch - not utility management focused''
                  [''Analysis type does not match utility management expertise'']
                  [''Ensure analysis focuses on utility management aspects''])
         else
           let utility_keywords =
                 [''energy'', ''water'', ''electricity'', ''gas'', ''utility'', ''consumption'',
                  ''efficiency''];
               response_text = lower (repr_of rt (PDict agent_result));
               keyword_matches = count_in utility_keywords response_text
           in if keyword_matches \<ge> 3 then
                Inr (mk_metric ACCURACY 0.9 0.3
                       (''High accuracy: '' @ str_nat keyword_matches @ '' utility-related concepts identified'') [] [])
              else if keyword_matches \<ge> 1 then
                Inr (mk_metric ACCURACY 0.7 0.3
                       (''Moderate accuracy: '' @ str_nat keyword_matches @ '' utility-related concepts identified'')
                       [''Limited utility-specific analysis'']
                       [''Include more utility-specific recommendations''])
              else
                Inr (mk_metric ACCURACY 0.4 0.3 ''Low accuracy: No utility-specific analysis detected''
                       [''No utility-specific analysis provided'']
                       [''Focus analysis on utility management aspects'']))"

definition UtilityManagementExpert_assess_completeness :: "runtime \<Rightarrow> pydict \<Rightarrow> request \<Rightarrow> exn + QualityMetric" where
  "UtilityManagementExpert_assess_completeness rt agent_result original_request =
     (let required_sections =
            [''key_issues'', ''optimization_opportunities'', ''cost_savings_recommendations'',
             ''implementation_steps'', ''expected_benefits''];
          present_sections =
            filter (\<lambda>section. has_key section agent_result
                       \<and> truthy (dict_get agent_result section PNone)) required_sections;
          missing_sections =
            filter (\<lambda>section. \<not> (has_key section agent_result
                       \<and> truthy (dict_get agent_result section PNone))) required_sections
      in if length missing_sections = 0 then
           Inr (mk_metric COMPLETENESS 1 0.2
                  ''Complete analysis: All required sections present'' [] [])
         else if length missing_sections \<le> 2 then
           Inr (mk_metric COMPLETENESS 0.8 0.2
                  (''Mostly complete: Missing '' @ str_nat (length missing_sections) @ '' sections'')
                  [''Missing sections: '' @ join '', '' missing_sections]
                  [''Add missing sections: '' @ join '', '' missing_sections])
         else
           Inr (mk_metric COMPLETENESS 0.5 0.2
                  (''Incomplete analysis: Missing '' @ str_nat (length missing_sections)
                     @ '' sections'')
                  [''Multiple missing sections: '' @ join '', '' missing_sections]
                  [''Complete all required analysis sections'']))"

definition UtilityManagementExpert_assess_relevance :: "runtime \<Rightarrow> pydict \<Rightarrow> request \<Rightarrow> exn + QualityMetric" where
  "UtilityManagementExpert_assess_relevance rt agent_result original_request =
     (let v_description = lower (get_or [] (rq_description original_request));
          request_keywords =
            [''utility'', ''energy'', ''water'', ''electricity'', ''gas'', ''bills'',
             ''consumption''];
          request_relevance = count_in request_keywords v_description
      in if request_relevance \<ge> 2 then
           Inr (mk_metric RELEVANCE 0.9 0.2 ''Highly relevant: Request clearly utility-focused'' [] [])
         else if request_relevance \<ge> 1 then
           Inr (mk_metric RELEVANCE 0.7 0.2 ''Moderately relevant: Some utility aspects in request''
                  [''Request could be more utility-specific'']
                  [''Clarify utility-specific requirements''])
         else
           Inr (mk_metric RELEVANCE 0.4 0.2 ''Low relevance: Request not clearly utility-focused''
                  [''Request lacks utility-specific context'']
                  [''Provide more utility-specific context in request'']))"

definition UtilityManagementExpert_assess_consistency :: "runtime \<Rightarrow> pydict \<Rightarrow> request \<Rightarrow> exn + QualityMetric" where
  "UtilityManagementExpert_assess_consistency rt agent_result original_request =
     (let estimated_savings = dict_get agent_result ''estimated_savings'' (PStr []);
          expected_benefits = dict_get agent_result ''expected_benefits'' (PList [])
      in bind_exn (py_iter expected_benefits) (\<lambda>items.
         bind_exn (py_any mentions_savings items) (\<lambda>savings_mentioned.
           if truthy estimated_savings \<and> savings_mentioned then
             Inr (mk_metric CONSISTENCY 0.9 0.1
                    ''Consistent savings estimates across analysis'' [] [])
           else if truthy estimated_savings \<or> savings_mentioned then
             Inr (mk_metric CONSISTENCY 0.7 0.1 ''Partial savings consistency''
                    [''Savings estimates not consistently mentioned'']
                    [''Ensure savings estimates are consistent throughout''])
           else
             Inr (mk_metric CONSISTENCY 0.5 0.1 ''No consistent savings estimates found''
                    [''No savings estimates provided'']
                    [''Include consistent savings estimates'']))))"

definition UtilityManagementExpert_assess_clarity :: "runtime \<Rightarrow> pydict \<Rightarrow> request \<Rightarrow> exn + QualityMetric" where
  "UtilityManagementExpert_assess_clarity rt agent_result original_request =
     (let implementation_steps = dict_get agent_result ''implementation_steps'' (PList [])
      in bind_exn (py_len implementation_steps) (\<lambda>n.
           if n \<ge> 3 then
             Inr (mk_metric CLARITY 0.9 0.05 ''Clear implementation steps provided'' [] [])
           else if n \<ge> 1 then
             Inr (mk_metric CLARITY 0.7 0.05 ''Some implementation steps provided''
                    [''Limited implementation guidance'']
                    [''Provide more detailed implementation steps''])
           else
             Inr (mk_metric CLARITY 0.4 0.05 ''No clear implementation steps''
                    [''No implementation guidance provided'']
                    [''Include clear implementation steps''])))"

definition UtilityManagementExpert_assess_actionability :: "runtime \<Rightarrow> pydict \<Rightarrow> request \<Rightarrow> exn + QualityMetric" where
  "UtilityManagementExpert_assess_actionability rt agent_result original_request =
     (let cost_savings_recommendations = dict_get agent_result ''cost_savings_recommendations'' (PList []);
          technology_recommendations = dict_get agent_result ''technology_recommendations'' (PList [])
      in bind_exn (py_len cost_savings_recommendations) (\<lambda>n1.
         bind_exn (py_len technology_recommendations) (\<lambda>n2.
         let total_recommendations = n1 + n2
         in if total_recommendations \<ge> 3 then
              Inr (mk_metric ACTIONABILITY 0.9 0.05
                     (''Highly actionable: '' @ str_nat total_recommendations
                        @ '' specific recommendations'') [] [])
            else if total_recommendations \<ge> 1 then
              Inr (mk_metric ACTIONABILITY 0.7 0.05
                     (''Somewhat actionable: '' @ str_nat total_recommendations
                        @ '' recommendations'')
                     [''Limited actionable recommendations'']
                     [''Provide more specific actionable recommendations''])
            else
              Inr (mk_metric ACTIONABILITY 0.4 0.05
                     ''Not actionable: No specific recommendations''
                     [''No actionable recommendations provided'']
                     [''Include specific actionable recommendations'']))))"

definition UtilityManagementExpert_get_quality_threshold :: real where
  "UtilityManagementExpert_get_quality_threshold = 0.7"

text \<open>The object \<^verbatim>\<open>UtilityManagementExpert()\<close> as constructed.\<close>

definition UtilityManagementExpert :: expert where
  "UtilityManagementExpert =
     \<lparr>name = ''UtilityManagementExpert'', is_initialized = False,
      get_quality_threshold = UtilityManagementExpert_get_quality_threshold,
      get_quality_metrics = BaseAgent_get_quality_metrics,
      assess_accuracy = UtilityManagementExpert_assess_accuracy,
      assess_completeness = UtilityManagementExpert_assess_completeness,
      assess_relevance = UtilityManagementExpert_assess_relevance,
      assess_timeliness = default_assess_timeliness,
      assess_consistency = UtilityManagementExpert_assess_consistency,
      assess_clarity = UtilityManagementExpert_assess_clarity,
      assess_actionability = UtilityManagementExpert_assess_actionability,
      determine_quality_level = default_determine_quality_level,
      generate_summary = default_generate_summary default_determine_quality_level,
      expertise = ''utility_management'',
      processing_stats = initial_stats,
      expert_process = UtilityManagementExpert_expert_process\<rparr>"

subsection \<open>VehicleManagementExpert\<close>

text \<open>\<^verbatim>\<open>VehicleManagementExpert._generate_vehicle_analysis\<close>. The metadata is not read.\<close>

definition generate_vehicle_analysis :: "string \<Rightarrow> pyval option \<Rightarrow> pydict" where
  "generate_vehicle_analysis v_description v_metadata =
     (let description_lower = lower v_description;
          analysis =
            [(''analysis_type'', PStr ''vehicle_management''),
             (''vehicle_health_score'', PStr ''good''),
             (''key_issues'', PList []),
             (''maintenance_recommendations'', PList []),
             (''cost_optimization'', PList []),
             (''safety_improvements'', PList []),
             (''efficiency_enhancements'', PList []),
             (''implementation_timeline'', PStr ''1-6 months''),
             (''expected_benefits'', PList []),
             (''priority_actions'', PList []),
             (''estimated_savings'', PStr ''15-30%''),
             (''risk_level'', PStr ''low'')];
          \<comment> \<open>Maintenance-related analysis\<close>
          analysis =
            (if any_in [''maintenance'', ''service'', ''repair'', ''oil'', ''tire''] description_lower then
               append_all
                 [(''key_issues'', ''Vehicle maintenance optimization needed''),
                  (''maintenance_recommendations'', ''Implement preventive maintenance schedule''),
                  (''maintenance_recommendations'', ''Regular oil changes and filter replacements''),
                  (''maintenance_recommendations'', ''Tire rotation and alignment checks''),
                  (''expected_benefits'', ''Extended vehicle lifespan and reduced repair costs''),
                  (''priority_actions'', ''Schedule comprehensive vehicle inspection'')]
                 analysis
             else analysis);
          \<comment> \<open>Fuel efficiency analysis\<close>
          analysis =
            (if any_in [''fuel'', ''gas'', ''mileage'', ''efficiency'', ''consumption''] description_lower then
               append_all
                 [(''key_issues'', ''Fuel efficiency optimization needed''),
                  (''efficiency_enhancements'', ''Optimize driving behavior and routes''),
                  (''efficiency_enhancements'', ''Maintain proper tire pressure''),
                  (''efficiency_enhancements'', ''Reduce vehicle weight and aerodynamic drag''),
                  (''expected_benefits'', ''20-30% improvement in fuel efficiency''),
                  (''priority_actions'', ''Implement fuel tracking and monitoring system'')]
                 analysis
             else analysis);
          \<comment> \<open>Cost-related analysis\<close>
          analysis =
            (if any_in [''cost'', ''budget'', ''expense'', ''insurance'', ''registration''] description_lower then
               append_all
                 [(''key_issues'', ''Vehicle cost optimization needed''),
                  (''cost_optimization'', ''Shop around for better insurance rates''),
                  (''cost_optimization'', ''Compare fuel prices and use rewards programs''),
                  (''cost_optimization'', ''Consider carpooling or ride-sharing options''),
                  (''expected_benefits'', ''15-25% reduction in vehicle operating costs''),
                  (''priority_actions'', ''Conduct comprehensive cost analysis'')]
                 analysis
             else analysis);
          \<comment> \<open>Safety-related analysis\<close>
          analysis =
            (if any_in [''safety'', ''brake'', ''light'', ''seat'', ''airbag''] description_lower then
               append_all
                 [(''key_issues'', ''Vehicle safety improvements needed''),
                  (''safety_improvements'', ''Regular brake system inspections''),
                  (''safety_improvements'', ''Ensure all lights and signals work properly''),
                  (''safety_improvements'', ''Check seat belts and airbag systems''),
                  (''expected_benefits'', ''Enhanced vehicle and passenger safety''),
                  (''priority_actions'', ''Schedule safety inspection and repairs'')]
                 analysis
             else analysis);
          \<comment> \<open>General vehicle management\<close>
          analysis =
            (if str_in ''vehicle'' description_lower \<or> str_in ''car'' description_lower \<or> str_in ''auto'' description_lower then
               append_all
                 [(''key_issues'', ''Comprehensive vehicle management optimization needed''),
                  (''maintenance_recommendations'', ''Implement comprehensive maintenance program''),
                  (''cost_optimization'', ''Develop vehicle cost management strategy''),
                  (''safety_improvements'', ''Establish regular safety check protocols''),
                  (''expected_benefits'', ''25-35% overall vehicle cost and efficiency improvement''),
                  (''priority_actions'', ''Create comprehensive vehicle management plan'')]
                 analysis
             else analysis);
          \<comment> \<open>If no specific areas identified, provide general recommendations\<close>
          analysis =
            (if \<not> truthy (dict_get analysis ''key_issues'' PNone) then
               append_all
                 [(''key_issues'', ''General vehicle management assessment needed''),
                  (''maintenance_recommendations'', ''Establish regular maintenance schedule''),
                  (''cost_optimization'', ''Track all vehicle-related expenses''),
                  (''safety_improvements'', ''Schedule regular safety inspections''),
                  (''expected_benefits'', ''10-20% overall vehicle improvement''),
                  (''priority_actions'', ''Schedule comprehensive vehicle assessment'')]
                 analysis
             else analysis)
      in analysis)"

text \<open>\<^verbatim>\<open>VehicleManagementExpert._expert_process\<close>: the prompt it builds is not used.\<close>

definition VehicleManagementExpert_expert_process :: "request \<Rightarrow> exn + pydict" where
  "VehicleManagementExpert_expert_process request_data =
     (let v_description = get_or [] (rq_description request_data);
          v_metadata = rq_metadata request_data
      in Inr (generate_vehicle_analysis v_description v_metadata))"

definition VehicleManagementExpert_assess_accuracy :: "runtime \<Rightarrow> pydict \<Rightarrow> request \<Rightarrow> exn + QualityMetric" where
  "VehicleManagementExpert_assess_accuracy rt agent_result original_request =
     (let analysis = dict_get agent_result ''analysis_type'' (PStr [])
      in if analysis \<noteq> PStr ''vehicle_management'' then
           Inr (mk_metric ACCURACY 0.3 0.3 ''Analysis type mismatch - not vehicle management focused''
                  [''Analysis type does not match vehicle management expertise'']
                  [''Ensure analysis focuses on vehicle management aspects''])
         else
           let vehicle_keywords =
                 [''maintenance'', ''fuel'', ''safety'', ''cost'', ''vehicle'', ''car'',
                  ''tire'', ''oil'', ''brake''];
               response_text = lower (repr_of rt (PDict agent_result));
               keyword_matches = count_in vehicle_keywords response_text
           in if keyword_matches \<ge> 4 then
                Inr (mk_metric ACCURACY 0.9 0.3
                       (''High accuracy: '' @ str_nat keyword_matches @ '' vehicle-related concepts identified'') [] [])
              else if keyword_matches \<ge> 2 then
                Inr (mk_metric ACCURACY 0.7 0.3
                       (''Moderate accuracy: '' @ str_nat keyword_matches @ '' vehicle-related concepts identified'')
                       [''Limited vehicle-specific analysis'']
                       [''Include more vehicle-specific recommendations''])
              else
                Inr (mk_metric ACCURACY 0.4 0.3 ''Low accuracy: No vehicle-specific analysis detected''
                       [''No vehicle-specific analysis provided'']
                       [''Focus analysis on vehicle management aspects'']))"

definition VehicleManagementExpert_assess_completeness :: "runtime \<Rightarrow> pydict \<Rightarrow> request \<Rightarrow> exn + QualityMetric" where
  "VehicleManagementExpert_assess_completeness rt agent_result original_request =
     (let required_sections =
            [''key_issues'', ''maintenance_recommendations'', ''cost_optimization'',
             ''safety_improvements'', ''expected_benefits'', ''priority_actions''];
          present_sections =
            filter (\<lambda>section. has_key section agent_result
                       \<and> truthy (dict_get agent_result section PNone)) required_sections;
          missing_sections =
            filter (\<lambda>section. \<not> (has_key section agent_result
                       \<and> truthy (dict_get agent_result section PNone))) required_sections
      in if length missing_sections = 0 then
           Inr (mk_metric COMPLETENESS 1 0.2
                  ''Complete analysis: All required sections present'' [] [])
         else if length missing_sections \<le> 2 then
           Inr (mk_metric COMPLETENESS 0.8 0.2
                  (''Mostly complete: Missing '' @ str_nat (length missing_sections) @ '' sections'')
                  [''Missing sections: '' @ join '', '' missing_sections]
                  [''Add missing sections: '' @ join '', '' missing_sections])
         else
           Inr (mk_metric COMPLETENESS 0.5 0.2
                  (''Incomplete analysis: Missing '' @ str_nat (length missing_sections)
                     @ '' sections'')
                  [''Multiple missing sections: '' @ join '', '' missing_sections]
                  [''Complete all required analysis sections'']))"

definition VehicleManagementExpert_assess_relevance :: "runtime \<Rightarrow> pydict \<Rightarrow> request \<Rightarrow> exn + QualityMetric" where
  "VehicleManagementExpert_assess_relevance rt agent_result original_request =
     (let v_description = lower (get_or [] (rq_description original_request));
          request_keywords =
            [''vehicle'', ''car'', ''auto'', ''maintenance'', ''fuel'', ''safety'', ''cost'',
             ''tire'', ''oil''];
          request_relevance = count_in request_keywords v_description
      in if request_relevance \<ge> 2 then
           Inr (mk_metric RELEVANCE 0.9 0.2 ''Highly relevant: Request clearly vehicle-focused'' [] [])
         else if request_relevance \<ge> 1 then
           Inr (mk_metric RELEVANCE 0.7 0.2 ''Moderately relevant: Some vehicle aspects in request''
                  [''Request could be more vehicle-specific'']
                  [''Clarify vehicle-specific requirements''])
         else
           Inr (mk_metric RELEVANCE 0.4 0.2 ''Low relevance: Request not clearly vehicle-focused''
                  [''Request lacks vehicle-specific context'']
                  [''Provide more vehicle-specific context in request'']))"

definition VehicleManagementExpert_assess_consistency :: "runtime \<Rightarrow> pydict \<Rightarrow> request \<Rightarrow> exn + QualityMetric" where
  "VehicleManagementExpert_assess_consistency rt agent_result original_request =
     (let estimated_savings = dict_get agent_result ''estimated_savings'' (PStr []);
          expected_benefits = dict_get agent_result ''expected_benefits'' (PList [])
      in bind_exn (py_iter expected_benefits) (\<lambda>items.
         bind_exn (py_any mentions_savings items) (\<lambda>savings_mentioned.
           if truthy estimated_savings \<and> savings_mentioned then
             Inr (mk_metric CONSISTENCY 0.9 0.1
                    ''Consistent savings estimates across analysis'' [] [])
           else if truthy estimated_savings \<or> savings_mentioned then
             Inr (mk_metric CONSISTENCY 0.7 0.1 ''Partial savings consistency''
                    [''Savings estimates not consistently mentioned'']
                    [''Ensure savings estimates are consistent throughout''])
           else
             Inr (mk_metric CONSISTENCY 0.5 0.1 ''No consistent savings estimates found''
                    [''No savings estimates provided'']
                    [''Include consistent savings estimates'']))))"

definition VehicleManagementExpert_assess_clarity :: "runtime \<Rightarrow> pydict \<Rightarrow> request \<Rightarrow> exn + QualityMetric" where
  "VehicleManagementExpert_assess_clarity rt agent_result original_request =
     (let priority_actions = dict_get agent_result ''priority_actions'' (PList []);
          implementation_timeline = dict_get agent_result ''implementation_timeline'' (PStr [])
      in bind_exn (py_len priority_actions) (\<lambda>n.
           if n \<ge> 2 \<and> truthy implementation_timeline then
             Inr (mk_metric CLARITY 0.9 0.05
                    ''Clear priority actions and timeline provided'' [] [])
           else if n \<ge> 1 then
             Inr (mk_metric CLARITY 0.7 0.05 ''Some priority actions provided''
                    [''Limited implementation guidance'']
                    [''Provide more detailed priority actions and timeline''])
           else
             Inr (mk_metric CLARITY 0.4 0.05 ''No clear priority actions''
                    [''No implementation guidance provided'']
                    [''Include clear priority actions and timeline''])))"

definition VehicleManagementExpert_assess_actionability :: "runtime \<Rightarrow> pydict \<Rightarrow> request \<Rightarrow> exn + QualityMetric" where
  "VehicleManagementExpert_assess_actionability rt agent_result original_request =
     (let maintenance_recommendations = dict_get agent_result ''maintenance_recommendations'' (PList []);
          cost_optimization = dict_get agent_result ''cost_optimization'' (PList []);
          safety_improvements = dict_get agent_result ''safety_improvements'' (PList [])
      in bind_exn (py_len maintenance_recommendations) (\<lambda>n1.
         bind_exn (py_len cost_optimization) (\<lambda>n2.
         bind_exn (py_len safety_improvements) (\<lambda>n3.
         let total_recommendations = n1 + n2 + n3
         in if total_recommendations \<ge> 4 then
              Inr (mk_metric ACTIONABILITY 0.9 0.05
                     (''Highly actionable: '' @ str_nat total_recommendations
                        @ '' specific recommendations'') [] [])
            else if total_recommendations \<ge> 2 then
              Inr (mk_metric ACTIONABILITY 0.7 0.05
                     (''Somewhat actionable: '' @ str_nat total_recommendations
                        @ '' recommendations'')
                     [''Limited actionable recommendations'']
                     [''Provide more specific actionable recommendations''])
            else
              Inr (mk_metric ACTIONABILITY 0.4 0.05
                     ''Not actionable: No specific recommendations''
                     [''No actionable recommendations provided'']
                     [''Include specific actionable recommendations''])))))"

definition VehicleManagementExpert_get_quality_threshold :: real where
  "VehicleManagementExpert_get_quality_threshold = 0.65"

text \<open>The object \<^verbatim>\<open>VehicleManagementExpert()\<close> as constructed.\<close>

definition VehicleManagementExpert :: expert where
  "VehicleManagementExpert =
     \<lparr>name = ''VehicleManagementExpert'', is_initialized = False,
      get_quality_threshold = VehicleManagementExpert_get_quality_threshold,
      get_quality_metrics = BaseAgent_get_quality_metrics,
      assess_accuracy = VehicleManagementExpert_assess_accuracy,
      assess_completeness = VehicleManagementExpert_assess_completeness,
      assess_relevance = VehicleManagementExpert_assess_relevance,
      assess_timeliness = default_assess_timeliness,
      assess_consistency = VehicleManagementExpert_assess_consistency,
      assess_clarity = VehicleManagementExpert_assess_clarity,
      assess_actionability = VehicleManagementExpert_assess_actionability,
      determine_quality_level = default_determine_quality_level,
      generate_summary = default_generate_summary default_determine_quality_level,
      expertise = ''vehicle_management'',
      processing_stats = initial_stats,
      expert_process = VehicleManagementExpert_expert_process\<rparr>"

section \<open>Result sink\<close>

text \<open>
  An object of \<^verbatim>\<open>FileStreamer\<close>, as the table of the methods it has on a response. A write
  sets the timestamp of the response and catches every exception: it returns whether the
  file was written.
\<close>

definition FileStreamer_write_response :: "runtime \<Rightarrow> pydict \<Rightarrow> exn + pyval" where
  "FileStreamer_write_response rt response_data =
     Inr (PBool (disk_write_ok rt (dict_set ''timestamp'' (utcnow rt) response_data)))"

definition FileStreamer :: "(string \<times> (runtime \<Rightarrow> pydict \<Rightarrow> exn + pyval)) list" where
  "FileStreamer =
     [(''write_response'', FileStreamer_write_response),
      (''write_response_sync'', FileStreamer_write_response)]"

section \<open>Principal agent\<close>

record principal = agent +
  expert_agents :: "(string \<times> expert) list"
  workflow_history :: "pydict list"
  publication_queue :: "pydict list"
  file_streamer :: "(string \<times> (runtime \<Rightarrow> pydict \<Rightarrow> exn + pyval)) list"

subsection \<open>Routing\<close>

text \<open>\<^verbatim>\<open>PrincipalAgent._determine_required_experts\<close>.\<close>

definition determine_required_experts :: "principal \<Rightarrow> request \<Rightarrow> (string \<times> expert) list" where
  "determine_required_experts self request_data =
     (let request_type = lower (get_or [] (rq_request_type request_data));
          required_experts = []
      in \<comment> \<open>Check if expert agents are available\<close>
         if expert_agents self = [] then required_experts
         else
           let \<comment> \<open>Financial-related requests\<close>
               required_experts =
                 (if any_in [''financial'', ''budget'', ''cost'', ''expense'', ''revenue'', ''profit'']
                       request_type then
                    (case map_of (expert_agents self) ''financial'' of
                       Some a \<Rightarrow> dict_set ''financial'' a required_experts
                     | None \<Rightarrow> required_experts)
                  else required_experts);
               \<comment> \<open>Utility-related requests\<close>
               required_experts =
                 (if any_in [''utility'', ''energy'', ''water'', ''electricity'', ''consumption'',
                             ''efficiency'', ''sustainability''] request_type then
                    (case map_of (expert_agents self) ''utility'' of
                       Some a \<Rightarrow> dict_set ''utility'' a required_experts
                     | None \<Rightarrow> required_experts)
                  else required_experts);
               \<comment> \<open>Vehicle-related requests\<close>
               required_experts =
                 (if any_in [''vehicle'', ''fleet'', ''maintenance'', ''transport'', ''logistics'',
                             ''fuel''] request_type then
                    (case map_of (expert_agents self) ''vehicle'' of
                       Some a \<Rightarrow> dict_set ''vehicle'' a required_experts
                     | None \<Rightarrow> required_experts)
                  else required_experts)
           in \<comment> \<open>If no specific type detected, use all experts for comprehensive analysis\<close>
              if required_experts = [] then expert_agents self else required_experts)"

subsection \<open>Synthesis\<close>

text \<open>
  The loop of \<^verbatim>\<open>_synthesize_results\<close> over the items of \<^verbatim>\<open>expert_results\<close>, with the three
  accumulators \<^verbatim>\<open>insights\<close>, \<^verbatim>\<open>recommendations\<close> and \<^verbatim>\<open>metrics\<close>.
\<close>

fun synthesize_loop ::
  "(string \<times> pyval) list \<Rightarrow> pydict \<times> pyval list \<times> pydict \<Rightarrow> exn + pydict \<times> pyval list \<times> pydict" where
  "synthesize_loop [] acc = Inr acc"
| "synthesize_loop ((expert_name, result) # rest) (v_insights, v_recommendations, v_metrics) =
     bind_exn (py_contains ''error'' result) (\<lambda>has_error.
       if \<not> has_error then
         \<comment> \<open>Extract insights\<close>
         bind_exn (py_contains ''insights'' result) (\<lambda>has_insights.
         bind_exn (if has_insights then
                     bind_exn (py_getitem result ''insights'') (\<lambda>v.
                       Inr (dict_set expert_name v v_insights))
                   else Inr v_insights) (\<lambda>v_insights.
         \<comment> \<open>Extract recommendations\<close>
         bind_exn (py_contains ''recommendations'' result) (\<lambda>has_recommendations.
         bind_exn (if has_recommendations then
                     bind_exn (py_getitem result ''recommendations'') (\<lambda>v.
                       py_extend v_recommendations v)
                   else Inr v_recommendations) (\<lambda>v_recommendations.
         \<comment> \<open>Extract metrics\<close>
         bind_exn (py_contains ''metrics'' result) (\<lambda>has_metrics.
         bind_exn (if has_metrics then
                     bind_exn (py_getitem result ''metrics'') (\<lambda>v.
                       Inr (dict_set expert_name v v_metrics))
                   else Inr v_metrics) (\<lambda>v_metrics.
           synthesize_loop rest (v_insights, v_recommendations, v_metrics)))))))
       else synthesize_loop rest (v_insights, v_recommendations, v_metrics))"

text \<open>
  \<^verbatim>\<open>PrincipalAgent._synthesize_results\<close>: any exception inside the \<^verbatim>\<open>try\<close> gives the
  degraded synthesis.
\<close>

definition synthesize_results :: "request \<Rightarrow> pydict \<Rightarrow> pydict" where
  "synthesize_results request_data expert_results =
     (case
        bind_exn (synthesize_loop expert_results ([], [], [])) (\<lambda>(v_insights, v_recommendations, v_metrics).
        bind_exn (py_filter (\<lambda>r. bind_exn (py_contains ''error'' r) (\<lambda>b. Inr (\<not> b)))
                    (map snd expert_results)) (\<lambda>successful.
        bind_exn (py_filter (py_contains ''error'') (map snd expert_results)) (\<lambda>failed.
          Inr [(''summary'',
                  PStr (''Analysis completed by '' @ str_nat (length expert_results)
                          @ '' expert agents'')),
               (''insights'', PDict v_insights),
               (''recommendations'', PList v_recommendations),
               (''metrics'', PDict v_metrics),
               (''expert_count'', PNum (real (length expert_results))),
               (''successful_experts'', PNum (real (length successful))),
               (''failed_experts'', PNum (real (length failed)))])))
      of
        Inr synthesis \<Rightarrow> synthesis
      | Inl e \<Rightarrow>
          [(''error'', PStr (''Failed to synthesize results: '' @ str_exn e)),
           (''summary'', PStr ''Synthesis failed'')])"

subsection \<open>Quality rules of the principal agent\<close>

text \<open>
  Each rule collects issues and recommendations in local lists and then builds its metric
  without them, so every metric of the principal agent has empty lists.
\<close>

definition PrincipalAgent_get_quality_threshold :: real where
  "PrincipalAgent_get_quality_threshold = 0.7"

definition PrincipalAgent_get_quality_metrics :: "QualityMetric list" where
  "PrincipalAgent_get_quality_metrics =
     [mk_metric ACCURACY 0 0.25 ''Synthesis accuracy'' [] [],
      mk_metric COMPLETENESS 0 0.25 ''Synthesis completeness'' [] [],
      mk_metric RELEVANCE 0 0.2 ''Synthesis relevance'' [] [],
      mk_metric CONSISTENCY 0 0.15 ''Cross-expert consistency'' [] [],
      mk_metric CLARITY 0 0.1 ''Synthesis clarity'' [] [],
      mk_metric ACTIONABILITY 0 0.05 ''Actionability of synthesis'' [] []]"

definition PrincipalAgent_assess_accuracy ::
  "runtime \<Rightarrow> pydict \<Rightarrow> request \<Rightarrow> exn + QualityMetric" where
  "PrincipalAgent_assess_accuracy rt agent_result original_request =
     (let v_score = 0.8;
          \<comment> \<open>Check if all expert results are present\<close>
          expert_results = dict_get agent_result ''expert_results'' (PDict []);
          v_score = (if \<not> truthy expert_results then v_score - 0.3 else v_score)
      in \<comment> \<open>Check for failed experts\<close>
         bind_exn (py_values expert_results) (\<lambda>vals.
         bind_exn (py_filter (py_contains ''error'') vals) (\<lambda>failed_experts.
         let v_score = (if failed_experts \<noteq> [] then v_score - 0.2 * real (length failed_experts)
                        else v_score);
             \<comment> \<open>Check synthesis quality\<close>
             synthesis = dict_get agent_result ''synthesis'' (PDict [])
         in bind_exn (py_contains ''error'' synthesis) (\<lambda>synthesis_failed.
            let v_score = (if synthesis_failed then v_score - 0.4 else v_score)
            in Inr (mk_metric ACCURACY (max 0 v_score) 0.25 ''Synthesis accuracy assessment''
                      [] [])))))"

text \<open>The loop over the required fields of the completeness rule.\<close>

fun completeness_loop :: "pyval \<Rightarrow> string list \<Rightarrow> real \<Rightarrow> exn + real" where
  "completeness_loop synthesis [] v_score = Inr v_score"
| "completeness_loop synthesis (field # rest) v_score =
     bind_exn (py_contains field synthesis) (\<lambda>present.
       if \<not> present then completeness_loop synthesis rest (v_score - 0.2)
       else bind_exn (py_getitem synthesis field) (\<lambda>v.
         if \<not> truthy v then completeness_loop synthesis rest (v_score - 0.2)
         else completeness_loop synthesis rest v_score))"

definition PrincipalAgent_assess_completeness ::
  "runtime \<Rightarrow> pydict \<Rightarrow> request \<Rightarrow> exn + QualityMetric" where
  "PrincipalAgent_assess_completeness rt agent_result original_request =
     (let v_score = 0.9;
          synthesis = dict_get agent_result ''synthesis'' (PDict []);
          required_fields = [''summary'', ''insights'', ''recommendations'']
      in bind_exn (completeness_loop synthesis required_fields v_score) (\<lambda>v_score.
           Inr (mk_metric COMPLETENESS (max 0 v_score) 0.25
                  ''Synthesis completeness assessment'' [] [])))"

definition PrincipalAgent_assess_relevance ::
  "runtime \<Rightarrow> pydict \<Rightarrow> request \<Rightarrow> exn + QualityMetric" where
  "PrincipalAgent_assess_relevance rt agent_result original_request =
     (let v_score = 0.85;
          request_type = lower (get_or [] (rq_request_type original_request));
          synthesis = dict_get agent_result ''synthesis'' (PDict [])
      in \<comment> \<open>Check if synthesis addresses the request type\<close>
         bind_exn
           (if request_type \<noteq> [] then
              bind_exn (py_get synthesis ''summary'' PNone) (\<lambda>v_summary.
                if truthy v_summary then
                  bind_exn (py_getitem synthesis ''summary'') (\<lambda>v_summary.
                  bind_exn (py_lower v_summary) (\<lambda>summary_lower.
                    if \<not> str_in request_type summary_lower then Inr (v_score - 0.2)
                    else Inr v_score))
                else Inr v_score)
            else Inr v_score) (\<lambda>v_score.
           Inr (mk_metric RELEVANCE (max 0 v_score) 0.2 ''Synthesis relevance assessment''
                  [] [])))"

text \<open>The loop of the consistency rule that gathers the recommendations.\<close>

fun gather_recommendations :: "pyval list \<Rightarrow> pyval list \<Rightarrow> exn + pyval list" where
  "gather_recommendations [] all_recommendations = Inr all_recommendations"
| "gather_recommendations (result # rest) all_recommendations =
     bind_exn (py_contains ''recommendations'' result) (\<lambda>has_recommendations.
       if has_recommendations then
         bind_exn (py_getitem result ''recommendations'') (\<lambda>v.
         bind_exn (py_extend all_recommendations v) (\<lambda>all_recommendations.
           gather_recommendations rest all_recommendations))
       else gather_recommendations rest all_recommendations)"

definition PrincipalAgent_assess_consistency ::
  "runtime \<Rightarrow> pydict \<Rightarrow> request \<Rightarrow> exn + QualityMetric" where
  "PrincipalAgent_assess_consistency rt agent_result original_request =
     (let v_score = 0.8;
          expert_results = dict_get agent_result ''expert_results'' (PDict [])
      in bind_exn (py_values expert_results) (\<lambda>vals.
         bind_exn (py_filter (\<lambda>r. bind_exn (py_contains ''error'' r) (\<lambda>b. Inr (\<not> b))) vals)
           (\<lambda>successful_experts.
         bind_exn
           (if length successful_experts > 1 then
              \<comment> \<open>Check for consistency in recommendations\<close>
              bind_exn (gather_recommendations successful_experts []) (\<lambda>all_recommendations.
              bind_exn (py_set_size all_recommendations) (\<lambda>n.
                if n < length all_recommendations then Inr (v_score - 0.1) else Inr v_score))
            else Inr v_score) (\<lambda>v_score.
           Inr (mk_metric CONSISTENCY (max 0 v_score) 0.15
                  ''Cross-expert consistency assessment'' [] [])))))"

definition PrincipalAgent_assess_clarity ::
  "runtime \<Rightarrow> pydict \<Rightarrow> request \<Rightarrow> exn + QualityMetric" where
  "PrincipalAgent_assess_clarity rt agent_result original_request =
     (let v_score = 0.85;
          synthesis = dict_get agent_result ''synthesis'' (PDict [])
      in bind_exn (py_get synthesis ''summary'' (PStr [])) (\<lambda>v_summary.
         bind_exn (py_len v_summary) (\<lambda>n.
         let v_score = (if n < 50 then v_score - 0.2 else v_score)
         in Inr (mk_metric CLARITY (max 0 v_score) 0.1 ''Synthesis clarity assessment'' [] []))))"

definition PrincipalAgent_assess_actionability ::
  "runtime \<Rightarrow> pydict \<Rightarrow> request \<Rightarrow> exn + QualityMetric" where
  "PrincipalAgent_assess_actionability rt agent_result original_request =
     (let v_score = 0.8;
          synthesis = dict_get agent_result ''synthesis'' (PDict [])
      in bind_exn (py_get synthesis ''recommendations'' (PList [])) (\<lambda>recommendations_list.
         let v_score = (if \<not> truthy recommendations_list then v_score - 0.3 else v_score)
         in Inr (mk_metric ACTIONABILITY (max 0 v_score) 0.05
                   ''Synthesis actionability assessment'' [] [])))"

definition PrincipalAgent_determine_quality_level :: "real \<Rightarrow> QualityScore + string" where
  "PrincipalAgent_determine_quality_level v_overall_score =
     (if v_overall_score \<ge> 0.9 then Inr ''EXCELLENT''
      else if v_overall_score \<ge> 0.8 then Inr ''VERY_GOOD''
      else if v_overall_score \<ge> 0.7 then Inr ''GOOD''
      else if v_overall_score \<ge> 0.6 then Inr ''ACCEPTABLE''
      else Inr ''POOR'')"

definition PrincipalAgent_generate_summary ::
  "runtime \<Rightarrow> QualityMetric list \<Rightarrow> real \<Rightarrow> exn + string" where
  "PrincipalAgent_generate_summary rt v_metrics v_overall_score =
     (if v_overall_score \<ge> 0.8 then
        Inr ''High-quality synthesis with comprehensive expert analysis''
      else if v_overall_score \<ge> 0.7 then
        Inr ''Good quality synthesis meeting publication standards''
      else if v_overall_score \<ge> 0.6 then
        Inr ''Acceptable synthesis with some quality concerns''
      else Inr ''Poor quality synthesis requiring review before publication'')"

text \<open>The object \<^verbatim>\<open>PrincipalAgent()\<close> as constructed, before \<^verbatim>\<open>initialize\<close>.\<close>

definition PrincipalAgent :: principal where
  "PrincipalAgent =
     \<lparr>name = ''PrincipalAgent'', is_initialized = False,
      get_quality_threshold = PrincipalAgent_get_quality_threshold,
      get_quality_metrics = PrincipalAgent_get_quality_metrics,
      assess_accuracy = PrincipalAgent_assess_accuracy,
      assess_completeness = PrincipalAgent_assess_completeness,
      assess_relevance = PrincipalAgent_assess_relevance,
      assess_timeliness = default_assess_timeliness,
      assess_consistency = PrincipalAgent_assess_consistency,
      assess_clarity = PrincipalAgent_assess_clarity,
      assess_actionability = PrincipalAgent_assess_actionability,
      determine_quality_level = PrincipalAgent_determine_quality_level,
      generate_summary = PrincipalAgent_generate_summary,
      expert_agents = [],
      workflow_history = [],
      publication_queue = [],
      file_streamer = FileStreamer\<rparr>"

text \<open>
  \<^verbatim>\<open>PrincipalAgent.initialize\<close>. Whether AutoGen accepts an agent is given per agent name:
  a failure for the principal agent is raised, one for an expert is logged and the expert
  stays registered.
\<close>

definition initialize :: "(string \<Rightarrow> bool) \<Rightarrow> principal \<Rightarrow> exn + principal" where
  "initialize autogen_ok self =
     (if \<not> autogen_ok (name self) then Inl (Exception ''AutoGen initialization failed'')
      else
        Inr (self\<lparr>is_initialized := True,
                  expert_agents :=
                    map (\<lambda>(k, a). (k, a\<lparr>is_initialized := autogen_ok (name a)\<rparr>))
                      [(''financial'', FinancialHealthExpert),
                       (''utility'', UtilityManagementExpert),
                       (''vehicle'', VehicleManagementExpert)]\<rparr>))"

subsection \<open>Processing a request\<close>

text \<open>
  The delegation loop of \<^verbatim>\<open>process\<close>: each required expert runs once; what it raises is
  caught and recorded in its slot. The expert objects live in the registry, which is
  returned with their statistics updated.
\<close>

fun delegate ::
  "runtime \<Rightarrow> request \<Rightarrow> (string \<times> expert) list \<Rightarrow> (string \<times> expert) list \<times> pydict
     \<Rightarrow> (string \<times> expert) list \<times> pydict" where
  "delegate rt request_data [] acc = acc"
| "delegate rt request_data ((expert_name, expert_agent) # rest) (registry, expert_results) =
     (case BaseExpertAgent_process rt expert_agent request_data of
        (expert_agent', Inr expert_result) \<Rightarrow>
          delegate rt request_data rest
            (dict_set expert_name expert_agent' registry,
             dict_set expert_name (PDict expert_result) expert_results)
      | (expert_agent', Inl e) \<Rightarrow>
          delegate rt request_data rest
            (dict_set expert_name expert_agent' registry,
             dict_set expert_name
               (PDict [(''error'', PStr (str_exn e)),
                       (''expert_agent'', PStr expert_name),
                       (''status'', PStr ''failed'')])
               expert_results))"

text \<open>
  \<^verbatim>\<open>PrincipalAgent._publish_results\<close>: calls \<^verbatim>\<open>stream_data\<close> of the file streamer; an object
  without that method raises AttributeError; every exception is logged and raised again.
\<close>

definition publish_results :: "runtime \<Rightarrow> principal \<Rightarrow> pydict \<Rightarrow> exn + unit" where
  "publish_results rt self final_result =
     (case map_of (file_streamer self) ''stream_data'' of
        None \<Rightarrow> Inl (AttributeError ''FileStreamer object has no attribute stream_data'')
      | Some stream_data \<Rightarrow>
          (case stream_data rt final_result of Inl e \<Rightarrow> Inl e | Inr v \<Rightarrow> Inr ()))"

text \<open>\<^verbatim>\<open>PrincipalAgent.process\<close>, which returns the object's new state with the outcome.\<close>

definition PrincipalAgent_process ::
  "runtime \<Rightarrow> principal \<Rightarrow> request \<Rightarrow> principal \<times> (exn + pydict)" where
  "PrincipalAgent_process rt self request_data =
     (\<comment> \<open>Check if principal agent is initialized\<close>
      if \<not> is_initialized self then
        (self, Inl (RuntimeError ''Principal agent is not initialized''))
      else
        let \<comment> \<open>Step 1: Analyze request and determine required experts\<close>
            required_experts = determine_required_experts self request_data;
            \<comment> \<open>Step 2: Delegate to expert agents\<close>
            (registry, expert_results) =
              delegate rt request_data required_experts (expert_agents self, []);
            self = self\<lparr>expert_agents := registry\<rparr>;
            \<comment> \<open>Step 3: Synthesize results\<close>
            synthesis_result = synthesize_results request_data expert_results
        in \<comment> \<open>Step 4: Perform quality check on synthesis\<close>
           case evaluate_quality rt self synthesis_result request_data of
             Inl e \<Rightarrow> (self, Inl e)
           | Inr quality_report \<Rightarrow>
               let \<comment> \<open>Step 5: Prepare final response\<close>
                   processing_time = elapsed rt (name self);
                   final_response =
                     [(''request_id'', PStr (get_or ''unknown'' (rq_request_id request_data))),
                      (''request_type'', PStr (get_or ''unknown'' (rq_request_type request_data))),
                      (''status'', PStr ''completed''),
                      (''processing_time'', PNum processing_time),
                      (''principal_agent'', PStr (name self)),
                      (''expert_results'', PDict expert_results),
                      (''synthesis'', PDict synthesis_result),
                      (''quality_report'', serialize_quality_report quality_report),
                      (''approved_for_publication'',
                         PBool (approved_for_publication quality_report)),
                      (''timestamp'', PNum (time_time rt))];
                   \<comment> \<open>Step 6: Log workflow\<close>
                   self = self\<lparr>workflow_history := workflow_history self @
                            [[(''request_id'',
                                 PStr (get_or ''unknown'' (rq_request_id request_data))),
                              (''timestamp'', PNum (time_time rt)),
                              (''experts_used'', PList (map (\<lambda>kv. PStr (fst kv)) required_experts)),
                              (''quality_score'', PNum (overall_score quality_report)),
                              (''approved'', PBool (approved_for_publication quality_report))]]\<rparr>
               in if approved_for_publication quality_report then
                    let self = self\<lparr>publication_queue := publication_queue self @ [final_response]\<rparr>
                    in (case publish_results rt self final_response of
                          Inl e \<Rightarrow> (self, Inl e)
                        | Inr u \<Rightarrow> (self, Inr final_response))
                  else (self, Inr final_response))"

section \<open>Notions used in the statements\<close>

text \<open>
  An object of a class in any state: an expert that differs from the freshly constructed
  object of its class at most in its statistics and its initialisation flag, and a principal
  agent that differs from \<^verbatim>\<open>PrincipalAgent()\<close> at most in its flag, its registry of experts,
  its history, its queue and its file streamer.
\<close>

definition instance_of :: "expert \<Rightarrow> expert \<Rightarrow> bool" where
  "instance_of obj cls =
     (obj\<lparr>is_initialized := is_initialized cls, processing_stats := processing_stats cls\<rparr> = cls)"

definition principal_instance :: "principal \<Rightarrow> bool" where
  "principal_instance obj =
     (obj\<lparr>is_initialized := False, expert_agents := [], workflow_history := [],
          publication_queue := [], file_streamer := FileStreamer\<rparr> = PrincipalAgent)"

text \<open>The three expert classes with their domain tokens.\<close>

definition expert_classes :: "(expert \<times> string) list" where
  "expert_classes =
     [(FinancialHealthExpert, ''financial_health''),
      (UtilityManagementExpert, ''utility_management''),
      (VehicleManagementExpert, ''vehicle_management'')]"

definition standard_expert :: "expert \<Rightarrow> bool" where
  "standard_expert obj = list_ex (\<lambda>c. instance_of obj (fst c)) expert_classes"

text \<open>An assessment that, when it returns, returns a metric of dimension \<open>d\<close>; and one that
  does return such a metric.\<close>

definition yields :: "QualityDimension \<Rightarrow> exn + QualityMetric \<Rightarrow> bool" where
  "yields d x = (case x of Inl e \<Rightarrow> True | Inr m \<Rightarrow> dimension m = d)"

definition returns :: "QualityDimension \<Rightarrow> exn + QualityMetric \<Rightarrow> bool" where
  "returns d x = (case x of Inl e \<Rightarrow> False | Inr m \<Rightarrow> dimension m = d)"

text \<open>A dictionary entry that holds a list of strings.\<close>

definition strlist_at :: "string \<Rightarrow> pydict \<Rightarrow> bool" where
  "strlist_at k d = (case map_of d k of Some (PList xs) \<Rightarrow> list_all (\<lambda>x. \<exists>s. x = PStr s) xs | _ \<Rightarrow> False)"

text \<open>What the delegation loop stores in the slot of an expert, given the outcome of its
  \<^verbatim>\<open>process\<close>.\<close>

definition recorded_result :: "string \<Rightarrow> exn + pydict \<Rightarrow> pyval" where
  "recorded_result expert_name outcome =
     (case outcome of
        Inr expert_result \<Rightarrow> PDict expert_result
      | Inl e \<Rightarrow>
          PDict [(''error'', PStr (str_exn e)),
                 (''expert_agent'', PStr expert_name),
                 (''status'', PStr ''failed'')])"

text \<open>A map of expert results whose every slot was filled from a run of one of the three
  experts, in some state, on the request.\<close>

definition produced_by_experts :: "runtime \<Rightarrow> request \<Rightarrow> pydict \<Rightarrow> bool" where
  "produced_by_experts rt request_data expert_results =
     (\<forall>(expert_name, v) \<in> set expert_results.
        \<exists>obj. standard_expert obj
          \<and> v = recorded_result expert_name (snd (BaseExpertAgent_process rt obj request_data)))"

text \<open>The recommendation lists of the error-free results, concatenated in iteration order.\<close>

definition error_free_recommendations :: "pydict \<Rightarrow> pyval list" where
  "error_free_recommendations expert_results =
     concat (map (\<lambda>(expert_name, v).
                    case v of
                      PDict r \<Rightarrow>
                        if has_key ''error'' r then []
                        else (case map_of r ''recommendations'' of Some (PList xs) \<Rightarrow> xs | _ \<Rightarrow> [])
                    | _ \<Rightarrow> [])
                 expert_results)"

text \<open>The seven dimensions, in the order of the enumeration.\<close>

definition all_dimensions :: "QualityDimension list" where
  "all_dimensions =
     [ACCURACY, COMPLETENESS, RELEVANCE, TIMELINESS, CONSISTENCY, CLARITY, ACTIONABILITY]"

subsection \<open>Sample inputs\<close>

definition sample_runtime :: runtime where
  "sample_runtime =
     \<lparr>repr_of = (\<lambda>v. ''budget debt savings money''), format_2f = (\<lambda>x. ''0.00''),
      utcnow = PStr ''2025-06-28T17:00:00'', time_time = 0, elapsed = (\<lambda>n. 0),
      disk_write_ok = (\<lambda>d. False)\<rparr>"

definition sample_request :: "string \<Rightarrow> string \<Rightarrow> request" where
  "sample_request t d =
     \<lparr>rq_request_id = Some ''r1'', rq_user_id = Some ''user_001'', rq_request_type = Some t,
      rq_description = Some d, rq_priority = None, rq_metadata = None\<rparr>"

text \<open>The principal agent after a successful \<^verbatim>\<open>initialize\<close>.\<close>

definition sample_principal :: principal where
  "sample_principal =
     PrincipalAgent\<lparr>is_initialized := True,
       expert_agents :=
         [(''financial'', FinancialHealthExpert\<lparr>is_initialized := True\<rparr>),
          (''utility'', UtilityManagementExpert\<lparr>is_initialized := True\<rparr>),
          (''vehicle'', VehicleManagementExpert\<lparr>is_initialized := True\<rparr>)]\<rparr>"

text \<open>A dictionary with the given keys, in order, that holds lists of strings at some of
  them.\<close>

definition shaped :: "string list \<Rightarrow> string list \<Rightarrow> pydict \<Rightarrow> bool" where
  "shaped keys list_keys d = (map fst d = keys \<and> list_all (\<lambda>k. strlist_at k d) list_keys)"

text \<open>The keys of the analyses of the three generators.\<close>

definition financial_keys :: "string list" where
  "financial_keys =
     [''analysis_type'', ''financial_health_score'', ''key_issues'', ''budget_optimization'',
      ''investment_recommendations'', ''debt_management'', ''risk_assessment'',
      ''implementation_timeline'', ''expected_outcomes'', ''priority_actions'',
      ''estimated_savings'', ''risk_level'']"

definition utility_keys :: "string list" where
  "utility_keys =
     [''analysis_type'', ''key_issues'', ''optimization_opportunities'',
      ''cost_savings_recommendations'', ''implementation_steps'', ''expected_benefits'',
      ''risk_considerations'', ''technology_recommendations'', ''priority_level'',
      ''estimated_savings'', ''implementation_timeline'']"

definition vehicle_keys :: "string list" where
  "vehicle_keys =
     [''analysis_type'', ''vehicle_health_score'', ''key_issues'',
      ''maintenance_recommendations'', ''cost_optimization'', ''safety_improvements'',
      ''efficiency_enhancements'', ''implementation_timeline'', ''expected_benefits'',
      ''priority_actions'', ''estimated_savings'', ''risk_level'']"




text \<open>
  Steps 1 and 2 of \<^verbatim>\<open>process\<close>: the registry and the expert results after the selected
  experts have run. Steps 3 and 4: the report on the synthesis of these results. Step 5: the
  final response built around a report.
\<close>

definition delegated :: "runtime \<Rightarrow> principal \<Rightarrow> request \<Rightarrow> (string \<times> expert) list \<times> pydict" where
  "delegated rt self request_data =
     delegate rt request_data (determine_required_experts self request_data)
       (expert_agents self, [])"


definition final_response :: "runtime \<Rightarrow> principal \<Rightarrow> request \<Rightarrow> QualityReport \<Rightarrow> pydict" where
  "final_response rt self request_data quality_report =
     [(''request_id'', PStr (get_or ''unknown'' (rq_request_id request_data))),
      (''request_type'', PStr (get_or ''unknown'' (rq_request_type request_data))),
      (''status'', PStr ''completed''),
      (''processing_time'', PNum (elapsed rt (name self))),
      (''principal_agent'', PStr (name self)),
      (''expert_results'', PDict (snd (delegated rt self request_data))),
      (''synthesis'',
         PDict (synthesize_results request_data (snd (delegated rt self request_data)))),
      (''quality_report'', serialize_quality_report quality_report),
      (''approved_for_publication'', PBool (approved_for_publication quality_report)),
      (''timestamp'', PNum (time_time rt))]"




text \<open>The keys of the final response.\<close>

definition response_keys :: "string list" where
  "response_keys =
     [''request_id'', ''request_type'', ''status'', ''processing_time'', ''principal_agent'',
      ''expert_results'', ''synthesis'', ''quality_report'', ''approved_for_publication'',
      ''timestamp'']"

text \<open>Expert results that are dictionaries whose \<open>recommendations\<close>, where an error-free
  result has them, are a list.\<close>

definition list_recommendations :: "pydict \<Rightarrow> bool" where
  "list_recommendations expert_results =
     list_all (\<lambda>(expert_name, v).
                 case v of
                   PDict r \<Rightarrow>
                     has_key ''error'' r
                     \<or> (case map_of r ''recommendations'' of
                           None \<Rightarrow> True | Some (PList xs) \<Rightarrow> True | Some other \<Rightarrow> False)
                 | _ \<Rightarrow> False)
       expert_results"

section \<open>Verified properties\<close>

subsection \<open>Weighted mean\<close>

lemma weighted_sum_bounds:
  assumes "\<forall>m\<in>set ms. 0 \<le> score m \<and> score m \<le> 1 \<and> 0 \<le> weight m \<and> weight m \<le> 1"
  shows "0 \<le> sum_list (map (\<lambda>m. score m * weight m) ms)
       \<and> sum_list (map (\<lambda>m. score m * weight m) ms) \<le> sum_list (map weight ms)"
  using assms
proof (induction ms)
  case Nil
  then show ?case by simp
next
  case (Cons m ms)
  have a: "0 \<le> score m * weight m" using Cons.prems by simp
  have b: "score m * weight m \<le> weight m"
    using Cons.prems mult_left_le_one_le [of "weight m" "score m"] by (simp add: mult.commute)
  from Cons show ?case using a b by auto
qed

lemma mean_bounds:
  fixes s w :: real
  assumes "0 \<le> s" "s \<le> w" "0 < w"
  shows "0 \<le> s / w \<and> s / w \<le> 1"
  using assms by simp

text \<open>
  C2. For a list of metrics whose scores and weights lie in [0,1]: when the total weight is
  positive the overall score is the weighted mean and lies in [0,1]; when the list is empty or
  the total weight is 0 the overall score is 0. \<^verbatim>\<open>QualityReport.get_weighted_score\<close> computes
  the same value from the metrics of a report.
\<close>

theorem overall_score_weighted_mean:
  assumes "\<forall>m\<in>set ms. 0 \<le> score m \<and> score m \<le> 1 \<and> 0 \<le> weight m \<and> weight m \<le> 1"
  shows "(0 < sum_list (map weight ms) \<longrightarrow>
            calculate_overall_score ms
              = sum_list (map (\<lambda>m. score m * weight m) ms) / sum_list (map weight ms)
          \<and> 0 \<le> calculate_overall_score ms \<and> calculate_overall_score ms \<le> 1)
       \<and> (ms = [] \<or> sum_list (map weight ms) = 0 \<longrightarrow> calculate_overall_score ms = 0)
       \<and> (\<forall>r. metrics r = ms \<longrightarrow> get_weighted_score r = calculate_overall_score ms)"
proof -
  have eq: "0 < sum_list (map weight ms) \<Longrightarrow> calculate_overall_score ms
              = sum_list (map (\<lambda>m. score m * weight m) ms) / sum_list (map weight ms)"
    by (auto simp: calculate_overall_score_def Let_def)
  have z: "ms = [] \<or> sum_list (map weight ms) = 0 \<Longrightarrow> calculate_overall_score ms = 0"
    by (auto simp: calculate_overall_score_def Let_def)
  have g: "\<And>r. metrics r = ms \<Longrightarrow> get_weighted_score r = calculate_overall_score ms"
    by (auto simp: calculate_overall_score_def get_weighted_score_def Let_def)
  show ?thesis
    using eq z g weighted_sum_bounds [OF assms] mean_bounds by auto
qed

theorem overall_score_weighted_mean_witness:
  "calculate_overall_score
        [mk_metric ACCURACY 0.9 0.3 [] [] [], mk_metric TIMELINESS 0.4 0.1 [] [] []] = 31 / 40
   \<and> calculate_overall_score
        [mk_metric ACCURACY 0.9 0.3 [] [] [], mk_metric TIMELINESS 0.4 0.1 [] [] []] \<le> 1"
proof -
  let ?ms = "[mk_metric ACCURACY 0.9 0.3 [] [] [], mk_metric TIMELINESS 0.4 0.1 [] [] []]"
  have h: "\<forall>m\<in>set ?ms. 0 \<le> score m \<and> score m \<le> 1 \<and> 0 \<le> weight m \<and> weight m \<le> 1"
    by (simp add: mk_metric_def)
  have w: "0 < sum_list (map weight ?ms)"
    by (simp add: mk_metric_def)
  from overall_score_weighted_mean [OF h] w
  have "calculate_overall_score ?ms
          = sum_list (map (\<lambda>m. score m * weight m) ?ms) / sum_list (map weight ?ms)
        \<and> calculate_overall_score ?ms \<le> 1"
    by blast
  then show ?thesis by (simp add: mk_metric_def)
qed

subsection \<open>Error propagation\<close>

lemma bind_exn_simps [simp]:
  "bind_exn (Inr v) f = f v" "bind_exn (Inl e) f = Inl e"
  by (simp_all add: bind_exn_def)

lemma bind_exn_Inr_iff:
  "bind_exn x f = Inr y \<longleftrightarrow> (\<exists>v. x = Inr v \<and> f v = Inr y)"
  by (cases x) simp_all

lemma dimension_mk_metric [simp]: "dimension (mk_metric d s w de i r) = d"
  by (simp add: mk_metric_def)

subsection \<open>Dimensions of the assessed metrics\<close>

lemma yields_Inr: "yields d (Inr (mk_metric d s w de i r))"
  by (simp add: yields_def)

lemma yields_if: "yields d a \<Longrightarrow> yields d b \<Longrightarrow> yields d (if c then a else b)"
  by simp

lemma yields_bind: "(\<And>v. yields d (f v)) \<Longrightarrow> yields d (bind_exn x f)"
  by (cases x) (simp_all add: yields_def)

lemma yields_Let: "(\<And>v. yields d (f v)) \<Longrightarrow> yields d (Let x f)"
  by simp

lemma yields_prod: "(\<And>a b. yields d (f a b)) \<Longrightarrow> yields d (case p of (a, b) \<Rightarrow> f a b)"
  by (cases p) simp

lemmas yields_intros = yields_Inr yields_if yields_bind yields_Let yields_prod

lemma yields_default_accuracy: "yields ACCURACY (default_assess_accuracy rt res req)"
  unfolding default_assess_accuracy_def by (intro yields_intros)
lemma yields_default_completeness: "yields COMPLETENESS (default_assess_completeness rt res req)"
  unfolding default_assess_completeness_def by (intro yields_intros)
lemma yields_default_relevance: "yields RELEVANCE (default_assess_relevance rt res req)"
  unfolding default_assess_relevance_def by (intro yields_intros)
lemma yields_default_timeliness: "yields TIMELINESS (default_assess_timeliness rt res req)"
  unfolding default_assess_timeliness_def by (intro yields_intros)
lemma yields_default_consistency: "yields CONSISTENCY (default_assess_consistency rt res req)"
  unfolding default_assess_consistency_def by (intro yields_intros)
lemma yields_default_clarity: "yields CLARITY (default_assess_clarity rt res req)"
  unfolding default_assess_clarity_def by (intro yields_intros)
lemma yields_default_actionability: "yields ACTIONABILITY (default_assess_actionability rt res req)"
  unfolding default_assess_actionability_def by (intro yields_intros)

lemma yields_financial:
  "yields ACCURACY (FinancialHealthExpert_assess_accuracy rt res req)"
  "yields COMPLETENESS (FinancialHealthExpert_assess_completeness rt res req)"
  "yields RELEVANCE (FinancialHealthExpert_assess_relevance rt res req)"
  "yields CONSISTENCY (FinancialHealthExpert_assess_consistency rt res req)"
  "yields CLARITY (FinancialHealthExpert_assess_clarity rt res req)"
  "yields ACTIONABILITY (FinancialHealthExpert_assess_actionability rt res req)"
  unfolding FinancialHealthExpert_assess_accuracy_def FinancialHealthExpert_assess_completeness_def
    FinancialHealthExpert_assess_relevance_def FinancialHealthExpert_assess_consistency_def
    FinancialHealthExpert_assess_clarity_def FinancialHealthExpert_assess_actionability_def
  by (intro yields_intros)+

lemma yields_utility:
  "yields ACCURACY (UtilityManagementExpert_assess_accuracy rt res req)"
  "yields COMPLETENESS (UtilityManagementExpert_assess_completeness rt res req)"
  "yields RELEVANCE (UtilityManagementExpert_assess_relevance rt res req)"
  "yields CONSISTENCY (UtilityManagementExpert_assess_consistency rt res req)"
  "yields CLARITY (UtilityManagementExpert_assess_clarity rt res req)"
  "yields ACTIONABILITY (UtilityManagementExpert_assess_actionability rt res req)"
  unfolding UtilityManagementExpert_assess_accuracy_def UtilityManagementExpert_assess_completeness_def
    UtilityManagementExpert_assess_relevance_def UtilityManagementExpert_assess_consistency_def
    UtilityManagementExpert_assess_clarity_def UtilityManagementExpert_assess_actionability_def
  by (intro yields_intros)+

lemma yields_vehicle:
  "yields ACCURACY (VehicleManagementExpert_assess_accuracy rt res req)"
  "yields COMPLETENESS (VehicleManagementExpert_assess_completeness rt res req)"
  "yields RELEVANCE (VehicleManagementExpert_assess_relevance rt res req)"
  "yields CONSISTENCY (VehicleManagementExpert_assess_consistency rt res req)"
  "yields CLARITY (VehicleManagementExpert_assess_clarity rt res req)"
  "yields ACTIONABILITY (VehicleManagementExpert_assess_actionability rt res req)"
  unfolding VehicleManagementExpert_assess_accuracy_def VehicleManagementExpert_assess_completeness_def
    VehicleManagementExpert_assess_relevance_def VehicleManagementExpert_assess_consistency_def
    VehicleManagementExpert_assess_clarity_def VehicleManagementExpert_assess_actionability_def
  by (intro yields_intros)+

lemma yields_principal:
  "yields ACCURACY (PrincipalAgent_assess_accuracy rt res req)"
  "yields COMPLETENESS (PrincipalAgent_assess_completeness rt res req)"
  "yields RELEVANCE (PrincipalAgent_assess_relevance rt res req)"
  "yields CONSISTENCY (PrincipalAgent_assess_consistency rt res req)"
  "yields CLARITY (PrincipalAgent_assess_clarity rt res req)"
  "yields ACTIONABILITY (PrincipalAgent_assess_actionability rt res req)"
  unfolding PrincipalAgent_assess_accuracy_def PrincipalAgent_assess_completeness_def
    PrincipalAgent_assess_relevance_def PrincipalAgent_assess_consistency_def
    PrincipalAgent_assess_clarity_def PrincipalAgent_assess_actionability_def
  by (intro yields_intros)+


lemma yields_dimension: "yields d x \<Longrightarrow> x = Inr m \<Longrightarrow> dimension m = d"
  by (simp add: yields_def)

text \<open>An agent whose seven rules each answer for their own dimension.\<close>

lemma assess_dimension_yields:
  assumes "\<And>rt res req. yields ACCURACY (assess_accuracy a rt res req)"
    and "\<And>rt res req. yields COMPLETENESS (assess_completeness a rt res req)"
    and "\<And>rt res req. yields RELEVANCE (assess_relevance a rt res req)"
    and "\<And>rt res req. yields TIMELINESS (assess_timeliness a rt res req)"
    and "\<And>rt res req. yields CONSISTENCY (assess_consistency a rt res req)"
    and "\<And>rt res req. yields CLARITY (assess_clarity a rt res req)"
    and "\<And>rt res req. yields ACTIONABILITY (assess_actionability a rt res req)"
  shows "yields d (assess_dimension a d rt res req)"
  using assms by (cases d) simp_all

lemma assess_metrics_dimensions:
  assumes "\<And>d. yields d (assess_dimension a d rt res req)"
    and "assess_metrics a rt res req cfg = Inr ms"
  shows "map dimension ms = map dimension cfg"
  using assms(2)
proof (induction cfg arbitrary: ms)
  case Nil
  then show ?case by simp
next
  case (Cons c cfg)
  from Cons.prems obtain m ms' where
    m: "assess_dimension a (dimension c) rt res req = Inr m"
    and ms': "assess_metrics a rt res req cfg = Inr ms'"
    and ms: "ms = m # ms'"
    by (auto simp: bind_exn_Inr_iff)
  from assms(1) m have "dimension m = dimension c" by (rule yields_dimension)
  with Cons.IH [OF ms'] ms show ?case by simp
qed

lemma evaluate_quality_metrics:
  assumes "evaluate_quality rt a res req = Inr r"
  shows "assess_metrics a rt res req (get_quality_metrics a) = Inr (metrics r)"
  using assms by (auto simp: evaluate_quality_def bind_exn_Inr_iff Let_def)

lemma evaluate_quality_dimensions:
  assumes "\<And>d. yields d (assess_dimension a d rt res req)"
    and "evaluate_quality rt a res req = Inr r"
  shows "map dimension (metrics r) = map dimension (get_quality_metrics a)"
  using assms(1) evaluate_quality_metrics [OF assms(2)] by (rule assess_metrics_dimensions)

subsection \<open>Objects in any state\<close>

lemma instance_ofD:
  "instance_of obj cls \<Longrightarrow>
     obj = cls\<lparr>is_initialized := is_initialized obj, processing_stats := processing_stats obj\<rparr>"
  unfolding instance_of_def by (cases obj, cases cls) auto

lemma principal_updates_eqD:
  "obj\<lparr>is_initialized := i, expert_agents := ea, workflow_history := wh,
        publication_queue := pq, file_streamer := fs\<rparr> = (cls :: principal) \<Longrightarrow>
     obj = cls\<lparr>is_initialized := is_initialized obj,
             expert_agents := expert_agents obj, workflow_history := workflow_history obj,
             publication_queue := publication_queue obj, file_streamer := file_streamer obj\<rparr>"
  by (cases obj, cases cls) auto

lemma principal_instanceD:
  "principal_instance obj \<Longrightarrow>
     obj = PrincipalAgent\<lparr>is_initialized := is_initialized obj,
             expert_agents := expert_agents obj, workflow_history := workflow_history obj,
             publication_queue := publication_queue obj, file_streamer := file_streamer obj\<rparr>"
  unfolding principal_instance_def by (rule principal_updates_eqD)

lemma financial_fields:
  assumes "instance_of obj FinancialHealthExpert"
  shows "name obj = ''FinancialHealthExpert''" "expertise obj = ''financial_health''"
    "get_quality_threshold obj = 0.75"
    "get_quality_metrics obj = BaseAgent_get_quality_metrics"
    "assess_accuracy obj = FinancialHealthExpert_assess_accuracy"
    "assess_completeness obj = FinancialHealthExpert_assess_completeness"
    "assess_relevance obj = FinancialHealthExpert_assess_relevance"
    "assess_timeliness obj = default_assess_timeliness"
    "assess_consistency obj = FinancialHealthExpert_assess_consistency"
    "assess_clarity obj = FinancialHealthExpert_assess_clarity"
    "assess_actionability obj = FinancialHealthExpert_assess_actionability"
    "determine_quality_level obj = default_determine_quality_level"
    "generate_summary obj = default_generate_summary default_determine_quality_level"
    "expert_process obj = FinancialHealthExpert_expert_process"
  by (subst instance_ofD [OF assms],
      simp add: FinancialHealthExpert_def FinancialHealthExpert_get_quality_threshold_def)+

lemma utility_fields:
  assumes "instance_of obj UtilityManagementExpert"
  shows "name obj = ''UtilityManagementExpert''" "expertise obj = ''utility_management''"
    "get_quality_threshold obj = 0.7"
    "get_quality_metrics obj = BaseAgent_get_quality_metrics"
    "assess_accuracy obj = UtilityManagementExpert_assess_accuracy"
    "assess_completeness obj = UtilityManagementExpert_assess_completeness"
    "assess_relevance obj = UtilityManagementExpert_assess_relevance"
    "assess_timeliness obj = default_assess_timeliness"
    "assess_consistency obj = UtilityManagementExpert_assess_consistency"
    "assess_clarity obj = UtilityManagementExpert_assess_clarity"
    "assess_actionability obj = UtilityManagementExpert_assess_actionability"
    "determine_quality_level obj = default_determine_quality_level"
    "generate_summary obj = default_generate_summary default_determine_quality_level"
    "expert_process obj = UtilityManagementExpert_expert_process"
  by (subst instance_ofD [OF assms],
      simp add: UtilityManagementExpert_def UtilityManagementExpert_get_quality_threshold_def)+

lemma vehicle_fields:
  assumes "instance_of obj VehicleManagementExpert"
  shows "name obj = ''VehicleManagementExpert''" "expertise obj = ''vehicle_management''"
    "get_quality_threshold obj = 0.65"
    "get_quality_metrics obj = BaseAgent_get_quality_metrics"
    "assess_accuracy obj = VehicleManagementExpert_assess_accuracy"
    "assess_completeness obj = VehicleManagementExpert_assess_completeness"
    "assess_relevance obj = VehicleManagementExpert_assess_relevance"
    "assess_timeliness obj = default_assess_timeliness"
    "assess_consistency obj = VehicleManagementExpert_assess_consistency"
    "assess_clarity obj = VehicleManagementExpert_assess_clarity"
    "assess_actionability obj = VehicleManagementExpert_assess_actionability"
    "determine_quality_level obj = default_determine_quality_level"
    "generate_summary obj = default_generate_summary default_determine_quality_level"
    "expert_process obj = VehicleManagementExpert_expert_process"
  by (subst instance_ofD [OF assms],
      simp add: VehicleManagementExpert_def VehicleManagementExpert_get_quality_threshold_def)+

lemma principal_fields:
  assumes "principal_instance obj"
  shows "name obj = ''PrincipalAgent''"
    "get_quality_threshold obj = 0.7"
    "get_quality_metrics obj = PrincipalAgent_get_quality_metrics"
    "assess_accuracy obj = PrincipalAgent_assess_accuracy"
    "assess_completeness obj = PrincipalAgent_assess_completeness"
    "assess_relevance obj = PrincipalAgent_assess_relevance"
    "assess_timeliness obj = default_assess_timeliness"
    "assess_consistency obj = PrincipalAgent_assess_consistency"
    "assess_clarity obj = PrincipalAgent_assess_clarity"
    "assess_actionability obj = PrincipalAgent_assess_actionability"
    "determine_quality_level obj = PrincipalAgent_determine_quality_level"
    "generate_summary obj = PrincipalAgent_generate_summary"
  by (subst principal_instanceD [OF assms],
      simp add: PrincipalAgent_def PrincipalAgent_get_quality_threshold_def)+

lemma standard_expert_cases:
  assumes "standard_expert obj"
  obtains "instance_of obj FinancialHealthExpert"
  | "instance_of obj UtilityManagementExpert"
  | "instance_of obj VehicleManagementExpert"
  using assms by (auto simp: standard_expert_def expert_classes_def)

lemma standard_expert_yields:
  assumes "standard_expert obj"
  shows "yields d (assess_dimension obj d rt res req)"
  using assms
proof (cases rule: standard_expert_cases)
  case 1
  show ?thesis
    by (rule assess_dimension_yields)
       (simp_all only: financial_fields [OF 1] yields_financial yields_default_timeliness)
next
  case 2
  show ?thesis
    by (rule assess_dimension_yields)
       (simp_all only: utility_fields [OF 2] yields_utility yields_default_timeliness)
next
  case 3
  show ?thesis
    by (rule assess_dimension_yields)
       (simp_all only: vehicle_fields [OF 3] yields_vehicle yields_default_timeliness)
qed

lemma principal_yields:
  assumes "principal_instance obj"
  shows "yields d (assess_dimension obj d rt res req)"
  by (rule assess_dimension_yields)
     (simp_all only: principal_fields [OF assms] yields_principal yields_default_timeliness)

lemma dimensions_BaseAgent: "map dimension BaseAgent_get_quality_metrics = all_dimensions"
  by (simp add: BaseAgent_get_quality_metrics_def all_dimensions_def)

lemma dimensions_PrincipalAgent:
  "map dimension PrincipalAgent_get_quality_metrics
     = [ACCURACY, COMPLETENESS, RELEVANCE, CONSISTENCY, CLARITY, ACTIONABILITY]"
  by (simp add: PrincipalAgent_get_quality_metrics_def)

lemma standard_expert_metrics:
  assumes "standard_expert obj"
  shows "get_quality_metrics obj = BaseAgent_get_quality_metrics"
  using assms
  by (cases rule: standard_expert_cases)
     (simp_all add: financial_fields utility_fields vehicle_fields)

subsection \<open>Shape of the generated analyses\<close>

lemma map_fst_list_append: "map fst (list_append k x d) = map fst d"
  unfolding list_append_def by (induction d) (auto simp: AList.map_entry.simps)

lemma map_of_list_append:
  "map_of (list_append k x d) k' =
     (if k' = k then map_option (\<lambda>v. case v of PList xs \<Rightarrow> PList (xs @ [PStr x]) | other \<Rightarrow> other)
                       (map_of d k)
      else map_of d k')"
  unfolding list_append_def by (induction d) auto

lemma strlist_at_list_append: "strlist_at k' d \<Longrightarrow> strlist_at k' (list_append k x d)"
  by (auto simp: strlist_at_def map_of_list_append split: option.splits pyval.splits)

lemma shaped_list_append: "shaped K L d \<Longrightarrow> shaped K L (list_append k x d)"
  by (simp add: shaped_def map_fst_list_append strlist_at_list_append list_all_iff)

lemma shaped_append_all: "shaped K L d \<Longrightarrow> shaped K L (append_all items d)"
  unfolding append_all_def by (induction items arbitrary: d) (simp_all add: shaped_list_append)

lemma shaped_if: "shaped K L a \<Longrightarrow> shaped K L b \<Longrightarrow> shaped K L (if c then a else b)"
  by simp

lemma shaped_Let_string: "(\<And>v. shaped K L (f v)) \<Longrightarrow> shaped K L (Let (x :: string) f)"
  by simp

lemma shaped_Let_dict:
  "shaped K L x \<Longrightarrow> (\<And>v. shaped K L v \<Longrightarrow> shaped K L (f v)) \<Longrightarrow> shaped K L (Let x f)"
  by simp

lemmas shaped_steps = shaped_Let_dict shaped_if shaped_append_all

lemma shaped_financial:
  "shaped financial_keys
     [''key_issues'', ''budget_optimization'', ''investment_recommendations'',
      ''debt_management'', ''expected_outcomes'', ''priority_actions'']
     (generate_financial_analysis v_description v_metadata)"
  unfolding generate_financial_analysis_def
  apply (rule shaped_Let_string)
  apply (rule shaped_Let_dict)
   apply (simp add: shaped_def strlist_at_def financial_keys_def)
  apply (intro shaped_steps | assumption)+
  done

lemma shaped_utility:
  "shaped utility_keys
     [''key_issues'', ''optimization_opportunities'', ''cost_savings_recommendations'',
      ''implementation_steps'', ''expected_benefits'', ''technology_recommendations'']
     (generate_utility_analysis v_description v_metadata)"
  unfolding generate_utility_analysis_def
  apply (rule shaped_Let_string)
  apply (rule shaped_Let_dict)
   apply (simp add: shaped_def strlist_at_def utility_keys_def)
  apply (intro shaped_steps | assumption)+
  done

lemma shaped_vehicle:
  "shaped vehicle_keys
     [''key_issues'', ''maintenance_recommendations'', ''cost_optimization'',
      ''safety_improvements'', ''expected_benefits'', ''priority_actions'']
     (generate_vehicle_analysis v_description v_metadata)"
  unfolding generate_vehicle_analysis_def
  apply (rule shaped_Let_string)
  apply (rule shaped_Let_dict)
   apply (simp add: shaped_def strlist_at_def vehicle_keys_def)
  apply (intro shaped_steps | assumption)+
  done

subsection \<open>Dictionary updates\<close>

lemma map_of_dict_set: "map_of (dict_set k v d) k' = (if k' = k then Some v else map_of d k')"
  by (simp add: dict_set_def update_conv')

lemma map_fst_dict_set:
  "map fst (dict_set k v d) = (if k \<in> set (map fst d) then map fst d else map fst d @ [k])"
  by (simp add: dict_set_def update_keys)

lemma strlist_at_dict_set: "k' \<noteq> k \<Longrightarrow> strlist_at k' (dict_set k v d) = strlist_at k' d"
  by (simp add: strlist_at_def map_of_dict_set)

lemma strlist_atD:
  assumes "strlist_at k d"
  obtains xs where "dict_get d k dflt = PList xs" "list_all (\<lambda>x. \<exists>s. x = PStr s) xs"
  using assms by (auto simp: strlist_at_def dict_get_def split: option.splits pyval.splits)

lemma py_any_mentions_savings:
  "list_all (\<lambda>x. \<exists>s. x = PStr s) xs \<Longrightarrow> \<exists>b. py_any mentions_savings xs = Inr b"
  by (induction xs) auto

subsection \<open>Assessments that return\<close>

lemma returns_Inr: "returns d (Inr (mk_metric d s w de i r))"
  by (simp add: returns_def)

lemma returns_if: "returns d a \<Longrightarrow> returns d b \<Longrightarrow> returns d (if c then a else b)"
  by simp

lemma returns_Let: "(\<And>v. returns d (f v)) \<Longrightarrow> returns d (Let x f)"
  by simp

lemma returns_prod: "(\<And>a b. returns d (f a b)) \<Longrightarrow> returns d (case p of (a, b) \<Rightarrow> f a b)"
  by (cases p) simp

lemma returns_len:
  assumes "strlist_at k res" and "\<And>n. returns d (F n)"
  shows "returns d (bind_exn (py_len (dict_get res k dflt)) F)"
proof -
  from assms(1) obtain xs where "dict_get res k dflt = PList xs" by (rule strlist_atD)
  then show ?thesis using assms(2) by simp
qed

lemma returns_iter_any:
  assumes "strlist_at k res" and "\<And>b. returns d (F b)"
  shows "returns d (bind_exn (py_iter (dict_get res k dflt))
                      (\<lambda>items. bind_exn (py_any mentions_savings items) F))"
proof -
  from assms(1) obtain xs where xs: "dict_get res k dflt = PList xs"
    and "list_all (\<lambda>x. \<exists>s. x = PStr s) xs" by (rule strlist_atD)
  then obtain b where "py_any mentions_savings xs = Inr b"
    using py_any_mentions_savings by blast
  then show ?thesis using xs assms(2) by simp
qed

lemma returns_number:
  assumes "map_of res k = Some (PNum t)" and "\<And>x. returns d (F x)"
  shows "returns d (bind_exn (as_number (dict_get res k dflt)) F)"
  using assms by (simp add: dict_get_def)

lemmas returns_intros = returns_Inr returns_if returns_Let returns_prod

lemma returns_yields: "returns d x \<Longrightarrow> yields d x"
  by (cases x) (simp_all add: returns_def yields_def)

lemma returnsD: "returns d x \<Longrightarrow> \<exists>m. x = Inr m \<and> dimension m = d"
  by (cases x) (simp_all add: returns_def)

lemma returns_default_timeliness:
  assumes "map_of res ''processing_time'' = Some (PNum t)"
  shows "returns TIMELINESS (default_assess_timeliness rt res req)"
  unfolding default_assess_timeliness_def
  by (rule returns_number [OF assms]) (intro returns_intros)

lemma returns_financial:
  assumes "strlist_at ''budget_optimization'' res" "strlist_at ''investment_recommendations'' res"
    "strlist_at ''debt_management'' res" "strlist_at ''expected_outcomes'' res"
    "strlist_at ''priority_actions'' res"
  shows "returns ACCURACY (FinancialHealthExpert_assess_accuracy rt res req)"
    "returns COMPLETENESS (FinancialHealthExpert_assess_completeness rt res req)"
    "returns RELEVANCE (FinancialHealthExpert_assess_relevance rt res req)"
    "returns CONSISTENCY (FinancialHealthExpert_assess_consistency rt res req)"
    "returns CLARITY (FinancialHealthExpert_assess_clarity rt res req)"
    "returns ACTIONABILITY (FinancialHealthExpert_assess_actionability rt res req)"
  unfolding FinancialHealthExpert_assess_accuracy_def FinancialHealthExpert_assess_completeness_def
    FinancialHealthExpert_assess_relevance_def FinancialHealthExpert_assess_consistency_def
    FinancialHealthExpert_assess_clarity_def FinancialHealthExpert_assess_actionability_def Let_def
  by (intro returns_intros returns_len assms returns_iter_any)+

lemma returns_utility:
  assumes "strlist_at ''cost_savings_recommendations'' res"
    "strlist_at ''technology_recommendations'' res"
    "strlist_at ''implementation_steps'' res" "strlist_at ''expected_benefits'' res"
  shows "returns ACCURACY (UtilityManagementExpert_assess_accuracy rt res req)"
    "returns COMPLETENESS (UtilityManagementExpert_assess_completeness rt res req)"
    "returns RELEVANCE (UtilityManagementExpert_assess_relevance rt res req)"
    "returns CONSISTENCY (UtilityManagementExpert_assess_consistency rt res req)"
    "returns CLARITY (UtilityManagementExpert_assess_clarity rt res req)"
    "returns ACTIONABILITY (UtilityManagementExpert_assess_actionability rt res req)"
  unfolding UtilityManagementExpert_assess_accuracy_def UtilityManagementExpert_assess_completeness_def
    UtilityManagementExpert_assess_relevance_def UtilityManagementExpert_assess_consistency_def
    UtilityManagementExpert_assess_clarity_def UtilityManagementExpert_assess_actionability_def Let_def
  by (intro returns_intros returns_len assms returns_iter_any)+

lemma returns_vehicle:
  assumes "strlist_at ''maintenance_recommendations'' res" "strlist_at ''cost_optimization'' res"
    "strlist_at ''safety_improvements'' res" "strlist_at ''expected_benefits'' res"
    "strlist_at ''priority_actions'' res"
  shows "returns ACCURACY (VehicleManagementExpert_assess_accuracy rt res req)"
    "returns COMPLETENESS (VehicleManagementExpert_assess_completeness rt res req)"
    "returns RELEVANCE (VehicleManagementExpert_assess_relevance rt res req)"
    "returns CONSISTENCY (VehicleManagementExpert_assess_consistency rt res req)"
    "returns CLARITY (VehicleManagementExpert_assess_clarity rt res req)"
    "returns ACTIONABILITY (VehicleManagementExpert_assess_actionability rt res req)"
  unfolding VehicleManagementExpert_assess_accuracy_def VehicleManagementExpert_assess_completeness_def
    VehicleManagementExpert_assess_relevance_def VehicleManagementExpert_assess_consistency_def
    VehicleManagementExpert_assess_clarity_def VehicleManagementExpert_assess_actionability_def Let_def
  by (intro returns_intros returns_len assms returns_iter_any)+

subsection \<open>Evaluations that return\<close>

lemma assess_dimension_returns:
  assumes "returns ACCURACY (assess_accuracy a rt res req)"
    and "returns COMPLETENESS (assess_completeness a rt res req)"
    and "returns RELEVANCE (assess_relevance a rt res req)"
    and "returns TIMELINESS (assess_timeliness a rt res req)"
    and "returns CONSISTENCY (assess_consistency a rt res req)"
    and "returns CLARITY (assess_clarity a rt res req)"
    and "returns ACTIONABILITY (assess_actionability a rt res req)"
  shows "returns d (assess_dimension a d rt res req)"
  using assms by (cases d) simp_all

lemma assess_metrics_returns:
  assumes "\<And>d. d \<in> dimension ` set cfg \<Longrightarrow> returns d (assess_dimension a d rt res req)"
  shows "\<exists>ms. assess_metrics a rt res req cfg = Inr ms"
  using assms
proof (induction cfg)
  case Nil
  then show ?case by simp
next
  case (Cons c cfg)
  have "returns (dimension c) (assess_dimension a (dimension c) rt res req)"
    by (rule Cons.prems) simp
  then obtain m where m: "assess_dimension a (dimension c) rt res req = Inr m"
    using returnsD by blast
  have "\<exists>ms. assess_metrics a rt res req cfg = Inr ms"
    by (rule Cons.IH) (simp add: Cons.prems)
  then obtain ms where "assess_metrics a rt res req cfg = Inr ms" ..
  with m show ?case by simp
qed

lemma default_determine_quality_level_Inl: "\<exists>q. default_determine_quality_level x = Inl q"
  by (simp add: default_determine_quality_level_def)

lemma default_generate_summary_returns:
  "\<exists>s. default_generate_summary default_determine_quality_level rt ms x = Inr s"
proof -
  obtain q where "default_determine_quality_level x = Inl q"
    using default_determine_quality_level_Inl by blast
  then show ?thesis by (simp add: default_generate_summary_def Let_def)
qed

lemma evaluate_quality_returns:
  assumes "\<And>d. d \<in> dimension ` set (get_quality_metrics a)
              \<Longrightarrow> returns d (assess_dimension a d rt res req)"
    and "\<And>ms x. \<exists>s. generate_summary a rt ms x = Inr s"
  shows "\<exists>r. evaluate_quality rt a res req = Inr r
           \<and> quality_level r = determine_quality_level a (overall_score r)"
proof -
  obtain ms where ms: "assess_metrics a rt res req (get_quality_metrics a) = Inr ms"
    using assess_metrics_returns [OF assms(1)] by blast
  obtain s where "generate_summary a rt ms (calculate_overall_score ms) = Inr s"
    using assms(2) by blast
  with ms show ?thesis by (simp add: evaluate_quality_def Let_def)
qed

subsection \<open>The three experts return on what they generate\<close>

lemma shapedD: "shaped K L d \<Longrightarrow> k \<in> set L \<Longrightarrow> strlist_at k d"
  by (simp add: shaped_def list_all_iff)

lemma shaped_keys: "shaped K L d \<Longrightarrow> map fst d = K"
  by (simp add: shaped_def)

lemma strlist_at_result:
  assumes "strlist_at k analysis"
    and "k \<noteq> ''processing_time''" "k \<noteq> ''expert_agent''" "k \<noteq> ''expertise''"
  shows "strlist_at k (dict_set ''expertise'' v3 (dict_set ''expert_agent'' v2
           (dict_set ''processing_time'' v1 analysis)))"
  using assms by (simp add: strlist_at_dict_set)

lemma processing_time_result:
  "map_of (dict_set ''expertise'' v3 (dict_set ''expert_agent'' v2
     (dict_set ''processing_time'' (PNum t) analysis))) ''processing_time'' = Some (PNum t)"
  by (simp add: map_of_dict_set)

lemma financial_evaluates:
  assumes obj: "instance_of obj FinancialHealthExpert"
  shows "\<exists>r q. evaluate_quality rt obj
           (dict_set ''expertise'' v3 (dict_set ''expert_agent'' v2
              (dict_set ''processing_time'' (PNum t)
                 (generate_financial_analysis v_description v_metadata)))) req = Inr r
           \<and> quality_level r = Inl q"
proof -
  let ?res = "dict_set ''expertise'' v3 (dict_set ''expert_agent'' v2
                (dict_set ''processing_time'' (PNum t)
                   (generate_financial_analysis v_description v_metadata)))"
  note sh = shaped_financial [of v_description v_metadata]
  have l: "strlist_at ''budget_optimization'' ?res"
      "strlist_at ''investment_recommendations'' ?res"
      "strlist_at ''debt_management'' ?res"
      "strlist_at ''expected_outcomes'' ?res"
      "strlist_at ''priority_actions'' ?res"
    by (intro strlist_at_result shapedD [OF sh]; simp)+
  have pt: "map_of ?res ''processing_time'' = Some (PNum t)"
    by (rule processing_time_result)
  have "\<exists>r. evaluate_quality rt obj ?res req = Inr r
         \<and> quality_level r = determine_quality_level obj (overall_score r)"
  proof (rule evaluate_quality_returns)
    fix d
    show "returns d (assess_dimension obj d rt ?res req)"
      by (rule assess_dimension_returns)
         (simp_all only: financial_fields [OF obj] returns_default_timeliness [OF pt]
            returns_financial [OF l])
  next
    fix ms x
    show "\<exists>s. generate_summary obj rt ms x = Inr s"
      by (simp only: financial_fields [OF obj] default_generate_summary_returns)
  qed
  then show ?thesis
    using default_determine_quality_level_Inl by (auto simp: financial_fields [OF obj])
qed

lemma utility_evaluates:
  assumes obj: "instance_of obj UtilityManagementExpert"
  shows "\<exists>r q. evaluate_quality rt obj
           (dict_set ''expertise'' v3 (dict_set ''expert_agent'' v2
              (dict_set ''processing_time'' (PNum t)
                 (generate_utility_analysis v_description v_metadata)))) req = Inr r
           \<and> quality_level r = Inl q"
proof -
  let ?res = "dict_set ''expertise'' v3 (dict_set ''expert_agent'' v2
                (dict_set ''processing_time'' (PNum t)
                   (generate_utility_analysis v_description v_metadata)))"
  note sh = shaped_utility [of v_description v_metadata]
  have l: "strlist_at ''cost_savings_recommendations'' ?res"
      "strlist_at ''technology_recommendations'' ?res"
      "strlist_at ''implementation_steps'' ?res"
      "strlist_at ''expected_benefits'' ?res"
    by (intro strlist_at_result shapedD [OF sh]; simp)+
  have pt: "map_of ?res ''processing_time'' = Some (PNum t)"
    by (rule processing_time_result)
  have "\<exists>r. evaluate_quality rt obj ?res req = Inr r
         \<and> quality_level r = determine_quality_level obj (overall_score r)"
  proof (rule evaluate_quality_returns)
    fix d
    show "returns d (assess_dimension obj d rt ?res req)"
      by (rule assess_dimension_returns)
         (simp_all only: utility_fields [OF obj] returns_default_timeliness [OF pt]
            returns_utility [OF l])
  next
    fix ms x
    show "\<exists>s. generate_summary obj rt ms x = Inr s"
      by (simp only: utility_fields [OF obj] default_generate_summary_returns)
  qed
  then show ?thesis
    using default_determine_quality_level_Inl by (auto simp: utility_fields [OF obj])
qed

lemma vehicle_evaluates:
  assumes obj: "instance_of obj VehicleManagementExpert"
  shows "\<exists>r q. evaluate_quality rt obj
           (dict_set ''expertise'' v3 (dict_set ''expert_agent'' v2
              (dict_set ''processing_time'' (PNum t)
                 (generate_vehicle_analysis v_description v_metadata)))) req = Inr r
           \<and> quality_level r = Inl q"
proof -
  let ?res = "dict_set ''expertise'' v3 (dict_set ''expert_agent'' v2
                (dict_set ''processing_time'' (PNum t)
                   (generate_vehicle_analysis v_description v_metadata)))"
  note sh = shaped_vehicle [of v_description v_metadata]
  have l: "strlist_at ''maintenance_recommendations'' ?res"
      "strlist_at ''cost_optimization'' ?res"
      "strlist_at ''safety_improvements'' ?res"
      "strlist_at ''expected_benefits'' ?res"
      "strlist_at ''priority_actions'' ?res"
    by (intro strlist_at_result shapedD [OF sh]; simp)+
  have pt: "map_of ?res ''processing_time'' = Some (PNum t)"
    by (rule processing_time_result)
  have "\<exists>r. evaluate_quality rt obj ?res req = Inr r
         \<and> quality_level r = determine_quality_level obj (overall_score r)"
  proof (rule evaluate_quality_returns)
    fix d
    show "returns d (assess_dimension obj d rt ?res req)"
      by (rule assess_dimension_returns)
         (simp_all only: vehicle_fields [OF obj] returns_default_timeliness [OF pt]
            returns_vehicle [OF l])
  next
    fix ms x
    show "\<exists>s. generate_summary obj rt ms x = Inr s"
      by (simp only: vehicle_fields [OF obj] default_generate_summary_returns)
  qed
  then show ?thesis
    using default_determine_quality_level_Inl by (auto simp: vehicle_fields [OF obj])
qed

subsection \<open>Processing by an expert\<close>

lemma process_refuses:
  assumes "\<not> can_handle_request obj req"
  shows "\<exists>msg. snd (BaseExpertAgent_process rt obj req) = Inl (ValueError msg)"
  using assms by (simp add: BaseExpertAgent_process_def Let_def count_failure_def)

lemma process_accepts:
  assumes "can_handle_request obj req"
    and "expert_process obj req = Inr analysis"
    and "evaluate_quality rt obj
           (dict_set ''expertise'' (PStr (expertise obj))
              (dict_set ''expert_agent'' (PStr (name obj))
                 (dict_set ''processing_time'' (PNum (elapsed rt (name obj))) analysis))) req
         = Inr r"
    and "quality_level r = Inl q"
  shows "snd (BaseExpertAgent_process rt obj req) =
           Inr (dict_set ''quality_report'' (serialize_quality_report r)
                  (dict_set ''expertise'' (PStr (expertise obj))
                     (dict_set ''expert_agent'' (PStr (name obj))
                        (dict_set ''processing_time'' (PNum (elapsed rt (name obj))) analysis))))"
  using assms by (simp add: BaseExpertAgent_process_def Let_def)

lemma result_keys:
  assumes "map fst analysis = K"
    and "''processing_time'' \<notin> set K" "''expert_agent'' \<notin> set K" "''expertise'' \<notin> set K"
    "''quality_report'' \<notin> set K"
  shows "map fst (dict_set ''quality_report'' v4 (dict_set ''expertise'' v3
           (dict_set ''expert_agent'' v2 (dict_set ''processing_time'' v1 analysis))))
         = K @ [''processing_time'', ''expert_agent'', ''expertise'', ''quality_report'']"
  using assms by (simp add: map_fst_dict_set)

lemma financial_process:
  assumes obj: "instance_of obj FinancialHealthExpert" and "can_handle_request obj req"
  shows "\<exists>r. snd (BaseExpertAgent_process rt obj req) = Inr r
           \<and> map fst r = financial_keys
                @ [''processing_time'', ''expert_agent'', ''expertise'', ''quality_report'']"
proof -
  let ?a = "generate_financial_analysis (get_or [] (rq_description req)) (rq_metadata req)"
  have a: "expert_process obj req = Inr ?a"
    by (simp add: financial_fields [OF obj] FinancialHealthExpert_expert_process_def)
  obtain r q where "evaluate_quality rt obj
           (dict_set ''expertise'' (PStr (expertise obj))
              (dict_set ''expert_agent'' (PStr (name obj))
                 (dict_set ''processing_time'' (PNum (elapsed rt (name obj))) ?a))) req = Inr r"
    and "quality_level r = Inl q"
    using financial_evaluates [OF obj] by blast
  from process_accepts [OF assms(2) a this]
  show ?thesis
    by (simp add: result_keys [OF shaped_keys [OF shaped_financial]] financial_keys_def)
qed

lemma utility_process:
  assumes obj: "instance_of obj UtilityManagementExpert" and "can_handle_request obj req"
  shows "\<exists>r. snd (BaseExpertAgent_process rt obj req) = Inr r
           \<and> map fst r = utility_keys
                @ [''processing_time'', ''expert_agent'', ''expertise'', ''quality_report'']"
proof -
  let ?a = "generate_utility_analysis (get_or [] (rq_description req)) (rq_metadata req)"
  have a: "expert_process obj req = Inr ?a"
    by (simp add: utility_fields [OF obj] UtilityManagementExpert_expert_process_def)
  obtain r q where "evaluate_quality rt obj
           (dict_set ''expertise'' (PStr (expertise obj))
              (dict_set ''expert_agent'' (PStr (name obj))
                 (dict_set ''processing_time'' (PNum (elapsed rt (name obj))) ?a))) req = Inr r"
    and "quality_level r = Inl q"
    using utility_evaluates [OF obj] by blast
  from process_accepts [OF assms(2) a this]
  show ?thesis
    by (simp add: result_keys [OF shaped_keys [OF shaped_utility]] utility_keys_def)
qed

lemma vehicle_process:
  assumes obj: "instance_of obj VehicleManagementExpert" and "can_handle_request obj req"
  shows "\<exists>r. snd (BaseExpertAgent_process rt obj req) = Inr r
           \<and> map fst r = vehicle_keys
                @ [''processing_time'', ''expert_agent'', ''expertise'', ''quality_report'']"
proof -
  let ?a = "generate_vehicle_analysis (get_or [] (rq_description req)) (rq_metadata req)"
  have a: "expert_process obj req = Inr ?a"
    by (simp add: vehicle_fields [OF obj] VehicleManagementExpert_expert_process_def)
  obtain r q where "evaluate_quality rt obj
           (dict_set ''expertise'' (PStr (expertise obj))
              (dict_set ''expert_agent'' (PStr (name obj))
                 (dict_set ''processing_time'' (PNum (elapsed rt (name obj))) ?a))) req = Inr r"
    and "quality_level r = Inl q"
    using vehicle_evaluates [OF obj] by blast
  from process_accepts [OF assms(2) a this]
  show ?thesis
    by (simp add: result_keys [OF shaped_keys [OF shaped_vehicle]] vehicle_keys_def)
qed

lemma standard_expert_accepts:
  assumes "standard_expert obj" and "can_handle_request obj req"
  shows "\<exists>r. snd (BaseExpertAgent_process rt obj req) = Inr r"
  using assms(1)
  by (cases rule: standard_expert_cases)
     (use financial_process utility_process vehicle_process assms(2) in blast)+

lemma lower_token:
  "replace_space (lower ''financial_health'') = ''financial_health''"
  "replace_space (lower ''utility_management'') = ''utility_management''"
  "replace_space (lower ''vehicle_management'') = ''vehicle_management''"
  by (simp_all add: replace_space_def lower_def lower_char_def)

lemma can_handle_request_iff:
  "can_handle_request obj req \<longleftrightarrow>
     (\<exists>k \<in> set [''comprehensive_analysis'', ''multi_domain'', ''all'', ''general'', ''overview''].
        str_in k (lower (get_or [] (rq_request_type req))))
     \<or> str_in (replace_space (lower (expertise obj))) (lower (get_or [] (rq_request_type req)))"
  unfolding can_handle_request_def Let_def any_in_def list_ex_iff by auto

subsection \<open>Claims on the evaluation\<close>

text \<open>
  C1. For every report that an evaluation returns, \<open>passed_threshold\<close> holds exactly when the
  overall score is at least the threshold of the evaluating agent, and
  \<open>approved_for_publication\<close> exactly when \<open>passed_threshold\<close> holds and the overall score is
  at least 0.7; so approval implies both. The thresholds are 0.75 for the financial expert,
  0.7 for the utility expert, 0.65 for the vehicle expert, 0.6 by default and 0.7 for the
  principal agent, in whatever state the object is.
\<close>

theorem quality_verdict:
  assumes "evaluate_quality rt a res req = Inr r"
  shows "passed_threshold r = (overall_score r \<ge> get_quality_threshold a)
       \<and> approved_for_publication r = (passed_threshold r \<and> overall_score r \<ge> 0.7)
       \<and> (approved_for_publication r \<longrightarrow> passed_threshold r \<and> overall_score r \<ge> 0.7)
       \<and> (\<forall>obj. instance_of obj FinancialHealthExpert \<longrightarrow> get_quality_threshold obj = 0.75)
       \<and> (\<forall>obj. instance_of obj UtilityManagementExpert \<longrightarrow> get_quality_threshold obj = 0.7)
       \<and> (\<forall>obj. instance_of obj VehicleManagementExpert \<longrightarrow> get_quality_threshold obj = 0.65)
       \<and> (\<forall>n. get_quality_threshold (BaseAgent n) = 0.6)
       \<and> (\<forall>obj. principal_instance obj \<longrightarrow> get_quality_threshold obj = 0.7)"
proof -
  from assms have
    "passed_threshold r = (overall_score r \<ge> get_quality_threshold a)
     \<and> approved_for_publication r = (passed_threshold r \<and> overall_score r \<ge> 0.7)"
    by (auto simp: evaluate_quality_def bind_exn_Inr_iff Let_def)
  moreover have "\<forall>n. get_quality_threshold (BaseAgent n) = 0.6"
    by (simp add: BaseAgent_def BaseAgent_get_quality_threshold_def)
  ultimately show ?thesis
    by (simp add: financial_fields utility_fields vehicle_fields principal_fields)
qed

theorem quality_verdict_witness:
  "\<exists>r. evaluate_quality sample_runtime FinancialHealthExpert
          (dict_set ''expertise'' (PStr ''financial_health'')
             (dict_set ''expert_agent'' (PStr ''FinancialHealthExpert'')
                (dict_set ''processing_time'' (PNum 2)
                   (generate_financial_analysis ''budget and debt'' None))))
          (sample_request ''financial_health'' ''budget and debt'') = Inr r
       \<and> passed_threshold r = (overall_score r \<ge> 0.75)
       \<and> approved_for_publication r = (passed_threshold r \<and> overall_score r \<ge> 0.7)"
proof -
  have i: "instance_of FinancialHealthExpert FinancialHealthExpert"
    by (simp add: instance_of_def)
  obtain r where r: "evaluate_quality sample_runtime FinancialHealthExpert
          (dict_set ''expertise'' (PStr ''financial_health'')
             (dict_set ''expert_agent'' (PStr ''FinancialHealthExpert'')
                (dict_set ''processing_time'' (PNum 2)
                   (generate_financial_analysis ''budget and debt'' None))))
          (sample_request ''financial_health'' ''budget and debt'') = Inr r"
    using financial_evaluates [OF i] by blast
  from quality_verdict [OF r] i r show ?thesis by auto
qed

text \<open>
  C9. The timeliness rule, which the three experts and the principal agent share, maps a
  recorded processing time \<open>d\<close> to the score 1 when \<open>d \<le> 5\<close>, 0.8 when \<open>5 < d \<le> 15\<close>, 0.6 when
  \<open>15 < d \<le> 30\<close>, 0.4 when \<open>30 < d \<le> 60\<close> and 0.2 when \<open>d > 60\<close>, and the metric has an issue
  exactly when \<open>d > 15\<close>.
\<close>

theorem timeliness_rule:
  assumes "map_of res ''processing_time'' = Some (PNum d)"
  shows "\<exists>m. default_assess_timeliness rt res req = Inr m
           \<and> dimension m = TIMELINESS
           \<and> (d \<le> 5 \<longrightarrow> score m = 1)
           \<and> (5 < d \<and> d \<le> 15 \<longrightarrow> score m = 0.8)
           \<and> (15 < d \<and> d \<le> 30 \<longrightarrow> score m = 0.6)
           \<and> (30 < d \<and> d \<le> 60 \<longrightarrow> score m = 0.4)
           \<and> (60 < d \<longrightarrow> score m = 0.2)
           \<and> (issues m \<noteq> [] \<longleftrightarrow> 15 < d)
           \<and> assess_timeliness FinancialHealthExpert = default_assess_timeliness
           \<and> assess_timeliness UtilityManagementExpert = default_assess_timeliness
           \<and> assess_timeliness VehicleManagementExpert = default_assess_timeliness
           \<and> assess_timeliness PrincipalAgent = default_assess_timeliness"
proof -
  have "assess_timeliness FinancialHealthExpert = default_assess_timeliness"
    "assess_timeliness UtilityManagementExpert = default_assess_timeliness"
    "assess_timeliness VehicleManagementExpert = default_assess_timeliness"
    "assess_timeliness PrincipalAgent = default_assess_timeliness"
    by (simp_all add: FinancialHealthExpert_def UtilityManagementExpert_def
        VehicleManagementExpert_def PrincipalAgent_def)
  then show ?thesis
    using assms
    by (simp add: default_assess_timeliness_def dict_get_def mk_metric_def Let_def)
qed

theorem timeliness_rule_witness:
  "map_of [(''processing_time'', PNum 45)] ''processing_time'' = Some (PNum 45)
   \<and> (\<exists>m. default_assess_timeliness sample_runtime [(''processing_time'', PNum 45)]
             (sample_request ''general'' ''help'') = Inr m
          \<and> score m = 0.4
          \<and> issues m = [''Response time ('' @ format_2f sample_runtime 45
                           @ ''s) exceeds optimal threshold''])"
proof -
  have h: "map_of [(''processing_time'', PNum 45)] ''processing_time'' = Some (PNum 45)"
    by simp
  from timeliness_rule [OF h, of sample_runtime "sample_request ''general'' ''help''"]
  obtain m where "default_assess_timeliness sample_runtime [(''processing_time'', PNum 45)]
             (sample_request ''general'' ''help'') = Inr m" and "score m = 0.4"
    by auto
  then show ?thesis
    using h by (auto simp: default_assess_timeliness_def dict_get_def mk_metric_def Let_def)
qed

subsection \<open>Claims on the experts' guard and on the dimensions\<close>

lemma expert_classes_cases:
  assumes "(cls, token) \<in> set expert_classes"
  obtains "cls = FinancialHealthExpert" "token = ''financial_health''"
  | "cls = UtilityManagementExpert" "token = ''utility_management''"
  | "cls = VehicleManagementExpert" "token = ''vehicle_management''"
  using assms by (auto simp: expert_classes_def)

lemma expert_class_token:
  assumes "(cls, token) \<in> set expert_classes" and "instance_of obj cls"
  shows "replace_space (lower (expertise obj)) = token" and "standard_expert obj"
proof -
  show "replace_space (lower (expertise obj)) = token"
    using assms
    by (cases rule: expert_classes_cases)
       (simp_all only: financial_fields utility_fields vehicle_fields lower_token)
  show "standard_expert obj"
    unfolding standard_expert_def list_ex_iff using assms by force
qed

text \<open>
  C5. The \<^verbatim>\<open>process\<close> of each of the three experts, in any state, raises exactly when the
  lower-cased request type contains neither the expert's token (\<open>financial_health\<close>,
  \<open>utility_management\<close>, \<open>vehicle_management\<close>) nor one of the override tokens, and what it
  raises then is the ValueError of the guard.
\<close>

theorem expert_guard:
  assumes "(cls, token) \<in> set expert_classes" and "instance_of obj cls"
  shows "(isl (snd (BaseExpertAgent_process rt obj req)) \<longleftrightarrow>
            \<not> str_in token (lower (get_or [] (rq_request_type req)))
            \<and> (\<forall>k \<in> set [''comprehensive_analysis'', ''multi_domain'', ''all'', ''general'',
                           ''overview''].
                  \<not> str_in k (lower (get_or [] (rq_request_type req)))))
       \<and> (isl (snd (BaseExpertAgent_process rt obj req)) \<longrightarrow>
            (\<exists>msg. snd (BaseExpertAgent_process rt obj req) = Inl (ValueError msg)))"
proof (cases "can_handle_request obj req")
  case True
  then obtain r where "snd (BaseExpertAgent_process rt obj req) = Inr r"
    using standard_expert_accepts expert_class_token(2) [OF assms] by blast
  then show ?thesis
    using True unfolding can_handle_request_iff expert_class_token(1) [OF assms] by auto
next
  case False
  then obtain msg where "snd (BaseExpertAgent_process rt obj req) = Inl (ValueError msg)"
    using process_refuses by blast
  then show ?thesis
    using False unfolding can_handle_request_iff expert_class_token(1) [OF assms] by auto
qed

lemma instance_of_refl: "instance_of cls cls"
  by (simp add: instance_of_def)

lemma lower_samples:
  "lower ''comprehensive_analysis'' = ''comprehensive_analysis''"
  "lower ''budget'' = ''budget''"
  "lower ''general'' = ''general''"
  by (simp_all add: lower_def lower_char_def)

theorem expert_guard_witness:
  "(FinancialHealthExpert, ''financial_health'') \<in> set expert_classes
   \<and> (UtilityManagementExpert, ''utility_management'') \<in> set expert_classes
   \<and> (VehicleManagementExpert, ''vehicle_management'') \<in> set expert_classes
   \<and> instance_of FinancialHealthExpert FinancialHealthExpert
   \<and> \<not> isl (snd (BaseExpertAgent_process sample_runtime FinancialHealthExpert
                  (sample_request ''comprehensive_analysis'' ''help'')))
   \<and> \<not> isl (snd (BaseExpertAgent_process sample_runtime UtilityManagementExpert
                  (sample_request ''comprehensive_analysis'' ''help'')))
   \<and> \<not> isl (snd (BaseExpertAgent_process sample_runtime VehicleManagementExpert
                  (sample_request ''comprehensive_analysis'' ''help'')))
   \<and> isl (snd (BaseExpertAgent_process sample_runtime FinancialHealthExpert
                (sample_request ''budget'' ''help'')))"
proof -
  have c: "(FinancialHealthExpert, ''financial_health'') \<in> set expert_classes"
    "(UtilityManagementExpert, ''utility_management'') \<in> set expert_classes"
    "(VehicleManagementExpert, ''vehicle_management'') \<in> set expert_classes"
    by (simp_all add: expert_classes_def)
  have t: "rq_request_type (sample_request t d) = Some t" for t d
    by (simp add: sample_request_def)
  show ?thesis
    using c instance_of_refl
      expert_guard [OF c(1) instance_of_refl, of sample_runtime
        "sample_request ''comprehensive_analysis'' ''help''"]
      expert_guard [OF c(2) instance_of_refl, of sample_runtime
        "sample_request ''comprehensive_analysis'' ''help''"]
      expert_guard [OF c(3) instance_of_refl, of sample_runtime
        "sample_request ''comprehensive_analysis'' ''help''"]
      expert_guard [OF c(1) instance_of_refl, of sample_runtime
        "sample_request ''budget'' ''help''"]
    by (simp add: t get_or_def lower_samples)
qed

text \<open>
  C3, as the code has it. A report that an evaluation by one of the three experts returns
  has exactly one metric for each of the seven dimensions, in the order of the enumeration.
  A report of the principal agent has exactly one metric for each of six dimensions:
  its configuration leaves timeliness out.
\<close>

theorem report_dimensions:
  "(standard_expert obj \<longrightarrow>
      (\<forall>r. evaluate_quality rt obj res req = Inr r \<longrightarrow>
           map dimension (metrics r) = all_dimensions \<and> distinct all_dimensions
           \<and> set all_dimensions = UNIV))
   \<and> (principal_instance pa \<longrightarrow>
      (\<forall>r. evaluate_quality rt pa res req = Inr r \<longrightarrow>
           map dimension (metrics r)
             = [ACCURACY, COMPLETENESS, RELEVANCE, CONSISTENCY, CLARITY, ACTIONABILITY]))"
proof -
  have u: "set all_dimensions = UNIV"
  proof -
    have "d \<in> set all_dimensions" for d
      by (cases d) (simp_all add: all_dimensions_def)
    then show ?thesis by blast
  qed
  have d: "distinct all_dimensions"
    by (simp add: all_dimensions_def)
  have e: "map dimension (metrics r) = all_dimensions"
    if "standard_expert obj" "evaluate_quality rt obj res req = Inr r" for r
    using evaluate_quality_dimensions [OF standard_expert_yields [OF that(1)] that(2)]
    by (simp add: standard_expert_metrics [OF that(1)] dimensions_BaseAgent)
  have p: "map dimension (metrics r)
             = [ACCURACY, COMPLETENESS, RELEVANCE, CONSISTENCY, CLARITY, ACTIONABILITY]"
    if "principal_instance pa" "evaluate_quality rt pa res req = Inr r" for r
    using evaluate_quality_dimensions [OF principal_yields [OF that(1)] that(2)]
    by (simp add: principal_fields [OF that(1)] dimensions_PrincipalAgent)
  from u d e p show ?thesis by blast
qed

subsection \<open>The principal agent's evaluation of a synthesis\<close>

text \<open>
  \<^verbatim>\<open>process\<close> passes the synthesis itself to \<^verbatim>\<open>evaluate_quality\<close>, and the rules of the
  principal agent look in it for the keys \<open>expert_results\<close> and \<open>synthesis\<close>, which a
  synthesis does not have. Every rule then takes its defaults, and the overall score is
  0.58 whatever the experts returned.
\<close>

lemma principal_rules_without_keys:
  assumes "map_of s ''expert_results'' = None" and "map_of s ''synthesis'' = None"
  shows "PrincipalAgent_assess_accuracy rt s req
           = Inr (mk_metric ACCURACY 0.5 0.25 ''Synthesis accuracy assessment'' [] [])"
    and "PrincipalAgent_assess_completeness rt s req
           = Inr (mk_metric COMPLETENESS 0.3 0.25 ''Synthesis completeness assessment'' [] [])"
    and "PrincipalAgent_assess_relevance rt s req
           = Inr (mk_metric RELEVANCE 0.85 0.2 ''Synthesis relevance assessment'' [] [])"
    and "PrincipalAgent_assess_consistency rt s req
           = Inr (mk_metric CONSISTENCY 0.8 0.15 ''Cross-expert consistency assessment'' [] [])"
    and "PrincipalAgent_assess_clarity rt s req
           = Inr (mk_metric CLARITY 0.65 0.1 ''Synthesis clarity assessment'' [] [])"
    and "PrincipalAgent_assess_actionability rt s req
           = Inr (mk_metric ACTIONABILITY 0.5 0.05 ''Synthesis actionability assessment'' [] [])"
  using assms
  by (simp_all add: PrincipalAgent_assess_accuracy_def PrincipalAgent_assess_completeness_def
      PrincipalAgent_assess_relevance_def PrincipalAgent_assess_consistency_def
      PrincipalAgent_assess_clarity_def PrincipalAgent_assess_actionability_def
      dict_get_def has_key_def Let_def)

lemma principal_overall_score:
  "calculate_overall_score
     [mk_metric ACCURACY 0.5 0.25 d1 [] [], mk_metric COMPLETENESS 0.3 0.25 d2 [] [],
      mk_metric RELEVANCE 0.85 0.2 d3 [] [], mk_metric CONSISTENCY 0.8 0.15 d4 [] [],
      mk_metric CLARITY 0.65 0.1 d5 [] [], mk_metric ACTIONABILITY 0.5 0.05 d6 [] []] = 0.58"
  by (simp add: calculate_overall_score_def mk_metric_def)

lemma evaluate_quality_exists:
  assumes "assess_metrics a rt res req (get_quality_metrics a) = Inr ms"
    and "generate_summary a rt ms (calculate_overall_score ms) = Inr t"
  shows "\<exists>r. evaluate_quality rt a res req = Inr r \<and> metrics r = ms
           \<and> overall_score r = calculate_overall_score ms
           \<and> passed_threshold r = (calculate_overall_score ms \<ge> get_quality_threshold a)
           \<and> approved_for_publication r
               = (calculate_overall_score ms \<ge> get_quality_threshold a
                  \<and> calculate_overall_score ms \<ge> 0.7)"
  unfolding evaluate_quality_def using assms by (simp add: Let_def)

lemma principal_evaluation:
  assumes pa: "principal_instance pa"
    and s: "map_of s ''expert_results'' = None" "map_of s ''synthesis'' = None"
  shows "\<exists>r. evaluate_quality rt pa s req = Inr r \<and> overall_score r = 0.58
           \<and> \<not> passed_threshold r \<and> \<not> approved_for_publication r"
proof -
  let ?ms = "[mk_metric ACCURACY 0.5 0.25 ''Synthesis accuracy assessment'' [] [],
          mk_metric COMPLETENESS 0.3 0.25 ''Synthesis completeness assessment'' [] [],
          mk_metric RELEVANCE 0.85 0.2 ''Synthesis relevance assessment'' [] [],
          mk_metric CONSISTENCY 0.8 0.15 ''Cross-expert consistency assessment'' [] [],
          mk_metric CLARITY 0.65 0.1 ''Synthesis clarity assessment'' [] [],
          mk_metric ACTIONABILITY 0.5 0.05 ''Synthesis actionability assessment'' [] []]"
  have m: "assess_metrics pa rt s req (get_quality_metrics pa) = Inr ?ms"
    by (simp add: principal_fields [OF pa] PrincipalAgent_get_quality_metrics_def
        principal_rules_without_keys [OF s])
  have c: "calculate_overall_score ?ms = 0.58"
    by (rule principal_overall_score)
  have "\<exists>t. generate_summary pa rt ?ms (calculate_overall_score ?ms) = Inr t"
    unfolding c by (simp add: principal_fields [OF pa] PrincipalAgent_generate_summary_def)
  then obtain t where "generate_summary pa rt ?ms (calculate_overall_score ?ms) = Inr t" ..
  from evaluate_quality_exists [OF m this] show ?thesis
    unfolding c by (auto simp: principal_fields(2) [OF pa])
qed

lemma synthesize_results_keys:
  "map_of (synthesize_results req er) ''expert_results'' = None"
  "map_of (synthesize_results req er) ''synthesis'' = None"
  by (auto simp: synthesize_results_def bind_exn_def split: sum.splits prod.splits)

subsection \<open>Routing\<close>

lemma any_in_iff: "any_in ks s \<longleftrightarrow> (\<exists>k \<in> set ks. str_in k s)"
  by (simp add: any_in_def list_ex_iff)

text \<open>
  C7. When the lower-cased request type contains none of the financial, utility and vehicle
  keywords, the selection is the whole registry; from an empty registry the selection is
  empty whatever the request.
\<close>

theorem routing_fallback:
  assumes "\<forall>k \<in> set ([''financial'', ''budget'', ''cost'', ''expense'', ''revenue'', ''profit'']
                     @ [''utility'', ''energy'', ''water'', ''electricity'', ''consumption'',
                        ''efficiency'', ''sustainability'']
                     @ [''vehicle'', ''fleet'', ''maintenance'', ''transport'', ''logistics'',
                        ''fuel'']).
             \<not> str_in k (lower (get_or [] (rq_request_type req)))"
  shows "determine_required_experts self req = expert_agents self
       \<and> (expert_agents self = [] \<longrightarrow> determine_required_experts self req' = [])"
proof -
  have "\<not> any_in [''financial'', ''budget'', ''cost'', ''expense'', ''revenue'', ''profit'']
            (lower (get_or [] (rq_request_type req)))"
    "\<not> any_in [''utility'', ''energy'', ''water'', ''electricity'', ''consumption'',
               ''efficiency'', ''sustainability''] (lower (get_or [] (rq_request_type req)))"
    "\<not> any_in [''vehicle'', ''fleet'', ''maintenance'', ''transport'', ''logistics'', ''fuel'']
            (lower (get_or [] (rq_request_type req)))"
    using assms unfolding any_in_iff by auto
  then show ?thesis
    by (simp add: determine_required_experts_def Let_def)
qed

theorem routing_fallback_witness:
  "map fst (determine_required_experts sample_principal (sample_request ''general'' ''help''))
     = [''financial'', ''utility'', ''vehicle'']
   \<and> determine_required_experts PrincipalAgent (sample_request ''general'' ''help'') = []"
proof -
  have t: "lower (get_or [] (rq_request_type (sample_request ''general'' ''help''))) = ''general''"
    by (simp add: sample_request_def get_or_def lower_samples)
  have h: "\<forall>k \<in> set ([''financial'', ''budget'', ''cost'', ''expense'', ''revenue'', ''profit'']
                     @ [''utility'', ''energy'', ''water'', ''electricity'', ''consumption'',
                        ''efficiency'', ''sustainability'']
                     @ [''vehicle'', ''fleet'', ''maintenance'', ''transport'', ''logistics'',
                        ''fuel'']).
             \<not> str_in k (lower (get_or [] (rq_request_type (sample_request ''general'' ''help''))))"
    unfolding t by simp
  from routing_fallback [OF h, of sample_principal]
       routing_fallback [OF h, of PrincipalAgent]
  show ?thesis
    by (simp add: sample_principal_def PrincipalAgent_def)
qed

lemma determine_required_experts_distinct:
  assumes "distinct (map fst (expert_agents self))"
  shows "distinct (map fst (determine_required_experts self req))"
  using assms
  by (simp add: determine_required_experts_def Let_def dict_set_def distinct_update
      split: option.splits)

subsection \<open>Delegation\<close>

lemma delegate_results:
  "snd (delegate rt req xs (reg, acc)) =
     foldl (\<lambda>acc na. dict_set (fst na)
              (recorded_result (fst na) (snd (BaseExpertAgent_process rt (snd na) req))) acc)
       acc xs"
proof (induction xs arbitrary: reg acc)
  case Nil
  then show ?case by simp
next
  case (Cons x xs)
  obtain n a where x: "x = (n, a)" by (cases x)
  obtain a' out where p: "BaseExpertAgent_process rt a req = (a', out)"
    by (cases "BaseExpertAgent_process rt a req")
  show ?case
    by (cases out) (simp_all add: x p Cons.IH recorded_result_def)
qed

lemma dict_set_fresh: "k \<notin> set (map fst d) \<Longrightarrow> dict_set k v d = d @ [(k, v)]"
  unfolding dict_set_def by (induction d) auto

lemma foldl_dict_set_fresh:
  assumes "distinct (map fst xs)" and "set (map fst xs) \<inter> set (map fst acc) = {}"
  shows "foldl (\<lambda>acc na. dict_set (fst na) (f na) acc) acc xs
           = acc @ map (\<lambda>na. (fst na, f na)) xs"
  using assms
proof (induction xs arbitrary: acc)
  case Nil
  then show ?case by simp
next
  case (Cons x xs)
  have f: "dict_set (fst x) (f x) acc = acc @ [(fst x, f x)]"
    by (rule dict_set_fresh) (use Cons.prems in auto)
  have "foldl (\<lambda>acc na. dict_set (fst na) (f na) acc) (acc @ [(fst x, f x)]) xs
          = (acc @ [(fst x, f x)]) @ map (\<lambda>na. (fst na, f na)) xs"
    by (rule Cons.IH) (use Cons.prems in auto)
  then show ?case by (simp add: f)
qed

lemma delegate_distinct:
  assumes "distinct (map fst xs)"
  shows "snd (delegate rt req xs (reg, [])) =
           map (\<lambda>na. (fst na,
                  recorded_result (fst na) (snd (BaseExpertAgent_process rt (snd na) req)))) xs"
  unfolding delegate_results by (simp add: foldl_dict_set_fresh [OF assms])

subsection \<open>The whole request\<close>

lemma principal_instance_registry [simp]:
  "principal_instance (pa\<lparr>expert_agents := reg\<rparr>) = principal_instance pa"
  by (simp add: principal_instance_def)

lemma principal_process_uninitialized:
  assumes "\<not> is_initialized pa"
  shows "snd (PrincipalAgent_process rt pa req)
           = Inl (RuntimeError ''Principal agent is not initialized'')"
  using assms by (simp add: PrincipalAgent_process_def)

lemma principal_process_returns:
  assumes pa: "principal_instance pa" and init: "is_initialized pa"
  shows "\<exists>r. snd (PrincipalAgent_process rt pa req) =
     Inr [(''request_id'', PStr (get_or ''unknown'' (rq_request_id req))),
          (''request_type'', PStr (get_or ''unknown'' (rq_request_type req))),
          (''status'', PStr ''completed''),
          (''processing_time'', PNum (elapsed rt (name pa))),
          (''principal_agent'', PStr (name pa)),
          (''expert_results'',
             PDict (snd (delegate rt req (determine_required_experts pa req)
                           (expert_agents pa, [])))),
          (''synthesis'',
             PDict (synthesize_results req
                      (snd (delegate rt req (determine_required_experts pa req)
                              (expert_agents pa, []))))),
          (''quality_report'', serialize_quality_report r),
          (''approved_for_publication'', PBool False),
          (''timestamp'', PNum (time_time rt))]"
proof -
  let ?d = "delegate rt req (determine_required_experts pa req) (expert_agents pa, [])"
  have "principal_instance (pa\<lparr>expert_agents := fst ?d\<rparr>)"
    using pa by simp
  from principal_evaluation [OF this synthesize_results_keys]
  obtain r where r: "evaluate_quality rt (pa\<lparr>expert_agents := fst ?d\<rparr>)
                       (synthesize_results req (snd ?d)) req = Inr r"
    and a: "\<not> approved_for_publication r"
    by blast
  show ?thesis
    unfolding PrincipalAgent_process_def
    by (rule exI [of _ r]) (simp add: init Let_def case_prod_beta r a)
qed

subsection \<open>The whole request, for the principal agent as constructed\<close>

lemma principal_instance_streamer [simp]:
  "principal_instance (pa\<lparr>file_streamer := fs\<rparr>) = principal_instance pa"
  by (simp add: principal_instance_def)

text \<open>
  The principal agent as constructed never publishes: the evaluation of a synthesis gives
  0.58, so whatever file streamer it holds, \<^verbatim>\<open>process\<close> of an initialised such agent
  returns a response that is not approved, and it raises only when it is not initialised.
\<close>

lemma constructed_principal_never_publishes:
  assumes "principal_instance pa"
  shows "(is_initialized pa \<longrightarrow>
            (\<exists>resp. snd (PrincipalAgent_process rt (pa\<lparr>file_streamer := fs\<rparr>) req) = Inr resp
               \<and> map fst resp = response_keys
               \<and> map_of resp ''status'' = Some (PStr ''completed'')
               \<and> map_of resp ''approved_for_publication'' = Some (PBool False)))
       \<and> (\<forall>e. snd (PrincipalAgent_process rt (pa\<lparr>file_streamer := fs\<rparr>) req) = Inl e \<longrightarrow>
               \<not> is_initialized pa \<and> e = RuntimeError ''Principal agent is not initialized'')"
proof (cases "is_initialized pa")
  case True
  have "principal_instance (pa\<lparr>file_streamer := fs\<rparr>)" "is_initialized (pa\<lparr>file_streamer := fs\<rparr>)"
    using assms True by simp_all
  from principal_process_returns [OF this, of rt req]
  obtain r resp where "snd (PrincipalAgent_process rt (pa\<lparr>file_streamer := fs\<rparr>) req) = Inr resp"
    and "map fst resp = response_keys"
    and "map_of resp ''status'' = Some (PStr ''completed'')"
    and "map_of resp ''approved_for_publication'' = Some (PBool False)"
    by (auto simp: response_keys_def)
  then show ?thesis using True by simp
next
  case False
  then have "\<not> is_initialized (pa\<lparr>file_streamer := fs\<rparr>)" by simp
  from principal_process_uninitialized [OF this] show ?thesis using False by simp
qed

lemma sample_principal_instance: "principal_instance sample_principal"
  by (simp add: principal_instance_def sample_principal_def PrincipalAgent_def)

lemma sample_principal_initialized: "is_initialized sample_principal"
  by (simp add: sample_principal_def)

lemma map_of_mapped:
  assumes "distinct (map fst xs)" and "(n, a) \<in> set xs"
  shows "map_of (map (\<lambda>na. (fst na, f na)) xs) n = Some (f (n, a))"
proof -
  have "distinct (map fst (map (\<lambda>na. (fst na, f na)) xs))"
    using assms(1) by (simp add: comp_def)
  moreover have "(n, f (n, a)) \<in> set (map (\<lambda>na. (fst na, f na)) xs)"
    using assms(2) by force
  ultimately show ?thesis by (rule map_of_is_SomeI)
qed

text \<open>
  C6. With an initialised principal agent whose registry has each name once, \<^verbatim>\<open>process\<close>
  returns a completed response whose \<open>expert_results\<close> has one slot for every selected
  expert, in order; the slot of an expert whose \<^verbatim>\<open>process\<close> raises \<open>e\<close>, whatever exception
  it is, holds the message of \<open>e\<close>, the expert's name and the status \<open>failed\<close>; and the
  synthesis of the response is the one made from these slots.
\<close>

theorem expert_failures_recorded:
  assumes "principal_instance pa" and "is_initialized pa"
    and "distinct (map fst (expert_agents pa))"
  shows "\<exists>resp er. snd (PrincipalAgent_process rt pa req) = Inr resp
           \<and> map_of resp ''status'' = Some (PStr ''completed'')
           \<and> map_of resp ''expert_results'' = Some (PDict er)
           \<and> map_of resp ''synthesis'' = Some (PDict (synthesize_results req er))
           \<and> map fst er = map fst (determine_required_experts pa req)
           \<and> (\<forall>n a e. (n, a) \<in> set (determine_required_experts pa req)
                  \<longrightarrow> snd (BaseExpertAgent_process rt a req) = Inl e
                  \<longrightarrow> map_of er n = Some (PDict [(''error'', PStr (str_exn e)),
                                                  (''expert_agent'', PStr n),
                                                  (''status'', PStr ''failed'')]))
           \<and> (\<forall>n a r. (n, a) \<in> set (determine_required_experts pa req)
                  \<longrightarrow> snd (BaseExpertAgent_process rt a req) = Inr r
                  \<longrightarrow> map_of er n = Some (PDict r))"
proof -
  let ?xs = "determine_required_experts pa req"
  let ?f = "\<lambda>na. recorded_result (fst na) (snd (BaseExpertAgent_process rt (snd na) req))"
  let ?er = "map (\<lambda>na. (fst na, ?f na)) ?xs"
  have d: "distinct (map fst ?xs)"
    using assms(3) by (rule determine_required_experts_distinct)
  have er: "snd (delegate rt req ?xs (expert_agents pa, [])) = ?er"
    using d by (rule delegate_distinct)
  from principal_process_returns [OF assms(1,2), of rt req]
  obtain resp where resp: "snd (PrincipalAgent_process rt pa req) = Inr resp"
    and "map_of resp ''status'' = Some (PStr ''completed'')"
    and "map_of resp ''expert_results'' = Some (PDict ?er)"
    and "map_of resp ''synthesis'' = Some (PDict (synthesize_results req ?er))"
    unfolding er by auto
  moreover have "map fst ?er = map fst ?xs"
    by (simp add: comp_def)
  moreover have "map_of ?er n = Some (PDict [(''error'', PStr (str_exn e)),
                    (''expert_agent'', PStr n), (''status'', PStr ''failed'')])"
    if "(n, a) \<in> set ?xs" "snd (BaseExpertAgent_process rt a req) = Inl e" for n a e
    using map_of_mapped [OF d that(1), of ?f] that(2) by (simp add: recorded_result_def)
  moreover have "map_of ?er n = Some (PDict r)"
    if "(n, a) \<in> set ?xs" "snd (BaseExpertAgent_process rt a req) = Inr r" for n a r
    using map_of_mapped [OF d that(1), of ?f] that(2) by (simp add: recorded_result_def)
  ultimately show ?thesis by blast
qed

lemma sample_principal_distinct: "distinct (map fst (expert_agents sample_principal))"
  by (simp add: sample_principal_def)

lemma sample_budget_selection:
  "determine_required_experts sample_principal (sample_request ''budget'' ''help'')
     = [(''financial'', FinancialHealthExpert\<lparr>is_initialized := True\<rparr>)]"
  by (simp add: determine_required_experts_def sample_principal_def sample_request_def
      get_or_def lower_samples any_in_def dict_set_def Let_def)

lemma sample_budget_refused:
  "snd (BaseExpertAgent_process sample_runtime (FinancialHealthExpert\<lparr>is_initialized := True\<rparr>)
          (sample_request ''budget'' ''help''))
     = Inl (ValueError ''Request type budget not suitable for financial_health expert'')"
  by (simp add: BaseExpertAgent_process_def can_handle_request_def count_failure_def
      FinancialHealthExpert_def sample_request_def get_or_def lower_samples lower_token
      any_in_def Let_def)

lemma singleton_dict:
  assumes "map fst er = [k]" and "map_of er k = Some v"
  shows "er = [(k, v)]"
  using assms by (cases er) auto

theorem expert_failures_recorded_witness:
  "principal_instance sample_principal \<and> is_initialized sample_principal
   \<and> distinct (map fst (expert_agents sample_principal))
   \<and> (\<exists>resp. snd (PrincipalAgent_process sample_runtime sample_principal
                    (sample_request ''budget'' ''help'')) = Inr resp
          \<and> map_of resp ''status'' = Some (PStr ''completed'')
          \<and> map_of resp ''expert_results''
               = Some (PDict [(''financial'',
                   PDict [(''error'',
                             PStr ''Request type budget not suitable for financial_health expert''),
                          (''expert_agent'', PStr ''financial''),
                          (''status'', PStr ''failed'')])]))"
proof -
  from expert_failures_recorded [OF sample_principal_instance sample_principal_initialized
         sample_principal_distinct, of sample_runtime "sample_request ''budget'' ''help''"]
  obtain resp er where
    r: "snd (PrincipalAgent_process sample_runtime sample_principal
               (sample_request ''budget'' ''help'')) = Inr resp"
       "map_of resp ''status'' = Some (PStr ''completed'')"
       "map_of resp ''expert_results'' = Some (PDict er)"
    and k: "map fst er = [''financial'']"
    and e: "map_of er ''financial''
              = Some (PDict [(''error'', PStr (str_exn (ValueError
                         ''Request type budget not suitable for financial_health expert''))),
                       (''expert_agent'', PStr ''financial''), (''status'', PStr ''failed'')])"
    unfolding sample_budget_selection using sample_budget_refused by auto
  from singleton_dict [OF k e] r
  show ?thesis
    using sample_principal_instance sample_principal_initialized sample_principal_distinct
    by simp
qed

text \<open>
  C3 as stated fails for the principal agent: the report on a synthesis has no timeliness
  metric.
\<close>

theorem report_dimensions_counterexample:
  "\<not> isl (evaluate_quality sample_runtime sample_principal
            (synthesize_results (sample_request ''general'' ''help'') [])
            (sample_request ''general'' ''help''))
   \<and> TIMELINESS \<notin> dimension ` set (metrics (projr
        (evaluate_quality sample_runtime sample_principal
           (synthesize_results (sample_request ''general'' ''help'') [])
           (sample_request ''general'' ''help''))))"
proof -
  obtain r where r: "evaluate_quality sample_runtime sample_principal
            (synthesize_results (sample_request ''general'' ''help'') [])
            (sample_request ''general'' ''help'') = Inr r"
    using principal_evaluation [OF sample_principal_instance synthesize_results_keys] by blast
  have "map dimension (metrics r)
          = [ACCURACY, COMPLETENESS, RELEVANCE, CONSISTENCY, CLARITY, ACTIONABILITY]"
    using evaluate_quality_dimensions [OF principal_yields [OF sample_principal_instance] r]
    by (simp add: principal_fields [OF sample_principal_instance] dimensions_PrincipalAgent)
  then have "dimension ` set (metrics r)
          = set [ACCURACY, COMPLETENESS, RELEVANCE, CONSISTENCY, CLARITY, ACTIONABILITY]"
    by (metis set_map)
  then show ?thesis by (simp add: r)
qed

theorem report_dimensions_witness:
  "standard_expert FinancialHealthExpert \<and> principal_instance sample_principal
   \<and> (\<exists>r. evaluate_quality sample_runtime FinancialHealthExpert
            (dict_set ''expertise'' (PStr ''financial_health'')
               (dict_set ''expert_agent'' (PStr ''FinancialHealthExpert'')
                  (dict_set ''processing_time'' (PNum 2)
                     (generate_financial_analysis ''budget and debt'' None))))
            (sample_request ''financial_health'' ''budget and debt'') = Inr r
          \<and> map dimension (metrics r) = all_dimensions)
   \<and> (\<exists>r. evaluate_quality sample_runtime sample_principal
            (synthesize_results (sample_request ''general'' ''help'') [])
            (sample_request ''general'' ''help'') = Inr r
          \<and> map dimension (metrics r)
               = [ACCURACY, COMPLETENESS, RELEVANCE, CONSISTENCY, CLARITY, ACTIONABILITY])"
proof -
  have s: "standard_expert FinancialHealthExpert"
    by (simp add: standard_expert_def expert_classes_def instance_of_refl)
  obtain r1 where r1: "evaluate_quality sample_runtime FinancialHealthExpert
            (dict_set ''expertise'' (PStr ''financial_health'')
               (dict_set ''expert_agent'' (PStr ''FinancialHealthExpert'')
                  (dict_set ''processing_time'' (PNum 2)
                     (generate_financial_analysis ''budget and debt'' None))))
            (sample_request ''financial_health'' ''budget and debt'') = Inr r1"
    using financial_evaluates [OF instance_of_refl] by blast
  obtain r2 where r2: "evaluate_quality sample_runtime sample_principal
            (synthesize_results (sample_request ''general'' ''help'') [])
            (sample_request ''general'' ''help'') = Inr r2"
    using principal_evaluation [OF sample_principal_instance synthesize_results_keys] by blast
  from report_dimensions [of FinancialHealthExpert sample_runtime _ _ sample_principal]
    s sample_principal_instance r1 r2
  show ?thesis by blast
qed

subsection \<open>Claims on the synthesis\<close>

lemma py_filter_dicts:
  assumes "\<forall>v \<in> set vs. \<exists>r. v = PDict r"
  shows "\<exists>ys. py_filter (py_contains k) vs = Inr ys"
    and "\<exists>ys. py_filter (\<lambda>r. bind_exn (py_contains k r) (\<lambda>b. Inr (\<not> b))) vs = Inr ys"
  using assms by (induction vs) auto

lemma synthesize_results_of_loop:
  assumes "synthesize_loop er ([], [], []) = Inr (ins, recs, mets)"
    and "\<forall>v \<in> set (map snd er). \<exists>r. v = PDict r"
  shows "map_of (synthesize_results req er) ''insights'' = Some (PDict ins)"
    and "map_of (synthesize_results req er) ''recommendations'' = Some (PList recs)"
    and "map_of (synthesize_results req er) ''metrics'' = Some (PDict mets)"
proof -
  obtain ys zs where
    "py_filter (\<lambda>r. bind_exn (py_contains ''error'' r) (\<lambda>b. Inr (\<not> b))) (map snd er) = Inr ys"
    "py_filter (py_contains ''error'') (map snd er) = Inr zs"
    using py_filter_dicts [OF assms(2)] by blast
  then show "map_of (synthesize_results req er) ''insights'' = Some (PDict ins)"
    and "map_of (synthesize_results req er) ''recommendations'' = Some (PList recs)"
    and "map_of (synthesize_results req er) ''metrics'' = Some (PDict mets)"
    by (simp_all add: synthesize_results_def assms(1))
qed

lemma list_recommendations_Cons:
  "list_recommendations ((n, v) # er) \<longleftrightarrow>
     (\<exists>r. v = PDict r \<and> (has_key ''error'' r \<or> map_of r ''recommendations'' = None
            \<or> (\<exists>xs. map_of r ''recommendations'' = Some (PList xs))))
     \<and> list_recommendations er"
  by (auto simp: list_recommendations_def split: pyval.splits option.splits)

lemma list_recommendations_dicts:
  "list_recommendations er \<Longrightarrow> \<forall>v \<in> set (map snd er). \<exists>r. v = PDict r"
proof (induction er)
  case Nil
  then show ?case by simp
next
  case (Cons x er)
  obtain n v where x: "x = (n, v)" by (cases x)
  from Cons show ?case unfolding x list_recommendations_Cons by auto
qed

lemma py_getitem_has_key: "has_key k r \<Longrightarrow> \<exists>v. py_getitem (PDict r) k = Inr v"
  by (auto simp: has_key_def)

lemma synthesize_loop_recommendations:
  assumes "list_recommendations er"
  shows "\<exists>ins mets. synthesize_loop er (i0, r0, m0)
           = Inr (ins, r0 @ error_free_recommendations er, mets)"
  using assms
proof (induction er arbitrary: i0 r0 m0)
  case Nil
  then show ?case by (simp add: error_free_recommendations_def)
next
  case (Cons x er)
  obtain n v where x: "x = (n, v)" by (cases x)
  from Cons.prems obtain r where v: "v = PDict r"
    and r: "has_key ''error'' r \<or> map_of r ''recommendations'' = None
            \<or> (\<exists>xs. map_of r ''recommendations'' = Some (PList xs))"
    and er: "list_recommendations er"
    unfolding x list_recommendations_Cons by blast
  have tail: "error_free_recommendations ((n, PDict r) # er)
      = (if has_key ''error'' r then []
         else (case map_of r ''recommendations'' of Some (PList xs) \<Rightarrow> xs | _ \<Rightarrow> []))
        @ error_free_recommendations er"
    by (simp add: error_free_recommendations_def)
  show ?case
  proof (cases "has_key ''error'' r")
    case True
    then show ?thesis
      using Cons.IH [OF er, of i0 r0 m0] by (simp add: x v tail)
  next
    case False
    obtain i1 where i1: "(if has_key ''insights'' r
        then bind_exn (py_getitem (PDict r) ''insights'') (\<lambda>v. Inr (dict_set n v i0))
        else Inr i0) = Inr i1"
      using py_getitem_has_key [of "''insights''" r] by (cases "has_key ''insights'' r") auto
    obtain m1 where m1: "(if has_key ''metrics'' r
        then bind_exn (py_getitem (PDict r) ''metrics'') (\<lambda>v. Inr (dict_set n v m0))
        else Inr m0) = Inr m1"
      using py_getitem_has_key [of "''metrics''" r] by (cases "has_key ''metrics'' r") auto
    have r1: "(if has_key ''recommendations'' r
        then bind_exn (py_getitem (PDict r) ''recommendations'') (py_extend r0)
        else Inr r0)
        = Inr (r0 @ (case map_of r ''recommendations'' of Some (PList xs) \<Rightarrow> xs | _ \<Rightarrow> []))"
      using r False by (auto simp: has_key_def py_extend_def)
    from Cons.IH [OF er, of i1 "r0 @ (case map_of r ''recommendations'' of
                                        Some (PList xs) \<Rightarrow> xs | _ \<Rightarrow> [])" m1]
    show ?thesis
      using False by (simp add: x v tail i1 m1 r1)
  qed
qed

text \<open>
  C8. When every expert result is a dictionary and the \<open>recommendations\<close> of the error-free
  ones are lists, the recommendations of the synthesis are these lists concatenated in
  iteration order, nothing removed.
\<close>

theorem recommendations_concatenated:
  assumes "list_recommendations er"
  shows "map_of (synthesize_results req er) ''recommendations''
           = Some (PList (error_free_recommendations er))"
proof -
  obtain ins mets where
    "synthesize_loop er ([], [], []) = Inr (ins, [] @ error_free_recommendations er, mets)"
    using synthesize_loop_recommendations [OF assms] by blast
  then have "synthesize_loop er ([], [], []) = Inr (ins, error_free_recommendations er, mets)"
    by simp
  from synthesize_results_of_loop(2) [OF this list_recommendations_dicts [OF assms]]
  show ?thesis .
qed

theorem recommendations_concatenated_witness:
  "list_recommendations
     [(''utility'', PDict [(''recommendations'',
                             PList [PStr ''Switch to energy-efficient appliances''])]),
      (''financial'', PDict [(''error'', PStr ''failed''),
                             (''recommendations'', PList [PStr ''Track all expenses'']) ]),
      (''vehicle'', PDict [(''recommendations'',
                             PList [PStr ''Switch to energy-efficient appliances''])])]
   \<and> map_of (synthesize_results (sample_request ''general'' ''help'')
        [(''utility'', PDict [(''recommendations'',
                                PList [PStr ''Switch to energy-efficient appliances''])]),
         (''financial'', PDict [(''error'', PStr ''failed''),
                                (''recommendations'', PList [PStr ''Track all expenses''])]),
         (''vehicle'', PDict [(''recommendations'',
                                PList [PStr ''Switch to energy-efficient appliances''])])])
        ''recommendations''
      = Some (PList [PStr ''Switch to energy-efficient appliances'',
                     PStr ''Switch to energy-efficient appliances''])"
proof -
  let ?er = "[(''utility'', PDict [(''recommendations'',
                             PList [PStr ''Switch to energy-efficient appliances''])]),
      (''financial'', PDict [(''error'', PStr ''failed''),
                             (''recommendations'', PList [PStr ''Track all expenses''])]),
      (''vehicle'', PDict [(''recommendations'',
                             PList [PStr ''Switch to energy-efficient appliances''])])]"
  have h: "list_recommendations ?er"
    by (simp add: list_recommendations_def has_key_def)
  have "error_free_recommendations ?er
          = [PStr ''Switch to energy-efficient appliances'',
             PStr ''Switch to energy-efficient appliances'']"
    by (simp add: error_free_recommendations_def has_key_def)
  with recommendations_concatenated [OF h, of "sample_request ''general'' ''help''"] h
  show ?thesis by simp
qed

subsection \<open>What the experts hand to the synthesis\<close>

lemma has_key_iff: "has_key k d \<longleftrightarrow> k \<in> set (map fst d)"
  by (simp add: has_key_def map_of_eq_None_iff)

lemma standard_expert_result_keys:
  assumes "standard_expert obj" and "snd (BaseExpertAgent_process rt obj req) = Inr r"
  shows "map fst r \<in> {financial_keys @ [''processing_time'', ''expert_agent'', ''expertise'',
                                          ''quality_report''],
                        utility_keys @ [''processing_time'', ''expert_agent'', ''expertise'',
                                        ''quality_report''],
                        vehicle_keys @ [''processing_time'', ''expert_agent'', ''expertise'',
                                        ''quality_report'']}"
proof -
  have c: "can_handle_request obj req"
  proof (rule ccontr)
    assume "\<not> can_handle_request obj req"
    from process_refuses [OF this, of rt] assms(2) show False by auto
  qed
  from assms(1) show ?thesis
  proof (cases rule: standard_expert_cases)
    case 1
    from financial_process [OF 1 c, of rt] assms(2) show ?thesis by auto
  next
    case 2
    from utility_process [OF 2 c, of rt] assms(2) show ?thesis by auto
  next
    case 3
    from vehicle_process [OF 3 c, of rt] assms(2) show ?thesis by auto
  qed
qed

lemma no_mergeable_keys:
  assumes "K \<in> {financial_keys, utility_keys, vehicle_keys}"
  shows "''error'' \<notin> set (K @ [''processing_time'', ''expert_agent'', ''expertise'',
                                 ''quality_report''])"
    and "''insights'' \<notin> set (K @ [''processing_time'', ''expert_agent'', ''expertise'',
                                    ''quality_report''])"
    and "''recommendations'' \<notin> set (K @ [''processing_time'', ''expert_agent'', ''expertise'',
                                           ''quality_report''])"
    and "''metrics'' \<notin> set (K @ [''processing_time'', ''expert_agent'', ''expertise'',
                                   ''quality_report''])"
  using assms by (auto simp: financial_keys_def utility_keys_def vehicle_keys_def)

lemma recorded_result_plain:
  assumes "standard_expert obj"
  shows "\<exists>r. recorded_result n (snd (BaseExpertAgent_process rt obj req)) = PDict r
           \<and> (has_key ''error'' r
                \<or> (\<not> has_key ''insights'' r \<and> \<not> has_key ''recommendations'' r
                    \<and> \<not> has_key ''metrics'' r))"
proof (cases "snd (BaseExpertAgent_process rt obj req)")
  case (Inl e)
  then show ?thesis by (simp add: recorded_result_def has_key_def)
next
  case (Inr r)
  from standard_expert_result_keys [OF assms Inr]
  obtain K where K: "K \<in> {financial_keys, utility_keys, vehicle_keys}"
    and r: "map fst r = K @ [''processing_time'', ''expert_agent'', ''expertise'',
                             ''quality_report'']"
    by blast
  have "\<not> has_key ''insights'' r \<and> \<not> has_key ''recommendations'' r \<and> \<not> has_key ''metrics'' r"
    unfolding has_key_iff r using no_mergeable_keys [OF K] by blast
  then show ?thesis by (simp add: recorded_result_def Inr)
qed

lemma synthesize_loop_plain:
  assumes "\<forall>v \<in> set (map snd er). \<exists>r. v = PDict r
             \<and> (has_key ''error'' r
                  \<or> (\<not> has_key ''insights'' r \<and> \<not> has_key ''recommendations'' r
                      \<and> \<not> has_key ''metrics'' r))"
  shows "synthesize_loop er acc = Inr acc"
  using assms
proof (induction er)
  case Nil
  then show ?case by simp
next
  case (Cons x er)
  obtain n v where x: "x = (n, v)" by (cases x)
  obtain i0 r0 m0 where acc: "acc = (i0, r0, m0)" by (cases acc)
  from Cons.prems obtain r where v: "v = PDict r"
    and r: "has_key ''error'' r \<or> (\<not> has_key ''insights'' r \<and> \<not> has_key ''recommendations'' r
                      \<and> \<not> has_key ''metrics'' r)"
    unfolding x by auto
  have "synthesize_loop er acc = Inr acc"
    by (rule Cons.IH) (use Cons.prems in simp)
  then show ?case
    using r by (cases "has_key ''error'' r") (simp_all add: x v acc)
qed

text \<open>
  C10. The analysis of each of the three generators has none of the keys
  \<open>recommendations\<close>, \<open>insights\<close> and \<open>metrics\<close>, whatever the description and the metadata.
  So when every slot of the expert results was filled from a run of one of the three
  experts, the synthesis has an empty list of recommendations and empty maps of insights and
  of metrics.
\<close>

theorem experts_feed_no_synthesis_fields:
  "(\<forall>k \<in> set [''recommendations'', ''insights'', ''metrics''].
      \<not> has_key k (generate_financial_analysis v_description v_metadata)
      \<and> \<not> has_key k (generate_utility_analysis v_description v_metadata)
      \<and> \<not> has_key k (generate_vehicle_analysis v_description v_metadata))
   \<and> (produced_by_experts rt req er \<longrightarrow>
        map_of (synthesize_results req' er) ''recommendations'' = Some (PList [])
        \<and> map_of (synthesize_results req' er) ''insights'' = Some (PDict [])
        \<and> map_of (synthesize_results req' er) ''metrics'' = Some (PDict []))"
proof -
  have k: "\<not> has_key k (generate_financial_analysis v_description v_metadata)
      \<and> \<not> has_key k (generate_utility_analysis v_description v_metadata)
      \<and> \<not> has_key k (generate_vehicle_analysis v_description v_metadata)"
    if "k \<in> set [''recommendations'', ''insights'', ''metrics'']" for k
    using that unfolding has_key_iff
      shaped_keys [OF shaped_financial] shaped_keys [OF shaped_utility]
      shaped_keys [OF shaped_vehicle]
    by (auto simp: financial_keys_def utility_keys_def vehicle_keys_def)
  have s: "map_of (synthesize_results req' er) ''recommendations'' = Some (PList [])
        \<and> map_of (synthesize_results req' er) ''insights'' = Some (PDict [])
        \<and> map_of (synthesize_results req' er) ''metrics'' = Some (PDict [])"
    if p: "produced_by_experts rt req er"
  proof -
    have plain: "\<forall>v \<in> set (map snd er). \<exists>r. v = PDict r
             \<and> (has_key ''error'' r
                  \<or> (\<not> has_key ''insights'' r \<and> \<not> has_key ''recommendations'' r
                      \<and> \<not> has_key ''metrics'' r))"
    proof
      fix v assume "v \<in> set (map snd er)"
      then obtain n where "(n, v) \<in> set er" by auto
      with p obtain obj where "standard_expert obj"
        and "v = recorded_result n (snd (BaseExpertAgent_process rt obj req))"
        unfolding produced_by_experts_def by blast
      with recorded_result_plain show "\<exists>r. v = PDict r
             \<and> (has_key ''error'' r
                  \<or> (\<not> has_key ''insights'' r \<and> \<not> has_key ''recommendations'' r
                      \<and> \<not> has_key ''metrics'' r))" by simp
    qed
    then have d: "\<forall>v \<in> set (map snd er). \<exists>r. v = PDict r" by blast
    have l: "synthesize_loop er ([], [], []) = Inr ([], [], [])"
      using plain by (rule synthesize_loop_plain)
    from synthesize_results_of_loop [OF l d] show ?thesis by simp
  qed
  from k s show ?thesis by blast
qed

theorem experts_feed_no_synthesis_fields_witness:
  "produced_by_experts sample_runtime (sample_request ''utility_management'' ''high energy usage'')
     [(''utility'', recorded_result ''utility''
         (snd (BaseExpertAgent_process sample_runtime UtilityManagementExpert
                 (sample_request ''utility_management'' ''high energy usage''))))]
   \<and> \<not> isl (snd (BaseExpertAgent_process sample_runtime UtilityManagementExpert
                 (sample_request ''utility_management'' ''high energy usage'')))
   \<and> map_of (synthesize_results (sample_request ''utility_management'' ''high energy usage'')
        [(''utility'', recorded_result ''utility''
            (snd (BaseExpertAgent_process sample_runtime UtilityManagementExpert
                    (sample_request ''utility_management'' ''high energy usage''))))])
        ''recommendations'' = Some (PList [])
   \<and> \<not> has_key ''recommendations'' (generate_utility_analysis ''high energy usage'' None)"
proof -
  have s: "standard_expert UtilityManagementExpert"
    by (simp add: standard_expert_def expert_classes_def instance_of_refl)
  have p: "produced_by_experts sample_runtime
     (sample_request ''utility_management'' ''high energy usage'')
     [(''utility'', recorded_result ''utility''
         (snd (BaseExpertAgent_process sample_runtime UtilityManagementExpert
                 (sample_request ''utility_management'' ''high energy usage''))))]"
    unfolding produced_by_experts_def using s by auto
  have c: "can_handle_request UtilityManagementExpert
             (sample_request ''utility_management'' ''high energy usage'')"
    by (simp add: can_handle_request_def UtilityManagementExpert_def sample_request_def
        get_or_def lower_def lower_char_def replace_space_def any_in_def Let_def)
  have a: "\<not> isl (snd (BaseExpertAgent_process sample_runtime UtilityManagementExpert
                 (sample_request ''utility_management'' ''high energy usage'')))"
    using standard_expert_accepts [OF s c, of sample_runtime] by auto
  from experts_feed_no_synthesis_fields [of "''high energy usage''" None sample_runtime
         "sample_request ''utility_management'' ''high energy usage''" _
         "sample_request ''utility_management'' ''high energy usage''"] p a
  show ?thesis by simp
qed

subsection \<open>The sample principal agent\<close>

text \<open>The sample principal agent is the constructed one after an \<^verbatim>\<open>initialize\<close> in which
  AutoGen accepts every agent.\<close>

lemma initialize_sample_principal: "initialize (\<lambda>n. True) PrincipalAgent = Inr sample_principal"
  by (simp add: initialize_def sample_principal_def)

subsection \<open>The publication step\<close>


lemma publish_results_queue [simp]:
  "publish_results rt (self\<lparr>publication_queue := q\<rparr>) resp = publish_results rt self resp"
  "publish_results rt (self\<lparr>workflow_history := h\<rparr>) resp = publish_results rt self resp"
  "publish_results rt (self\<lparr>expert_agents := reg\<rparr>) resp = publish_results rt self resp"
  by (simp_all add: publish_results_def)





subsection \<open>A principal agent whose reports are approved\<close>






text \<open>With the file streamer of the repository, which has no \<^verbatim>\<open>stream_data\<close>, the
  publication step raises as well.\<close>

lemma publish_results_FileStreamer:
  "file_streamer self = FileStreamer \<Longrightarrow>
     publish_results rt self resp
       = Inl (AttributeError ''FileStreamer object has no attribute stream_data'')"
  by (simp add: publish_results_def FileStreamer_def)

end
